(* ===== verification/ES_Prelude.thy ===== *)
theory ES_Prelude
  imports Main "HOL-Library.Sublist" "HOL-Library.AList"
begin

text \<open>
  Shared vocabulary of the development: the names of the model's basic types, the
  collections of facts the component theories add to, and generic lemmas on lists,
  prefixes and association lists that more than one component uses.
\<close>

section \<open>Types\<close>

type_synonym key = string
type_synonym seconds = int

section \<open>Fact collections\<close>

named_theorems es_ops \<open>defining equations of the wrapper's operations\<close>
named_theorems store_ops \<open>defining equations of a backing store's operations\<close>
named_theorems js_ops \<open>defining equations of the modelled JavaScript primitives\<close>

section \<open>Prefixes and derived keys\<close>

lemma prefix_append_self [simp]: "prefix p (p @ k)"
  by (simp add: prefix_def)

lemma append_eq_imp_prefix: "k = p @ k' \<Longrightarrow> prefix p k"
  by simp

lemma not_prefix_neq_append: "\<not> prefix p k \<Longrightarrow> k \<noteq> p @ k'"
  by auto

lemma prefix_drop_append: "prefix p k \<Longrightarrow> p @ drop (length p) k = k"
  by (auto simp: prefix_def)

section \<open>Folds over a fixed list of keys\<close>

lemma fold_preserves:
  assumes "P s" and "\<And>x s. x \<in> set xs \<Longrightarrow> P s \<Longrightarrow> P (f x s)"
  shows "P (fold f xs s)"
  using assms by (induction xs arbitrary: s) auto

lemma fold_id_on: "(\<And>x s. x \<in> set xs \<Longrightarrow> g (f x s) = g s) \<Longrightarrow> g (fold f xs s) = g s"
  by (induction xs arbitrary: s) auto

section \<open>Association lists as ordered dictionaries\<close>

lemma map_of_eq_None_keys: "map_of al k = None \<longleftrightarrow> k \<notin> set (map fst al)"
  by (simp add: map_of_eq_None_iff)

lemma set_keys_update: "set (map fst (AList.update k v al)) = insert k (set (map fst al))"
  using AList.dom_update [of k v al] by simp

lemma set_keys_delete: "set (map fst (AList.delete k al)) = set (map fst al) - {k}"
  by (simp add: AList.delete_keys)

lemma distinct_keys_update: "distinct (map fst al) \<Longrightarrow> distinct (map fst (AList.update k v al))"
  by (simp add: AList.distinct_update)

lemma distinct_keys_delete: "distinct (map fst al) \<Longrightarrow> distinct (map fst (AList.delete k al))"
  by (simp add: AList.distinct_delete)

lemma map_of_update_apply: "map_of (AList.update k v al) k' = (if k' = k then Some v else map_of al k')"
  by (simp add: AList.update_conv')

lemma map_of_delete_apply: "map_of (AList.delete k al) k' = (if k' = k then None else map_of al k')"
  by (simp add: AList.delete_conv')

lemmas alist_simps = map_of_update_apply map_of_delete_apply set_keys_update set_keys_delete
  distinct_keys_update distinct_keys_delete

end
