(* ===== verification/JS_Values.thy ===== *)
theory JS_Values
  imports ES_Prelude
begin

text \<open>
  The JavaScript values and primitive operations that \<^verbatim>\<open>expired_storage.js\<close> applies to
  its arguments and to what the backing store returns: truthiness (the tests
  \<^verbatim>\<open>if (expiration)\<close> and \<^verbatim>\<open>expireTime && ...\<close>), \<^verbatim>\<open>ToString\<close>, the addition
  operator of \<^verbatim>\<open>getTimestamp() + expiration\<close> and \<^verbatim>\<open>parseInt\<close>. They follow ECMAScript
  for the primitive values with integer numbers; objects, fractions and infinities are
  outside the model. The theory proves that \<^verbatim>\<open>parseInt\<close> reads back every integer from
  its decimal text, which is what makes an expiry instant survive a string-only store.
\<close>

section \<open>Values\<close>

datatype jsval = JUndefined | JNull | JBool bool | JNum int | JNaN | JStr string

fun truthy :: "jsval \<Rightarrow> bool" where
  "truthy JUndefined = False"
| "truthy JNull = False"
| "truthy (JBool b) = b"
| "truthy (JNum n) = (n \<noteq> 0)"
| "truthy JNaN = False"
| "truthy (JStr s) = (s \<noteq> [])"

fun is_string :: "jsval \<Rightarrow> bool" where
  "is_string (JStr s) = True"
| "is_string v = False"

section \<open>Numbers as decimal text\<close>

definition digit_char :: "nat \<Rightarrow> char" where
  "digit_char d = char_of (48 + d)"

fun nat_to_decimal :: "nat \<Rightarrow> string" where
  "nat_to_decimal n =
     (if n < 10 then [digit_char n] else nat_to_decimal (n div 10) @ [digit_char (n mod 10)])"

declare nat_to_decimal.simps [simp del]

definition int_to_decimal :: "int \<Rightarrow> string" where
  "int_to_decimal i = (if i < 0 then CHR ''-'' # nat_to_decimal (nat (- i)) else nat_to_decimal (nat i))"

fun js_ToString :: "jsval \<Rightarrow> string" where
  "js_ToString JUndefined = ''undefined''"
| "js_ToString JNull = ''null''"
| "js_ToString (JBool b) = (if b then ''true'' else ''false'')"
| "js_ToString (JNum n) = int_to_decimal n"
| "js_ToString JNaN = ''NaN''"
| "js_ToString (JStr s) = s"

section \<open>Addition\<close>

text \<open>
  \<^verbatim>\<open>a + b\<close>: when either operand is a string the result is the concatenation of the
  operands' texts; otherwise both are converted to numbers and added, where
  \<^verbatim>\<open>undefined\<close> and \<^verbatim>\<open>NaN\<close> poison the sum. \<open>nonstring_to_number\<close> is \<^verbatim>\<open>ToNumber\<close> on
  the primitives that are not strings and is applied to nothing else.
\<close>

fun nonstring_to_number :: "jsval \<Rightarrow> int option" where
  "nonstring_to_number JNull = Some 0"
| "nonstring_to_number (JBool b) = Some (if b then 1 else 0)"
| "nonstring_to_number (JNum n) = Some n"
| "nonstring_to_number v = None"

definition js_add :: "jsval \<Rightarrow> jsval \<Rightarrow> jsval" where
  "js_add a b =
     (if is_string a \<or> is_string b then JStr (js_ToString a @ js_ToString b)
      else case (nonstring_to_number a, nonstring_to_number b) of
             (Some m, Some n) \<Rightarrow> JNum (m + n)
           | _ \<Rightarrow> JNaN)"

section \<open>parseInt\<close>

definition is_js_whitespace :: "char \<Rightarrow> bool" where
  "is_js_whitespace c = ((of_char c :: nat) \<in> {9, 10, 11, 12, 13, 32})"

definition digit_val :: "nat \<Rightarrow> char \<Rightarrow> nat option" where
  "digit_val radix c =
     (let n = (of_char c :: nat);
          v = (if 48 \<le> n \<and> n \<le> 57 then n - 48
               else if 97 \<le> n \<and> n \<le> 122 then n - 87
               else if 65 \<le> n \<and> n \<le> 90 then n - 55
               else 36)
      in if v < radix then Some v else None)"

fun parse_digits :: "nat \<Rightarrow> string \<Rightarrow> nat \<Rightarrow> nat" where
  "parse_digits radix [] acc = acc"
| "parse_digits radix (c # cs) acc =
     (case digit_val radix c of
        None \<Rightarrow> acc
      | Some d \<Rightarrow> parse_digits radix cs (acc * radix + d))"

definition strip_sign :: "string \<Rightarrow> bool \<times> string" where
  "strip_sign s =
     (if prefix ''-'' s then (True, tl s) else if prefix ''+'' s then (False, tl s) else (False, s))"

definition strip_radix :: "string \<Rightarrow> nat \<times> string" where
  "strip_radix s = (if prefix ''0x'' s \<or> prefix ''0X'' s then (16, drop 2 s) else (10, s))"

definition parse_number :: "bool \<Rightarrow> nat \<Rightarrow> string \<Rightarrow> int option" where
  "parse_number negative radix s =
     (case s of
        [] \<Rightarrow> None
      | c # cs \<Rightarrow>
          (if digit_val radix c = None then None
           else Some ((if negative then - 1 else 1) * int (parse_digits radix s 0))))"

definition js_parseInt_string :: "string \<Rightarrow> int option" where
  "js_parseInt_string input =
     (let (negative, s2) = strip_sign (dropWhile is_js_whitespace input);
          (radix, s3) = strip_radix s2
      in parse_number negative radix s3)"

definition js_parseInt :: "jsval \<Rightarrow> int option" where
  "js_parseInt v = js_parseInt_string (js_ToString v)"

text \<open>
  Decimal texts, as \<open>nat_to_decimal\<close> prints them: the inputs on which \<^verbatim>\<open>parseInt\<close>
  is shown to invert \<^verbatim>\<open>ToString\<close>.
\<close>

definition is_digit_char :: "char \<Rightarrow> bool" where
  "is_digit_char c = (48 \<le> (of_char c :: nat) \<and> (of_char c :: nat) \<le> 57)"

definition is_decimal :: "string \<Rightarrow> bool" where
  "is_decimal s = (s \<noteq> [] \<and> list_all is_digit_char s)"

lemmas [js_ops] = digit_char_def int_to_decimal_def js_add_def is_js_whitespace_def
  digit_val_def strip_sign_def strip_radix_def parse_number_def
  js_parseInt_string_def js_parseInt_def

section \<open>Reading back a printed integer\<close>

lemma of_char_digit_char [simp]: "d < 10 \<Longrightarrow> (of_char (digit_char d) :: nat) = 48 + d"
  by (simp add: digit_char_def)

lemma is_digit_char_digit_char [simp]: "d < 10 \<Longrightarrow> is_digit_char (digit_char d)"
  by (simp add: is_digit_char_def)

lemma digit_val_is_digit_char: "is_digit_char c \<Longrightarrow> digit_val 10 c = Some (of_char c - 48)"
  by (auto simp: digit_val_def is_digit_char_def Let_def)

lemma is_digit_char_not_special:
  assumes "is_digit_char c"
  shows "\<not> is_js_whitespace c" "c \<noteq> CHR ''-''" "c \<noteq> CHR ''+''" "c \<noteq> CHR ''x''" "c \<noteq> CHR ''X''"
  using assms by (auto simp: is_digit_char_def is_js_whitespace_def)

lemma is_decimal_Cons: "is_decimal s \<Longrightarrow> \<exists>c cs. s = c # cs \<and> is_digit_char c"
  by (cases s) (auto simp: is_decimal_def)

lemma is_decimal_nat_to_decimal: "is_decimal (nat_to_decimal n)"
proof (induction n rule: nat_to_decimal.induct)
  case (1 n)
  show ?case
  proof (cases "n < 10")
    case True
    then show ?thesis by (subst nat_to_decimal.simps) (simp add: is_decimal_def)
  next
    case False
    with "1.IH" have "is_decimal (nat_to_decimal (n div 10))" by simp
    then show ?thesis using False
      by (subst nat_to_decimal.simps) (simp add: is_decimal_def)
  qed
qed

lemma parse_digits_snoc:
  "list_all is_digit_char cs \<Longrightarrow> d < 10 \<Longrightarrow>
   parse_digits 10 (cs @ [digit_char d]) acc = parse_digits 10 cs acc * 10 + d"
  by (induction cs arbitrary: acc) (auto simp: digit_val_is_digit_char)

lemma parse_digits_nat_to_decimal: "parse_digits 10 (nat_to_decimal n) 0 = n"
proof (induction n rule: nat_to_decimal.induct)
  case (1 n)
  show ?case
  proof (cases "n < 10")
    case True
    then show ?thesis by (subst nat_to_decimal.simps) (simp add: digit_val_is_digit_char)
  next
    case False
    with "1.IH" have IH: "parse_digits 10 (nat_to_decimal (n div 10)) 0 = n div 10" by simp
    have "list_all is_digit_char (nat_to_decimal (n div 10))"
      using is_decimal_nat_to_decimal [of "n div 10"] by (simp add: is_decimal_def)
    then have "parse_digits 10 (nat_to_decimal (n div 10) @ [digit_char (n mod 10)]) 0
        = parse_digits 10 (nat_to_decimal (n div 10)) 0 * 10 + n mod 10"
      by (rule parse_digits_snoc) simp
    with IH False show ?thesis by (subst nat_to_decimal.simps) simp
  qed
qed

lemma parse_digits_acc:
  "list_all is_digit_char cs \<Longrightarrow>
   parse_digits 10 cs acc = acc * 10 ^ length cs + parse_digits 10 cs 0"
proof (induction cs arbitrary: acc)
  case Nil
  show ?case by simp
next
  case (Cons c cs)
  from Cons.prems have c: "digit_val 10 c = Some (of_char c - 48)" and cs: "list_all is_digit_char cs"
    by (simp_all add: digit_val_is_digit_char)
  show ?case
    using Cons.IH [OF cs, of "acc * 10 + (of_char c - 48)"] Cons.IH [OF cs, of "of_char c - 48"]
    by (simp add: c algebra_simps)
qed

lemma parse_digits_append:
  "list_all is_digit_char a \<Longrightarrow> list_all is_digit_char b \<Longrightarrow>
   parse_digits 10 (a @ b) acc = parse_digits 10 a acc * 10 ^ length b + parse_digits 10 b 0"
proof (induction a arbitrary: acc)
  case Nil
  then show ?case using parse_digits_acc [of b acc] by simp
next
  case (Cons c a)
  then show ?case by (simp add: digit_val_is_digit_char)
qed

lemma is_decimal_append: "is_decimal a \<Longrightarrow> is_decimal b \<Longrightarrow> is_decimal (a @ b)"
  by (simp add: is_decimal_def)

lemma strip_sign_decimal: "is_decimal s \<Longrightarrow> strip_sign s = (False, s)"
  by (auto simp: strip_sign_def is_decimal_def is_digit_char_def prefix_def)

lemma strip_sign_minus: "strip_sign (CHR ''-'' # s) = (True, s)"
  by (simp add: strip_sign_def)

lemma strip_radix_decimal: "is_decimal s \<Longrightarrow> strip_radix s = (10, s)"
  by (auto simp: strip_radix_def is_decimal_def prefix_def is_digit_char_def)

lemma parse_number_decimal:
  "is_decimal s \<Longrightarrow> parse_number neg 10 s = Some ((if neg then - 1 else 1) * int (parse_digits 10 s 0))"
  by (auto simp: parse_number_def digit_val_is_digit_char dest!: is_decimal_Cons)

lemma dropWhile_whitespace_decimal: "is_decimal s \<Longrightarrow> dropWhile is_js_whitespace s = s"
  by (auto simp: is_digit_char_not_special dest!: is_decimal_Cons)

lemma js_parseInt_string_decimal:
  "is_decimal s \<Longrightarrow> js_parseInt_string s = Some (int (parse_digits 10 s 0))"
  by (simp add: js_parseInt_string_def dropWhile_whitespace_decimal strip_sign_decimal
      strip_radix_decimal parse_number_decimal)

lemma js_parseInt_string_minus_decimal:
  "is_decimal s \<Longrightarrow> js_parseInt_string (CHR ''-'' # s) = Some (- int (parse_digits 10 s 0))"
  by (simp add: js_parseInt_string_def is_js_whitespace_def strip_sign_minus
      strip_radix_decimal parse_number_decimal)

lemma js_parseInt_string_int_to_decimal: "js_parseInt_string (int_to_decimal i) = Some i"
  by (simp add: int_to_decimal_def js_parseInt_string_decimal js_parseInt_string_minus_decimal
      is_decimal_nat_to_decimal parse_digits_nat_to_decimal)

theorem js_parseInt_JNum [simp]: "js_parseInt (JNum n) = Some n"
  by (simp add: js_parseInt_def js_parseInt_string_int_to_decimal)

lemma js_parseInt_decimal_text [simp]: "js_parseInt (JStr (int_to_decimal n)) = Some n"
  by (simp add: js_parseInt_def js_parseInt_string_int_to_decimal)

lemma js_parseInt_not_numeric [simp]:
  "js_parseInt JUndefined = None" "js_parseInt JNull = None" "js_parseInt JNaN = None"
  "js_parseInt (JBool b) = None" "js_parseInt (JStr []) = None"
  by (simp_all add: js_parseInt_def js_parseInt_string_def strip_sign_def strip_radix_def
      parse_number_def digit_val_def is_js_whitespace_def)

lemma js_parseInt_JStr_ToString [simp]: "js_parseInt (JStr (js_ToString v)) = js_parseInt v"
  by (simp add: js_parseInt_def)

text \<open>
  \<^verbatim>\<open>parseInt\<close> of a number with decimal digits appended to its text: the number is
  shifted by as many decimal places as there are digits.
\<close>

lemma js_parseInt_number_digits:
  assumes "0 \<le> n" and "is_decimal s"
  shows "js_parseInt (JStr (int_to_decimal n @ s)) = Some (n * 10 ^ length s + int (parse_digits 10 s 0))"
proof -
  have d: "is_decimal (nat_to_decimal (nat n))" by (rule is_decimal_nat_to_decimal)
  then have "parse_digits 10 (nat_to_decimal (nat n) @ s) 0
      = nat n * 10 ^ length s + parse_digits 10 s 0"
    using assms(2) by (simp add: parse_digits_append is_decimal_def parse_digits_nat_to_decimal)
  then show ?thesis
    using assms(1) is_decimal_append [OF d assms(2)]
    by (simp add: js_parseInt_def int_to_decimal_def js_parseInt_string_decimal)
qed

section \<open>Addition on the values the wrapper adds\<close>

lemma js_add_numbers [simp]: "js_add (JNum a) (JNum b) = JNum (a + b)"
  by (simp add: js_add_def)

lemma js_add_number_string [simp]: "js_add (JNum a) (JStr s) = JStr (int_to_decimal a @ s)"
  by (simp add: js_add_def)

lemma js_add_number_bool [simp]: "js_add (JNum a) (JBool b) = JNum (a + (if b then 1 else 0))"
  by (simp add: js_add_def)

lemma truthy_cases:
  "truthy v \<longleftrightarrow> (\<exists>n. v = JNum n \<and> n \<noteq> 0) \<or> v = JBool True \<or> (\<exists>s. v = JStr s \<and> s \<noteq> [])"
  by (cases v) auto

end
