(* ===== verification/JS_Objects.thy ===== *)
theory JS_Objects
  imports JS_Values
begin

text \<open>
  Plain JavaScript objects used as dictionaries, as the test suite's store and the JSON
  functions use them: a list of properties in creation order. Enumeration
  (\<^verbatim>\<open>for ... in\<close> with \<^verbatim>\<open>hasOwnProperty\<close>, \<^verbatim>\<open>Object.keys\<close>, \<^verbatim>\<open>JSON.stringify\<close>) does not follow
  creation order: property names that are array indices come first, in ascending
  numeric order, and the other names follow in creation order.
\<close>

section \<open>Definitions\<close>

text \<open>
  A property name is an array index when it is the canonical decimal text of an integer
  below \<open>2\<^sup>3\<^sup>2 - 1\<close>.
\<close>

definition is_array_index :: "key \<Rightarrow> bool" where
  "is_array_index k \<longleftrightarrow>
     is_decimal k \<and> nat_to_decimal (parse_digits 10 k 0) = k \<and>
     int (parse_digits 10 k 0) < 2 ^ 32 - 1"

definition own_property_keys :: "(key \<times> 'a) list \<Rightarrow> key list" where
  "own_property_keys obj =
     sort_key (\<lambda>k. parse_digits 10 k 0) (filter is_array_index (map fst obj)) @
     filter (\<lambda>k. \<not> is_array_index k) (map fst obj)"

text \<open>The properties themselves, in enumeration order.\<close>

definition own_properties :: "(key \<times> 'a) list \<Rightarrow> (key \<times> 'a) list" where
  "own_properties obj =
     sort_key (\<lambda>p. parse_digits 10 (fst p) 0) (filter (\<lambda>p. is_array_index (fst p)) obj) @
     filter (\<lambda>p. \<not> is_array_index (fst p)) obj"

text \<open>
  Defining properties one after the other, as the evaluation of an object literal and
  \<^verbatim>\<open>JSON.parse\<close> do: a name that is defined again keeps its place and takes the new value.
\<close>

definition define_properties :: "(key \<times> 'a) list \<Rightarrow> (key \<times> 'a) list" where
  "define_properties ms = fold (\<lambda>m obj. AList.update (fst m) (snd m) obj) ms []"

section \<open>Enumeration order\<close>

lemma set_own_property_keys [simp]: "set (own_property_keys obj) = set (map fst obj)"
  by (auto simp: own_property_keys_def)

lemma distinct_own_property_keys:
  "distinct (map fst obj) \<Longrightarrow> distinct (own_property_keys obj)"
  by (auto simp: own_property_keys_def distinct_map_filter)

lemma own_property_keys_no_index:
  "\<forall>k \<in> set (map fst obj). \<not> is_array_index k \<Longrightarrow> own_property_keys obj = map fst obj"
  by (simp add: own_property_keys_def filter_empty_conv)

lemma insort_key_map:
  "insort_key k (g x) (map g xs) = map g (insort_key (\<lambda>x. k (g x)) x xs)"
  by (induction xs) simp_all

lemma sort_key_map: "sort_key k (map g xs) = map g (sort_key (\<lambda>x. k (g x)) xs)"
  by (induction xs) (simp_all add: insort_key_map)

lemma map_fst_own_properties: "map fst (own_properties obj) = own_property_keys obj"
  by (simp add: own_properties_def own_property_keys_def filter_map sort_key_map o_def)

lemma own_properties_map:
  "own_properties (map (map_prod id f) obj) = map (map_prod id f) (own_properties obj)"
  by (simp add: own_properties_def filter_map sort_key_map o_def)

lemma own_properties_no_index:
  "\<forall>k \<in> set (map fst obj). \<not> is_array_index k \<Longrightarrow> own_properties obj = obj"
  by (simp add: own_properties_def filter_empty_conv filter_id_conv)

lemma own_properties_Nil [simp]: "own_properties [] = []"
  by (simp add: own_properties_def)

section \<open>Defining properties\<close>

lemma fold_update_distinct:
  "distinct (map fst (acc @ ms)) \<Longrightarrow>
   fold (\<lambda>m obj. AList.update (fst m) (snd m) obj) ms acc = acc @ ms"
proof (induction ms arbitrary: acc)
  case Nil
  show ?case by simp
next
  case (Cons m ms)
  then have "fst m \<notin> fst ` set acc" by auto
  then have "AList.update (fst m) (snd m) acc = acc @ [m]"
    by (induction acc) auto
  then show ?case using Cons.IH [of "acc @ [m]"] Cons.prems by simp
qed

lemma define_properties_distinct: "distinct (map fst ms) \<Longrightarrow> define_properties ms = ms"
  using fold_update_distinct [of "[]" ms] by (simp add: define_properties_def)

lemma distinct_fold_update:
  "distinct (map fst acc) \<Longrightarrow>
   distinct (map fst (fold (\<lambda>m obj. AList.update (fst m) (snd m) obj) ms acc))"
  by (induction ms arbitrary: acc) (simp_all add: distinct_keys_update)

lemma distinct_define_properties [simp]: "distinct (map fst (define_properties ms))"
  by (simp add: define_properties_def distinct_fold_update)

end
