(* ===== verification/JSON_Text.thy ===== *)
theory JSON_Text
  imports JS_Objects
begin

text \<open>
  \<^verbatim>\<open>JSON.stringify\<close> and \<^verbatim>\<open>JSON.parse\<close>, which \<^verbatim>\<open>setJson\<close> and \<^verbatim>\<open>getJson\<close> of
  \<^verbatim>\<open>expired_storage.js\<close> call, for the data the model has: primitives with integer
  numbers, arrays and plain objects. Strings are byte strings; a unicode escape above
  \<^verbatim>\<open>00ff\<close> and a number with a fraction or an exponent are outside the model and are
  rejected by the parser. The parser spends one unit of fuel for every value and every
  element it reads; \<open>JSON_parse\<close> gives it more fuel than the text has characters, and
  theory \<open>JSON_Fuel\<close> proves that this is always enough. This theory holds the
  definitions and the lemmas on strings, numbers and single steps of the parser; theory
  \<open>JSON_Roundtrip\<close> proves that a printed value is read back.
\<close>

section \<open>Data\<close>

text \<open>
  A JavaScript value as \<^verbatim>\<open>JSON.stringify\<close> sees it: a primitive, an array, or a plain
  object with its properties in creation order.
\<close>

datatype jsdata = Prim jsval | Arr "jsdata list" | Obj "(key \<times> jsdata) list"

section \<open>JSON.stringify\<close>

definition hex_digit :: "nat \<Rightarrow> char" where
  "hex_digit d = (if d < 10 then char_of (48 + d) else char_of (87 + d))"

text \<open>
  \<^verbatim>\<open>QuoteJSONString\<close>: the quotation mark, the backslash and the control characters are
  escaped, the five common control characters by their short forms.
\<close>

definition escape_char :: "char \<Rightarrow> string" where
  "escape_char c =
     (if c = CHR 0x22 then [CHR 0x5C, CHR 0x22]
      else if c = CHR 0x5C then [CHR 0x5C, CHR 0x5C]
      else if c = CHR 0x08 then [CHR 0x5C, CHR ''b'']
      else if c = CHR 0x0C then [CHR 0x5C, CHR ''f'']
      else if c = CHR 0x0A then [CHR 0x5C, CHR ''n'']
      else if c = CHR 0x0D then [CHR 0x5C, CHR ''r'']
      else if c = CHR 0x09 then [CHR 0x5C, CHR ''t'']
      else if (of_char c :: nat) < 32 then
        [CHR 0x5C, CHR ''u'', CHR ''0'', CHR ''0'', hex_digit (of_char c div 16),
         hex_digit (of_char c mod 16)]
      else [c])"

definition quote :: "string \<Rightarrow> string" where
  "quote s = CHR 0x22 # concat (map escape_char s) @ [CHR 0x22]"

fun join :: "string list \<Rightarrow> string" where
  "join [] = []"
| "join [x] = x"
| "join (x # y # ys) = x @ CHR '','' # join (y # ys)"

text \<open>
  The text of a primitive; \<open>None\<close> is the result \<^verbatim>\<open>undefined\<close>. \<^verbatim>\<open>NaN\<close> is written as
  \<^verbatim>\<open>null\<close>.
\<close>

fun serialize_prim :: "jsval \<Rightarrow> string option" where
  "serialize_prim JUndefined = None"
| "serialize_prim JNull = Some ''null''"
| "serialize_prim (JBool b) = Some (if b then ''true'' else ''false'')"
| "serialize_prim (JNum n) = Some (int_to_decimal n)"
| "serialize_prim JNaN = Some ''null''"
| "serialize_prim (JStr s) = Some (quote s)"

text \<open>
  An array element without a text is written as \<^verbatim>\<open>null\<close>; a property without a text is
  left out.
\<close>

definition element_text :: "string option \<Rightarrow> string" where
  "element_text t = (case t of None \<Rightarrow> ''null'' | Some s \<Rightarrow> s)"

definition member_text :: "key \<times> string option \<Rightarrow> string list" where
  "member_text m = (case snd m of None \<Rightarrow> [] | Some s \<Rightarrow> [quote (fst m) @ CHR '':'' # s])"

primrec serialize :: "jsdata \<Rightarrow> string option" where
  "serialize (Prim v) = serialize_prim v"
| "serialize (Arr vs) = Some (CHR ''['' # join (map (element_text \<circ> serialize) vs) @ '']'')"
| "serialize (Obj ms) =
     Some (CHR ''{'' #
           join (concat (map member_text (own_properties (map (map_prod id serialize) ms)))) @
           ''}'')"

text \<open>\<^verbatim>\<open>JSON.stringify(value)\<close> with one argument: a string, or \<^verbatim>\<open>undefined\<close>.\<close>

definition JSON_stringify :: "jsdata \<Rightarrow> jsval" where
  "JSON_stringify v = (case serialize v of None \<Rightarrow> JUndefined | Some s \<Rightarrow> JStr s)"

section \<open>JSON.parse\<close>

definition is_json_ws :: "char \<Rightarrow> bool" where
  "is_json_ws c = ((of_char c :: nat) \<in> {9, 10, 13, 32})"

definition skip_ws :: "string \<Rightarrow> string" where
  "skip_ws s = dropWhile is_json_ws s"

definition simple_escape :: "char \<Rightarrow> char option" where
  "simple_escape e =
     (if e = CHR 0x22 then Some (CHR 0x22)
      else if e = CHR 0x5C then Some (CHR 0x5C)
      else if e = CHR ''/'' then Some (CHR ''/'')
      else if e = CHR ''b'' then Some (CHR 0x08)
      else if e = CHR ''f'' then Some (CHR 0x0C)
      else if e = CHR ''n'' then Some (CHR 0x0A)
      else if e = CHR ''r'' then Some (CHR 0x0D)
      else if e = CHR ''t'' then Some (CHR 0x09)
      else None)"

definition unicode_escape :: "string \<Rightarrow> char option" where
  "unicode_escape h =
     (if length h = 4 \<and> list_all (\<lambda>c. digit_val 16 c \<noteq> None) h \<and> parse_digits 16 h 0 < 256
      then Some (char_of (parse_digits 16 h 0)) else None)"

text \<open>
  The characters of a string after its opening quotation mark, up to the closing one:
  the string and the rest of the text.
\<close>

fun parse_chars :: "string \<Rightarrow> (string \<times> string) option" where
  "parse_chars [] = None"
| "parse_chars (c # cs) =
     (if c = CHR 0x22 then Some ([], cs)
      else if c = CHR 0x5C then
        (case cs of
           [] \<Rightarrow> None
         | e # r \<Rightarrow>
             if e = CHR ''u'' then
               (case unicode_escape (take 4 r) of
                  None \<Rightarrow> None
                | Some ch \<Rightarrow> map_option (apfst ((#) ch)) (parse_chars (drop 4 r)))
             else
               (case simple_escape e of
                  None \<Rightarrow> None
                | Some ch \<Rightarrow> map_option (apfst ((#) ch)) (parse_chars r)))
      else if (of_char c :: nat) < 32 then None
      else map_option (apfst ((#) c)) (parse_chars cs))"

text \<open>
  A number: an optional minus sign and decimal digits without a superfluous leading
  zero. A fraction or an exponent is outside the model.
\<close>

definition parse_json_number :: "string \<Rightarrow> (int \<times> string) option" where
  "parse_json_number s =
     (let negative = prefix ''-'' s;
          s1 = (if negative then tl s else s);
          ds = takeWhile is_digit_char s1;
          r = dropWhile is_digit_char s1
      in if ds = [] then None
         else if prefix ''0'' ds \<and> 1 < length ds then None
         else if prefix ''.'' r \<or> prefix ''e'' r \<or> prefix ''E'' r then None
         else Some ((if negative then - 1 else 1) * int (parse_digits 10 ds 0), r))"

text \<open>A value that is not an array or an object: a string, a literal or a number.\<close>

definition parse_scalar :: "string \<Rightarrow> (jsdata \<times> string) option" where
  "parse_scalar t =
     (if prefix [CHR 0x22] t then map_option (apfst (Prim \<circ> JStr)) (parse_chars (tl t))
      else if prefix ''null'' t then Some (Prim JNull, drop 4 t)
      else if prefix ''true'' t then Some (Prim (JBool True), drop 4 t)
      else if prefix ''false'' t then Some (Prim (JBool False), drop 5 t)
      else map_option (apfst (Prim \<circ> JNum)) (parse_json_number t))"

text \<open>
  The recursive descent: a value, the elements of an array after its opening bracket,
  the members of an object after its opening brace. Each returns what it read and the
  rest of the text; the first argument is the fuel.
\<close>

fun parse_value :: "nat \<Rightarrow> string \<Rightarrow> (jsdata \<times> string) option"
  and parse_elements :: "nat \<Rightarrow> string \<Rightarrow> (jsdata list \<times> string) option"
  and parse_members :: "nat \<Rightarrow> string \<Rightarrow> ((key \<times> jsdata) list \<times> string) option" where
  "parse_value 0 s = None"
| "parse_value (Suc n) s =
     (let t = skip_ws s in
      if prefix ''['' t then
        (if prefix '']'' (skip_ws (tl t)) then Some (Arr [], tl (skip_ws (tl t)))
         else map_option (apfst Arr) (parse_elements n (tl t)))
      else if prefix ''{'' t then
        (if prefix ''}'' (skip_ws (tl t)) then Some (Obj [], tl (skip_ws (tl t)))
         else map_option (apfst (Obj \<circ> define_properties)) (parse_members n (tl t)))
      else parse_scalar t)"
| "parse_elements 0 s = None"
| "parse_elements (Suc n) s =
     (case parse_value n s of
        None \<Rightarrow> None
      | Some (v, r) \<Rightarrow>
          if prefix '','' (skip_ws r)
          then map_option (apfst ((#) v)) (parse_elements n (tl (skip_ws r)))
          else if prefix '']'' (skip_ws r) then Some ([v], tl (skip_ws r))
          else None)"
| "parse_members 0 s = None"
| "parse_members (Suc n) s =
     (let t = skip_ws s in
      if \<not> prefix [CHR 0x22] t then None
      else
        (case parse_chars (tl t) of
           None \<Rightarrow> None
         | Some (k, r1) \<Rightarrow>
             if \<not> prefix '':'' (skip_ws r1) then None
             else
               (case parse_value n (tl (skip_ws r1)) of
                  None \<Rightarrow> None
                | Some (v, r2) \<Rightarrow>
                    if prefix '','' (skip_ws r2)
                    then map_option (apfst ((#) (k, v))) (parse_members n (tl (skip_ws r2)))
                    else if prefix ''}'' (skip_ws r2) then Some ([(k, v)], tl (skip_ws r2))
                    else None)))"

text \<open>
  \<^verbatim>\<open>JSON.parse(text)\<close>: one value, with nothing but whitespace after it; \<open>None\<close> is a
  \<^verbatim>\<open>SyntaxError\<close>.
\<close>

definition JSON_parse :: "string \<Rightarrow> jsdata option" where
  "JSON_parse text =
     (case parse_value (Suc (length text)) text of
        None \<Rightarrow> None
      | Some (v, r) \<Rightarrow> if skip_ws r = [] then Some v else None)"

section \<open>The value that is read back\<close>

text \<open>
  What \<^verbatim>\<open>JSON.parse(JSON.stringify(v))\<close> is, defined on the value: \<^verbatim>\<open>NaN\<close> becomes
  \<^verbatim>\<open>null\<close>, \<^verbatim>\<open>undefined\<close> becomes \<^verbatim>\<open>null\<close> in an array and disappears from an object,
  and the properties of an object come in enumeration order. \<open>None\<close> is \<^verbatim>\<open>undefined\<close>,
  for which there is no text.
\<close>

definition element_value :: "jsdata option \<Rightarrow> jsdata" where
  "element_value u = (case u of None \<Rightarrow> Prim JNull | Some v \<Rightarrow> v)"

definition member_value :: "key \<times> jsdata option \<Rightarrow> (key \<times> jsdata) list" where
  "member_value m = (case snd m of None \<Rightarrow> [] | Some v \<Rightarrow> [(fst m, v)])"

primrec reparsed :: "jsdata \<Rightarrow> jsdata option" where
  "reparsed (Prim p) =
     (if p = JUndefined then None else Some (Prim (if p = JNaN then JNull else p)))"
| "reparsed (Arr vs) = Some (Arr (map (element_value \<circ> reparsed) vs))"
| "reparsed (Obj ms) =
     Some (Obj (define_properties
       (concat (map member_value (own_properties (map (map_prod id reparsed) ms))))))"

text \<open>
  The values \<^verbatim>\<open>JSON.parse\<close> gives back as they are: no \<^verbatim>\<open>undefined\<close> and no \<^verbatim>\<open>NaN\<close>
  anywhere, and in every object no property name twice and the properties in
  enumeration order.
\<close>

primrec canonical :: "jsdata \<Rightarrow> bool" where
  "canonical (Prim v) = (v \<noteq> JUndefined \<and> v \<noteq> JNaN)"
| "canonical (Arr vs) = list_all id (map canonical vs)"
| "canonical (Obj ms) =
     (distinct (map fst ms) \<and> own_properties ms = ms \<and>
      list_all snd (map (map_prod id canonical) ms))"

text \<open>What may follow the text of a number: the end, a comma or a closing bracket.\<close>

definition delimited :: "string \<Rightarrow> bool" where
  "delimited rest \<longleftrightarrow> rest = [] \<or> hd rest \<in> {CHR '','', CHR '']'', CHR ''}''}"

lemmas [js_ops] = hex_digit_def escape_char_def quote_def element_text_def member_text_def
  JSON_stringify_def is_json_ws_def skip_ws_def simple_escape_def unicode_escape_def
  parse_json_number_def parse_scalar_def JSON_parse_def element_value_def member_value_def

section \<open>Strings\<close>

lemma of_char_hex_digit: "d < 16 \<Longrightarrow> (of_char (hex_digit d) :: nat) = (if d < 10 then 48 + d else 87 + d)"
  by (simp add: hex_digit_def)

lemma digit_val_hex_digit: "d < 16 \<Longrightarrow> digit_val 16 (hex_digit d) = Some d"
  by (simp add: digit_val_def of_char_hex_digit Let_def)

lemma digit_val_zero: "digit_val 16 CHR ''0'' = Some 0"
  by (simp add: digit_val_def)

lemma unicode_escape_control:
  assumes "(of_char c :: nat) < 32"
  shows "unicode_escape [CHR ''0'', CHR ''0'', hex_digit (of_char c div 16), hex_digit (of_char c mod 16)] = Some c"
proof -
  have "(of_char c :: nat) div 16 < 16" using assms by simp
  then show ?thesis
    using assms by (simp add: unicode_escape_def digit_val_hex_digit digit_val_zero)
qed

lemma parse_chars_escape_char:
  "parse_chars (escape_char c @ t) = map_option (apfst ((#) c)) (parse_chars t)"
proof (cases "(of_char c :: nat) < 32")
  case True
  then show ?thesis
    by (auto simp: escape_char_def simple_escape_def unicode_escape_control)
next
  case False
  then show ?thesis
    by (auto simp: escape_char_def simple_escape_def)
qed

lemma parse_chars_end [simp]: "parse_chars (CHR 0x22 # rest) = Some ([], rest)"
  by simp

lemma parse_chars_escaped:
  "parse_chars (concat (map escape_char s) @ CHR 0x22 # rest) = Some (s, rest)"
  by (induction s) (simp_all add: parse_chars_escape_char del: parse_chars.simps(2))

lemma parse_chars_quote: "parse_chars (tl (quote s) @ rest) = Some (s, rest)"
  by (simp add: quote_def parse_chars_escaped del: parse_chars.simps)

section \<open>Numbers\<close>

lemma delimited_simps [simp]:
  "delimited []" "delimited (CHR '','' # r)" "delimited (CHR '']'' # r)" "delimited (CHR ''}'' # r)"
  by (simp_all add: delimited_def)

lemma delimited_no_digit:
  "delimited rest \<Longrightarrow> takeWhile is_digit_char rest = [] \<and> dropWhile is_digit_char rest = rest"
  by (cases rest) (auto simp: delimited_def is_digit_char_def)

lemma span_digits:
  assumes "list_all is_digit_char ds" and "delimited rest"
  shows "takeWhile is_digit_char (ds @ rest) = ds" and "dropWhile is_digit_char (ds @ rest) = rest"
proof -
  have all: "\<And>x. x \<in> set ds \<Longrightarrow> is_digit_char x" using assms(1) by (simp add: list_all_iff)
  show "takeWhile is_digit_char (ds @ rest) = ds"
    using delimited_no_digit [OF assms(2)] by (simp add: takeWhile_append2 [OF all])
  show "dropWhile is_digit_char (ds @ rest) = rest"
    using delimited_no_digit [OF assms(2)] by (simp add: dropWhile_append2 [OF all])
qed

lemma nat_to_decimal_leading_zero:
  "prefix ''0'' (nat_to_decimal n) \<Longrightarrow> length (nat_to_decimal n) = 1"
proof (induction n rule: nat_to_decimal.induct)
  case (1 n)
  show ?case
  proof (cases "n < 10")
    case True
    then show ?thesis by (simp add: nat_to_decimal.simps [of n])
  next
    case False
    then have "prefix ''0'' (nat_to_decimal (n div 10))"
      using "1.prems" is_decimal_nat_to_decimal [of "n div 10"]
      by (cases "nat_to_decimal (n div 10)") (auto simp: nat_to_decimal.simps [of n] is_decimal_def)
    then have "length (nat_to_decimal (n div 10)) = 1" using 1 False by simp
    then have "nat_to_decimal (n div 10) = ''0''"
      using \<open>prefix ''0'' (nat_to_decimal (n div 10))\<close>
      by (cases "nat_to_decimal (n div 10)") auto
    then have "parse_digits 10 (nat_to_decimal (n div 10)) 0 = 0" by (simp add: digit_val_def)
    then have "n div 10 = 0" by (simp add: parse_digits_nat_to_decimal)
    then show ?thesis using False by simp
  qed
qed

lemma parse_json_number_nat:
  assumes "delimited rest"
  shows "parse_json_number (nat_to_decimal n @ rest) = Some (int n, rest)"
proof -
  have d: "list_all is_digit_char (nat_to_decimal n)" "nat_to_decimal n \<noteq> []"
    using is_decimal_nat_to_decimal [of n] by (simp_all add: is_decimal_def)
  then have np: "\<not> prefix ''-'' (nat_to_decimal n @ rest)"
    by (cases "nat_to_decimal n") (auto simp: is_digit_char_def)
  have r: "\<not> (prefix ''.'' rest \<or> prefix ''e'' rest \<or> prefix ''E'' rest)"
    using assms by (cases rest) (auto simp: delimited_def)
  show ?thesis
    using d np r nat_to_decimal_leading_zero [of n]
    by (auto simp: parse_json_number_def Let_def span_digits [OF d(1) assms]
          parse_digits_nat_to_decimal)
qed

lemma parse_json_number_int:
  assumes "delimited rest"
  shows "parse_json_number (int_to_decimal i @ rest) = Some (i, rest)"
proof (cases "i < 0")
  case False
  then show ?thesis
    using parse_json_number_nat [OF assms, of "nat i"] by (simp add: int_to_decimal_def)
next
  case True
  have d: "list_all is_digit_char (nat_to_decimal (nat (- i)))" "nat_to_decimal (nat (- i)) \<noteq> []"
    using is_decimal_nat_to_decimal [of "nat (- i)"] by (simp_all add: is_decimal_def)
  have r: "\<not> (prefix ''.'' rest \<or> prefix ''e'' rest \<or> prefix ''E'' rest)"
    using assms by (cases rest) (auto simp: delimited_def)
  show ?thesis
    using True d r nat_to_decimal_leading_zero [of "nat (- i)"]
    by (auto simp: parse_json_number_def Let_def int_to_decimal_def span_digits [OF d(1) assms]
          parse_digits_nat_to_decimal)
qed

section \<open>One step of the parser\<close>

lemma skip_ws_Cons [simp]: "\<not> is_json_ws c \<Longrightarrow> skip_ws (c # r) = c # r"
  by (simp add: skip_ws_def)

lemma skip_ws_Nil [simp]: "skip_ws [] = []"
  by (simp add: skip_ws_def)

lemma not_ws_punctuation [simp]:
  "\<not> is_json_ws CHR '',''" "\<not> is_json_ws CHR '']''" "\<not> is_json_ws CHR ''}''"
  "\<not> is_json_ws CHR '':''" "\<not> is_json_ws CHR 0x22" "\<not> is_json_ws CHR ''[''"
  "\<not> is_json_ws CHR ''{''"
  by (simp_all add: is_json_ws_def)

lemma parse_elements_Suc_iff:
  "parse_elements (Suc n) s = Some (vs, r) \<longleftrightarrow>
     (\<exists>v r1. parse_value n s = Some (v, r1) \<and>
        (if prefix '','' (skip_ws r1)
         then \<exists>vs'. parse_elements n (tl (skip_ws r1)) = Some (vs', r) \<and> vs = v # vs'
         else prefix '']'' (skip_ws r1) \<and> vs = [v] \<and> r = tl (skip_ws r1)))"
  by (auto split: option.splits)

lemma parse_members_Suc_iff:
  "parse_members (Suc n) s = Some (ms, r) \<longleftrightarrow>
     (\<exists>k r1 v r2. prefix [CHR 0x22] (skip_ws s) \<and> parse_chars (tl (skip_ws s)) = Some (k, r1) \<and>
        prefix '':'' (skip_ws r1) \<and> parse_value n (tl (skip_ws r1)) = Some (v, r2) \<and>
        (if prefix '','' (skip_ws r2)
         then \<exists>ms'. parse_members n (tl (skip_ws r2)) = Some (ms', r) \<and> ms = (k, v) # ms'
         else prefix ''}'' (skip_ws r2) \<and> ms = [(k, v)] \<and> r = tl (skip_ws r2)))"
  by (auto simp: Let_def split: option.splits)

lemma parse_value_Suc_iff:
  "parse_value (Suc n) s = Some (v, r) \<longleftrightarrow>
     (if prefix ''['' (skip_ws s) then
        (if prefix '']'' (skip_ws (tl (skip_ws s)))
         then v = Arr [] \<and> r = tl (skip_ws (tl (skip_ws s)))
         else \<exists>vs. parse_elements n (tl (skip_ws s)) = Some (vs, r) \<and> v = Arr vs)
      else if prefix ''{'' (skip_ws s) then
        (if prefix ''}'' (skip_ws (tl (skip_ws s)))
         then v = Obj [] \<and> r = tl (skip_ws (tl (skip_ws s)))
         else \<exists>ms. parse_members n (tl (skip_ws s)) = Some (ms, r) \<and> v = Obj (define_properties ms))
      else parse_scalar (skip_ws s) = Some (v, r))"
  by (auto simp: Let_def)

lemmas parse_Suc_iff = parse_value_Suc_iff parse_elements_Suc_iff parse_members_Suc_iff

declare parse_value.simps(2) [simp del] parse_elements.simps(2) [simp del]
  parse_members.simps(2) [simp del]

end
