(* ===== verification/JSON_Roundtrip.thy ===== *)
theory JSON_Roundtrip
  imports JSON_Text
begin

text \<open>
  \<^verbatim>\<open>JSON.parse\<close> after \<^verbatim>\<open>JSON.stringify\<close>: the text of every value is read as the value
  \<open>reparsed\<close> defines, and as the value itself when it is \<open>canonical\<close>. The proof
  follows the printer: primitives, then arrays and objects as lists of texts that are
  each read as a value.
\<close>

section \<open>Definitions\<close>

text \<open>
  \<open>starts_value\<close>: the text begins with a character that is neither whitespace nor a
  closing bracket, as every text of \<open>serialize\<close> does; \<open>starts_scalar\<close>: nor is it an
  opening bracket.
\<close>

definition starts_value :: "string \<Rightarrow> bool" where
  "starts_value t \<longleftrightarrow>
     t \<noteq> [] \<and> \<not> is_json_ws (hd t) \<and> hd t \<noteq> CHR '']'' \<and> hd t \<noteq> CHR ''}''"

definition starts_scalar :: "string \<Rightarrow> bool" where
  "starts_scalar t \<longleftrightarrow> starts_value t \<and> hd t \<noteq> CHR ''['' \<and> hd t \<noteq> CHR ''{''"

text \<open>
  \<open>reads_as t v\<close>: the text \<open>t\<close>, followed by the end of the text or by a comma or a
  closing bracket, is read as \<open>v\<close> by any fuel above its length.
\<close>

definition reads_as :: "string \<Rightarrow> jsdata \<Rightarrow> bool" where
  "reads_as t v \<longleftrightarrow>
     (\<forall>n rest. length t < n \<longrightarrow> delimited rest \<longrightarrow> parse_value n (t @ rest) = Some (v, rest))"

text \<open>A member of an object: its name, the text of its value, and the value.\<close>

definition member_of :: "key \<times> string \<times> jsdata \<Rightarrow> string" where
  "member_of m = quote (fst m) @ CHR '':'' # fst (snd m)"

text \<open>The elements of an array: the text of each with the value it is read as.\<close>

definition element_of :: "jsdata \<Rightarrow> string \<times> jsdata" where
  "element_of v = (element_text (serialize v), element_value (reparsed v))"

text \<open>The members of an object that have a text, as triples.\<close>

definition members_of :: "(key \<times> jsdata) list \<Rightarrow> (key \<times> string \<times> jsdata) list" where
  "members_of ps =
     concat (map (\<lambda>p. case serialize (snd p) of
                          None \<Rightarrow> []
                        | Some t \<Rightarrow> [(fst p, t, element_value (reparsed (snd p)))]) ps)"

text \<open>
  \<open>printed_ok v\<close>: when \<open>v\<close> has a text, the text starts as a value does and is read as
  \<open>reparsed v\<close>.
\<close>

definition printed_ok :: "jsdata \<Rightarrow> bool" where
  "printed_ok v \<longleftrightarrow>
     (\<forall>t. serialize v = Some t \<longrightarrow>
        starts_value t \<and> reads_as t (element_value (reparsed v)))"

section \<open>The first character of a text\<close>

lemma starts_value_Cons [simp]:
  "starts_value (c # r) \<longleftrightarrow> \<not> is_json_ws c \<and> c \<noteq> CHR '']'' \<and> c \<noteq> CHR ''}''"
  by (simp add: starts_value_def)

lemma starts_scalar_Cons [simp]:
  "starts_scalar (c # r) \<longleftrightarrow> starts_value (c # r) \<and> c \<noteq> CHR ''['' \<and> c \<noteq> CHR ''{''"
  by (simp add: starts_scalar_def)

lemma starts_value_append [simp]: "starts_value t \<Longrightarrow> starts_value (t @ r)"
  by (cases t) (simp_all add: starts_value_def)

lemma starts_scalar_append [simp]: "starts_scalar t \<Longrightarrow> starts_scalar (t @ r)"
  by (cases t) (simp_all add: starts_scalar_def starts_value_def)

lemma starts_scalar_value: "starts_scalar t \<Longrightarrow> starts_value t"
  by (simp add: starts_scalar_def)

lemma skip_ws_starts_value [simp]: "starts_value t \<Longrightarrow> skip_ws t = t"
  by (cases t) (simp_all add: starts_value_def)

lemma starts_value_not_closing:
  "starts_value t \<Longrightarrow> \<not> prefix '']'' t \<and> \<not> prefix ''}'' t"
  by (cases t) (auto simp: starts_value_def)

lemma starts_scalar_not_opening:
  "starts_scalar t \<Longrightarrow> \<not> prefix ''['' t \<and> \<not> prefix ''{'' t"
  by (cases t) (auto simp: starts_scalar_def)

lemma starts_value_join: "ts \<noteq> [] \<Longrightarrow> starts_value (hd ts) \<Longrightarrow> starts_value (join ts)"
  by (cases ts rule: join.cases) simp_all

lemma int_to_decimal_head:
  "\<exists>c r. int_to_decimal i = c # r \<and> (is_digit_char c \<or> c = CHR ''-'')"
proof -
  have "\<exists>c r. nat_to_decimal n = c # r \<and> is_digit_char c" for n
    using is_decimal_nat_to_decimal [of n] by (cases "nat_to_decimal n") (auto simp: is_decimal_def)
  from this [of "nat i"] show ?thesis by (auto simp: int_to_decimal_def)
qed

lemma number_start_not_special:
  assumes "is_digit_char c \<or> c = CHR ''-''"
  shows "\<not> is_json_ws c" "c \<noteq> CHR ''[''" "c \<noteq> CHR ''{''" "c \<noteq> CHR '']''" "c \<noteq> CHR ''}''"
    "c \<noteq> CHR 0x22" "c \<noteq> CHR ''n''" "c \<noteq> CHR ''t''" "c \<noteq> CHR ''f''"
  using assms by (auto simp: is_digit_char_def is_json_ws_def)

lemma starts_scalar_prim: "serialize_prim p = Some t \<Longrightarrow> starts_scalar t"
proof (cases p)
  case (JNum i)
  assume a: "serialize_prim p = Some t"
  obtain c r where cr: "int_to_decimal i = c # r" "is_digit_char c \<or> c = CHR ''-''"
    using int_to_decimal_head by blast
  have "t = c # r" using a JNum cr(1) by simp
  then show ?thesis
    using number_start_not_special(1-5) [OF cr(2)] by simp
next
  case (JBool b)
  assume "serialize_prim p = Some t"
  then show ?thesis using JBool by (cases b) (auto simp: is_json_ws_def)
qed (auto simp: quote_def is_json_ws_def)

lemma starts_value_serialize: "serialize v = Some t \<Longrightarrow> starts_value t"
  by (cases v) (auto simp: starts_scalar_prim starts_scalar_value)

section \<open>Primitives\<close>

lemma parse_value_scalar:
  "starts_scalar t \<Longrightarrow> parse_value (Suc n) t = parse_scalar t"
  by (simp add: parse_value.simps(2) starts_scalar_not_opening starts_scalar_value)

lemma parse_scalar_number:
  assumes "delimited rest"
  shows "parse_scalar (int_to_decimal i @ rest) = Some (Prim (JNum i), rest)"
proof -
  obtain c r where cr: "int_to_decimal i = c # r" "is_digit_char c \<or> c = CHR ''-''"
    using int_to_decimal_head by blast
  have "parse_scalar (c # r @ rest) =
          map_option (apfst (Prim \<circ> JNum)) (parse_json_number (c # r @ rest))"
    using number_start_not_special(6-9) [OF cr(2)] by (simp add: parse_scalar_def)
  then show ?thesis
    using parse_json_number_int [OF assms, of i] by (simp add: cr(1))
qed

lemma parse_scalar_string: "parse_scalar (quote s @ rest) = Some (Prim (JStr s), rest)"
  by (simp add: parse_scalar_def quote_def parse_chars_escaped del: parse_chars.simps)

section \<open>What a printed value is read as\<close>

lemma reads_asD:
  "reads_as t v \<Longrightarrow> length t < n \<Longrightarrow> delimited rest \<Longrightarrow>
   parse_value n (t @ rest) = Some (v, rest)"
  by (simp add: reads_as_def)

lemma reads_asI:
  assumes "\<And>m rest. length t < Suc m \<Longrightarrow> delimited rest \<Longrightarrow>
             parse_value (Suc m) (t @ rest) = Some (v, rest)"
  shows "reads_as t v"
  unfolding reads_as_def
proof (intro allI impI)
  fix n rest
  assume a: "length t < n" "delimited rest"
  then obtain m where "n = Suc m" by (cases n) auto
  then show "parse_value n (t @ rest) = Some (v, rest)" using assms a by simp
qed

lemma parse_scalar_null: "parse_scalar (''null'' @ rest) = Some (Prim JNull, rest)"
  by (simp add: parse_scalar_def)

lemma parse_scalar_bool:
  "parse_scalar ((if b then ''true'' else ''false'') @ rest) = Some (Prim (JBool b), rest)"
  by (simp add: parse_scalar_def)

lemma parse_scalar_serialize_prim:
  assumes "serialize_prim p = Some t" and "delimited rest"
  shows "parse_scalar (t @ rest) = Some (Prim (if p = JNaN then JNull else p), rest)"
  using assms
  by (cases p) (auto simp: parse_scalar_null parse_scalar_bool parse_scalar_number
      parse_scalar_string simp del: append.simps)

lemma reads_as_prim:
  assumes "serialize_prim p = Some t"
  shows "reads_as t (Prim (if p = JNaN then JNull else p))"
proof (rule reads_asI)
  fix m rest
  assume "delimited rest"
  moreover have "starts_scalar (t @ rest)" using assms by (simp add: starts_scalar_prim)
  ultimately show "parse_value (Suc m) (t @ rest) = Some (Prim (if p = JNaN then JNull else p), rest)"
    using assms by (simp only: parse_value_scalar parse_scalar_serialize_prim)
qed

lemma reads_as_null: "reads_as ''null'' (Prim JNull)"
  using reads_as_prim [of JNull] by simp

section \<open>Arrays\<close>

lemma parse_value_array:
  "starts_value body \<Longrightarrow>
   parse_value (Suc m) (CHR ''['' # body) = map_option (apfst Arr) (parse_elements m body)"
  by (simp add: parse_value.simps(2) starts_value_not_closing)

lemma parse_elements_last:
  "parse_value m s = Some (v, CHR '']'' # rest) \<Longrightarrow> parse_elements (Suc m) s = Some ([v], rest)"
  by (simp add: parse_elements.simps(2))

lemma parse_elements_next:
  "parse_value m s = Some (v, CHR '','' # r) \<Longrightarrow> parse_elements m r = Some (vs, rest) \<Longrightarrow>
   parse_elements (Suc m) s = Some (v # vs, rest)"
  by (simp add: parse_elements.simps(2))

lemma parse_elements_texts:
  assumes "tvs \<noteq> []" and "\<forall>p\<in>set tvs. reads_as (fst p) (snd p)"
    and "length (join (map fst tvs)) + 1 < n"
  shows "parse_elements n (join (map fst tvs) @ CHR '']'' # rest) = Some (map snd tvs, rest)"
  using assms
proof (induction tvs arbitrary: n rule: list_nonempty_induct)
  case (single p)
  obtain m where n: "n = Suc m" "length (fst p) < m"
    using single by (cases n) auto
  have "parse_value m (fst p @ CHR '']'' # rest) = Some (snd p, CHR '']'' # rest)"
    using single n by (simp add: reads_asD)
  then show ?case by (simp add: n parse_elements_last)
next
  case (cons p tvs)
  obtain q qs where tvs: "tvs = q # qs" using cons.hyps by (cases tvs) auto
  let ?tail = "join (map fst tvs)"
  have shape: "join (map fst (p # tvs)) = fst p @ CHR '','' # ?tail"
    by (simp add: tvs)
  obtain m where n: "n = Suc m" "length (fst p) < m" "length ?tail + 1 < m"
    using cons.prems(2) unfolding shape by (cases n) auto
  have "parse_value m (fst p @ CHR '','' # ?tail @ CHR '']'' # rest) =
          Some (snd p, CHR '','' # ?tail @ CHR '']'' # rest)"
    using cons.prems n by (simp add: reads_asD)
  moreover have "parse_elements m (?tail @ CHR '']'' # rest) = Some (map snd tvs, rest)"
  proof (rule cons.IH)
    show "\<forall>p\<in>set tvs. reads_as (fst p) (snd p)" using cons.prems(1) by simp
    show "length ?tail + 1 < m" by (rule n(3))
  qed
  ultimately show ?case unfolding shape n(1) by (simp add: parse_elements_next)
qed

lemma reads_as_array:
  assumes "\<forall>p\<in>set tvs. reads_as (fst p) (snd p) \<and> starts_value (fst p)"
  shows "reads_as (CHR ''['' # join (map fst tvs) @ '']'') (Arr (map snd tvs))"
proof (cases "tvs = []")
  case True
  show ?thesis
    by (rule reads_asI) (auto simp: True parse_value.simps(2))
next
  case False
  let ?body = "join (map fst tvs)"
  have "starts_value (hd (map fst tvs))" using False assms by (cases tvs) auto
  then have sv: "starts_value ?body" using False by (intro starts_value_join) simp_all
  have ra: "\<forall>p\<in>set tvs. reads_as (fst p) (snd p)" using assms by simp
  show ?thesis
  proof (rule reads_asI)
    fix m rest
    assume "length (CHR ''['' # ?body @ '']'') < Suc m"
    then have "length ?body + 1 < m" by auto
    then show "parse_value (Suc m) ((CHR ''['' # ?body @ '']'') @ rest) = Some (Arr (map snd tvs), rest)"
      using parse_elements_texts [OF False ra, of m rest] sv
      by (auto simp: parse_value_array)
  qed
qed

section \<open>Objects\<close>

lemma parse_value_object:
  "starts_value body \<Longrightarrow>
   parse_value (Suc m) (CHR ''{'' # body) =
     map_option (apfst (Obj \<circ> define_properties)) (parse_members m body)"
  by (simp add: parse_value.simps(2) starts_value_not_closing)

lemma parse_members_step:
  assumes "reads_as t v" and "length t < m" and "delimited rest"
  shows "parse_members (Suc m) (member_of (k, t, v) @ rest) =
           (if prefix '','' (skip_ws rest)
            then map_option (apfst ((#) (k, v))) (parse_members m (tl (skip_ws rest)))
            else if prefix ''}'' (skip_ws rest) then Some ([(k, v)], tl (skip_ws rest))
            else None)"
proof -
  have "parse_chars (concat (map escape_char k) @ CHR 0x22 # CHR '':'' # t @ rest) =
          Some (k, CHR '':'' # t @ rest)"
    by (rule parse_chars_escaped)
  moreover have "parse_value m (t @ rest) = Some (v, rest)"
    using assms by (rule reads_asD)
  ultimately show ?thesis
    by (simp add: member_of_def quote_def parse_members.simps(2) del: parse_chars.simps)
qed

lemma length_member_of: "length (fst (snd m)) < length (member_of m)"
  by (simp add: member_of_def)

lemma parse_members_texts:
  assumes "ms \<noteq> []" and "\<forall>m\<in>set ms. reads_as (fst (snd m)) (snd (snd m))"
    and "length (join (map member_of ms)) + 1 < n"
  shows "parse_members n (join (map member_of ms) @ CHR ''}'' # rest) =
           Some (map (\<lambda>m. (fst m, snd (snd m))) ms, rest)"
  using assms
proof (induction ms arbitrary: n rule: list_nonempty_induct)
  case (single p)
  obtain k t v where p: "p = (k, t, v)" by (cases p)
  obtain m where n: "n = Suc m" "length t < m"
    using single length_member_of [of p] by (cases n) (auto simp: p)
  have "reads_as t v" using single by (simp add: p)
  from parse_members_step [OF this n(2), of "CHR ''}'' # rest" k]
  show ?case by (simp add: p n)
next
  case (cons p ms)
  obtain k t v where p: "p = (k, t, v)" by (cases p)
  obtain q qs where ms: "ms = q # qs" using cons.hyps by (cases ms) auto
  let ?tail = "join (map member_of ms)"
  have shape: "join (map member_of (p # ms)) = member_of p @ CHR '','' # ?tail"
    by (simp add: ms)
  obtain m where n: "n = Suc m" "length t < m" "length ?tail + 1 < m"
    using cons.prems(2) length_member_of [of p] unfolding shape by (cases n) (auto simp: p)
  have ra: "reads_as t v" using cons.prems(1) by (simp add: p)
  have "parse_members m (?tail @ CHR ''}'' # rest) = Some (map (\<lambda>m. (fst m, snd (snd m))) ms, rest)"
  proof (rule cons.IH)
    show "\<forall>m\<in>set ms. reads_as (fst (snd m)) (snd (snd m))" using cons.prems(1) by simp
    show "length ?tail + 1 < m" by (rule n(3))
  qed
  then show ?case
    using parse_members_step [OF ra n(2), of "CHR '','' # ?tail @ CHR ''}'' # rest" k]
    unfolding shape by (simp add: p n)
qed

lemma reads_as_object:
  assumes "\<forall>m\<in>set ms. reads_as (fst (snd m)) (snd (snd m))"
  shows "reads_as (CHR ''{'' # join (map member_of ms) @ ''}'')
           (Obj (define_properties (map (\<lambda>m. (fst m, snd (snd m))) ms)))"
proof (cases "ms = []")
  case True
  show ?thesis
    by (rule reads_asI) (auto simp: True parse_value.simps(2) define_properties_def)
next
  case False
  let ?body = "join (map member_of ms)"
  have "starts_value (hd (map member_of ms))"
    using False by (cases ms) (auto simp: member_of_def quote_def)
  then have sv: "starts_value ?body" using False by (intro starts_value_join) simp_all
  show ?thesis
  proof (rule reads_asI)
    fix m rest
    assume "length (CHR ''{'' # ?body @ ''}'') < Suc m"
    then have "length ?body + 1 < m" by auto
    then show "parse_value (Suc m) ((CHR ''{'' # ?body @ ''}'') @ rest) =
                 Some (Obj (define_properties (map (\<lambda>m. (fst m, snd (snd m))) ms)), rest)"
      using parse_members_texts [OF False assms, of m rest] sv
      by (auto simp: parse_value_object)
  qed
qed

section \<open>Reading back a printed value\<close>

lemma reparsed_None_iff: "reparsed v = None \<longleftrightarrow> serialize v = None"
proof (cases v)
  case (Prim p)
  then show ?thesis by (cases p) auto
qed auto

lemma member_texts_members_of:
  "concat (map member_text (map (map_prod id serialize) ps)) = map member_of (members_of ps)"
  by (induction ps) (auto simp: members_of_def member_text_def member_of_def split: option.splits)

lemma member_values_members_of:
  "concat (map member_value (map (map_prod id reparsed) ps)) =
     map (\<lambda>m. (fst m, snd (snd m))) (members_of ps)"
proof (induction ps)
  case Nil
  show ?case by (simp add: members_of_def)
next
  case (Cons p ps)
  show ?case
  proof (cases "serialize (snd p)")
    case None
    then have "reparsed (snd p) = None" by (simp add: reparsed_None_iff)
    then show ?thesis using Cons None by (simp add: members_of_def member_value_def)
  next
    case (Some t)
    then obtain u where "reparsed (snd p) = Some u"
      using reparsed_None_iff [of "snd p"] by (cases "reparsed (snd p)") auto
    then show ?thesis
      using Cons Some by (simp add: members_of_def member_value_def element_value_def)
  qed
qed

lemma set_own_properties [simp]: "set (own_properties obj) = set obj"
  by (auto simp: own_properties_def)

lemma printed_ok_element:
  assumes "printed_ok v"
  shows "reads_as (fst (element_of v)) (snd (element_of v)) \<and> starts_value (fst (element_of v))"
proof (cases "serialize v")
  case None
  then have "reparsed v = None" by (simp add: reparsed_None_iff)
  then show ?thesis
    using None by (simp add: element_of_def element_text_def element_value_def reads_as_null
        is_json_ws_def)
next
  case (Some t)
  then show ?thesis
    using assms by (simp add: element_of_def element_text_def printed_ok_def)
qed

lemma printed_ok_members:
  assumes "\<forall>p\<in>set ps. printed_ok (snd p)"
  shows "\<forall>m\<in>set (members_of ps). reads_as (fst (snd m)) (snd (snd m))"
  using assms by (auto simp: members_of_def printed_ok_def split: option.splits)

lemma printed_ok_all: "printed_ok v"
proof (induction v)
  case (Prim p)
  show ?case
    unfolding printed_ok_def
  proof (intro allI impI)
    fix t
    assume "serialize (Prim p) = Some t"
    then have t: "serialize_prim p = Some t" by simp
    then have "p \<noteq> JUndefined" by auto
    then show "starts_value t \<and> reads_as t (element_value (reparsed (Prim p)))"
      using reads_as_prim [OF t] starts_scalar_prim [OF t]
      by (simp add: element_value_def starts_scalar_value)
  qed
next
  case (Arr vs)
  have "\<forall>p\<in>set (map element_of vs). reads_as (fst p) (snd p) \<and> starts_value (fst p)"
    using Arr by (auto simp: printed_ok_element)
  from reads_as_array [OF this]
  show ?case
    by (simp add: printed_ok_def element_value_def element_of_def o_def is_json_ws_def)
next
  case (Obj ms)
  have "\<forall>p\<in>set (own_properties ms). printed_ok (snd p)"
    using Obj by auto
  from reads_as_object [OF printed_ok_members [OF this]]
  have r: "reads_as (CHR ''{'' # join (map member_of (members_of (own_properties ms))) @ ''}'')
             (Obj (define_properties
                (map (\<lambda>m. (fst m, snd (snd m))) (members_of (own_properties ms)))))" .
  have ser: "serialize (Obj ms) =
               Some (CHR ''{'' # join (map member_of (members_of (own_properties ms))) @ ''}'')"
    by (simp only: serialize.simps own_properties_map member_texts_members_of)
  have rep: "reparsed (Obj ms) =
               Some (Obj (define_properties
                  (map (\<lambda>m. (fst m, snd (snd m))) (members_of (own_properties ms)))))"
    by (simp only: reparsed.simps own_properties_map member_values_members_of)
  show ?case
    unfolding printed_ok_def ser rep using r by (simp add: element_value_def is_json_ws_def)
qed

lemma parse_value_serialize:
  assumes "serialize v = Some t"
  shows "\<exists>u. reparsed v = Some u \<and> parse_value (Suc (length t)) t = Some (u, [])"
proof -
  obtain u where u: "reparsed v = Some u"
    using assms reparsed_None_iff [of v] by (cases "reparsed v") auto
  have "reads_as t u" using printed_ok_all [of v] assms u by (simp add: printed_ok_def element_value_def)
  from reads_asD [OF this, of "Suc (length t)" "[]"] u show ?thesis by simp
qed

lemma JSON_parse_serialize: "serialize v = Some t \<Longrightarrow> JSON_parse t = reparsed v"
  using parse_value_serialize [of v t] by (auto simp: JSON_parse_def)

lemma reparsed_canonical: "canonical v \<Longrightarrow> reparsed v = Some v"
proof (induction v)
  case (Prim p)
  then show ?case by simp
next
  case (Arr vs)
  then have "map (element_value \<circ> reparsed) vs = vs"
    by (induction vs) (auto simp: element_value_def)
  then show ?case by simp
next
  case (Obj ms)
  then have "\<forall>p\<in>set ms. reparsed (snd p) = Some (snd p)" by (auto simp: list_all_iff)
  then have "concat (map member_value (map (map_prod id reparsed) ms)) = ms"
    by (induction ms) (auto simp: member_value_def)
  moreover have "own_properties (map (map_prod id reparsed) ms) = map (map_prod id reparsed) ms"
    using Obj.prems by (simp only: own_properties_map canonical.simps)
  ultimately have "reparsed (Obj ms) = Some (Obj (define_properties ms))"
    by (simp only: reparsed.simps)
  then show ?case using Obj.prems by (simp add: define_properties_distinct)
qed

lemma serialize_None_iff: "serialize v = None \<longleftrightarrow> v = Prim JUndefined"
proof (cases v)
  case (Prim p)
  then show ?thesis by (cases p) auto
qed auto

text \<open>
  C17. \<^verbatim>\<open>JSON.parse\<close> after \<^verbatim>\<open>JSON.stringify\<close> computes \<open>reparsed\<close>: whenever
  \<^verbatim>\<open>JSON.stringify(v)\<close> is a string, for any value \<open>v\<close> of the model, \<^verbatim>\<open>JSON.parse\<close> accepts
  it and returns \<open>v\<close> with \<^verbatim>\<open>NaN\<close> and the \<^verbatim>\<open>undefined\<close> array elements replaced by
  \<^verbatim>\<open>null\<close>, the \<^verbatim>\<open>undefined\<close> properties dropped and the properties in enumeration order.
  In particular \<^verbatim>\<open>JSON.parse\<close> never throws on what \<^verbatim>\<open>JSON.stringify\<close> wrote.
\<close>

theorem JSON_parse_stringify:
  assumes "JSON_stringify v = JStr t"
  shows "JSON_parse t = reparsed v \<and> reparsed v \<noteq> None"
proof -
  have "serialize v = Some t" using assms by (simp add: JSON_stringify_def split: option.splits)
  then show ?thesis using JSON_parse_serialize [of v t] reparsed_None_iff [of v] by simp
qed

theorem JSON_parse_stringify_witness:
  "JSON_parse (js_ToString (JSON_stringify
     (Obj [(''a'', Prim (JNum 5)), (''b'', Prim JNaN), (''d'', Prim JUndefined),
           (''7'', Arr [Prim JUndefined])]))) =
     Some (Obj [(''7'', Arr [Prim JNull]), (''a'', Prim (JNum 5)), (''b'', Prim JNull)])"
proof -
  let ?v = "Obj [(''a'', Prim (JNum 5)), (''b'', Prim JNaN), (''d'', Prim JUndefined),
                 (''7'', Arr [Prim JUndefined])]"
  have s: "JSON_stringify ?v = JStr (js_ToString (JSON_stringify ?v))" by code_simp
  have r: "reparsed ?v =
             Some (Obj [(''7'', Arr [Prim JNull]), (''a'', Prim (JNum 5)), (''b'', Prim JNull)])"
    by code_simp
  from JSON_parse_stringify [OF s] r show ?thesis by simp
qed

text \<open>
  C18. Round trip: a value without \<^verbatim>\<open>undefined\<close> and \<^verbatim>\<open>NaN\<close>, whose objects have
  distinct property names in enumeration order, has a text, and \<^verbatim>\<open>JSON.parse\<close> of the
  text is the value.
\<close>

theorem JSON_roundtrip:
  assumes "canonical v"
  shows "\<exists>t. JSON_stringify v = JStr t \<and> JSON_parse t = Some v"
proof -
  obtain t where t: "serialize v = Some t"
    using reparsed_canonical [OF assms] reparsed_None_iff [of v] by (cases "serialize v") auto
  then show ?thesis
    using JSON_parse_serialize [OF t] reparsed_canonical [OF assms]
    by (simp add: JSON_stringify_def)
qed

theorem JSON_roundtrip_witness:
  "\<exists>t. JSON_stringify (Obj [(''a'', Prim (JNum 5)), (''b'', Prim JNull), (''e'', Arr [Prim (JStr ''aa'')])]) = JStr t \<and>
       JSON_parse t = Some (Obj [(''a'', Prim (JNum 5)), (''b'', Prim JNull), (''e'', Arr [Prim (JStr ''aa'')])])"
proof -
  have "canonical (Obj [(''a'', Prim (JNum 5)), (''b'', Prim JNull), (''e'', Arr [Prim (JStr ''aa'')])])"
    by code_simp
  then show ?thesis by (rule JSON_roundtrip)
qed

end
