(* ===== verification/JSON_Fuel.thy ===== *)
theory JSON_Fuel
  imports JSON_Roundtrip
begin

text \<open>
  The fuel of the JSON parser. Every call of \<open>parse_value\<close>, \<open>parse_elements\<close> and
  \<open>parse_members\<close> that returns has consumed at least one character, so a call that
  succeeds with some fuel succeeds with any fuel above the number of characters it
  consumed, with the same result. \<open>JSON_parse\<close> starts with one unit more than the text
  is long: it fails only where the text is not JSON of the model.
\<close>

section \<open>Definitions\<close>

text \<open>\<open>consuming n\<close>: with fuel \<open>n\<close>, what the three parsers leave is shorter than what they got.\<close>

definition consuming :: "nat \<Rightarrow> bool" where
  "consuming n \<longleftrightarrow>
     (\<forall>s v r. parse_value n s = Some (v, r) \<longrightarrow> length r < length s) \<and>
     (\<forall>s vs r. parse_elements n s = Some (vs, r) \<longrightarrow> length r < length s) \<and>
     (\<forall>s ms r. parse_members n s = Some (ms, r) \<longrightarrow> length r < length s)"

text \<open>
  \<open>fuel_free n\<close>: what the parsers read with fuel \<open>n\<close> they read with any fuel that
  exceeds the number of characters they consumed.
\<close>

definition fuel_free :: "nat \<Rightarrow> bool" where
  "fuel_free n \<longleftrightarrow>
     (\<forall>s v r m. parse_value n s = Some (v, r) \<longrightarrow> length s < m + length r \<longrightarrow>
        parse_value m s = Some (v, r)) \<and>
     (\<forall>s vs r m. parse_elements n s = Some (vs, r) \<longrightarrow> length s < m + length r \<longrightarrow>
        parse_elements m s = Some (vs, r)) \<and>
     (\<forall>s ms r m. parse_members n s = Some (ms, r) \<longrightarrow> length s < m + length r \<longrightarrow>
        parse_members m s = Some (ms, r))"

section \<open>The parser consumes its input\<close>

lemma length_skip_ws: "length (skip_ws s) \<le> length s"
  by (simp add: skip_ws_def length_dropWhile_le)

lemma length_tl_skip_ws: "length (tl (skip_ws s)) \<le> length s"
  using length_skip_ws [of s] by simp

lemma tl_skip_ws_consumes: "prefix [c] (skip_ws s) \<Longrightarrow> length (tl (skip_ws s)) < length s"
  using length_skip_ws [of s] by (cases "skip_ws s") simp_all

lemma parse_chars_consumes: "parse_chars s = Some (x, r) \<Longrightarrow> length r < length s"
proof (induction s arbitrary: x r rule: parse_chars.induct)
  case 1
  then show ?case by simp
next
  case (2 c cs)
  show ?case
    using "2.prems" "2.IH"
    by (fastforce split: if_splits list.splits option.splits)
qed

lemma parse_json_number_consumes:
  assumes "parse_json_number s = Some (i, r)"
  shows "length r < length s"
proof -
  let ?s1 = "if prefix ''-'' s then tl s else s"
  have r: "r = dropWhile is_digit_char ?s1" and ne: "takeWhile is_digit_char ?s1 \<noteq> []"
    using assms by (auto simp: parse_json_number_def Let_def split: if_splits)
  have "length (takeWhile is_digit_char ?s1) + length (dropWhile is_digit_char ?s1) = length ?s1"
    by (metis length_append takeWhile_dropWhile_id)
  then have "length r < length ?s1" using ne r by (cases "takeWhile is_digit_char ?s1") auto
  then show ?thesis by (auto split: if_splits)
qed

lemma parse_scalar_consumes:
  assumes "parse_scalar t = Some (v, r)"
  shows "length r < length t"
proof -
  consider (str) "prefix [CHR 0x22] t"
    | (lit) "\<not> prefix [CHR 0x22] t" "prefix ''null'' t \<or> prefix ''true'' t \<or> prefix ''false'' t"
    | (num) "\<not> prefix [CHR 0x22] t" "\<not> prefix ''null'' t" "\<not> prefix ''true'' t" "\<not> prefix ''false'' t"
    by blast
  then show ?thesis
  proof cases
    case str
    then obtain x where "parse_chars (tl t) = Some (x, r)"
      using assms by (auto simp: parse_scalar_def)
    then have "length r < length (tl t)" by (rule parse_chars_consumes)
    then show ?thesis by simp
  next
    case lit
    then show ?thesis using assms by (cases t) (auto simp: parse_scalar_def split: if_splits)
  next
    case num
    then obtain i where "parse_json_number t = Some (i, r)"
      using assms by (auto simp: parse_scalar_def)
    then show ?thesis by (rule parse_json_number_consumes)
  qed
qed

lemma consumingD:
  "consuming n \<Longrightarrow> parse_value n s = Some (v, r) \<Longrightarrow> length r < length s"
  "consuming n \<Longrightarrow> parse_elements n s = Some (vs, r) \<Longrightarrow> length r < length s"
  "consuming n \<Longrightarrow> parse_members n s = Some (ms, r) \<Longrightarrow> length r < length s"
  unfolding consuming_def by blast+

lemma consuming_value:
  assumes "consuming n" and "parse_value (Suc n) s = Some (v, r)"
  shows "length r < length s"
proof -
  let ?t = "skip_ws s"
  have t: "length ?t \<le> length s" by (rule length_skip_ws)
  consider (arr) "prefix ''['' ?t" | (obj) "\<not> prefix ''['' ?t" "prefix ''{'' ?t"
    | (scalar) "\<not> prefix ''['' ?t" "\<not> prefix ''{'' ?t" by blast
  then show ?thesis
  proof cases
    case arr
    then have tl: "length (tl ?t) < length s" using t by (cases ?t) auto
    show ?thesis
      using assms arr tl length_tl_skip_ws [of "tl ?t"]
      by (fastforce simp: parse_value_Suc_iff consuming_def split: if_splits)
  next
    case obj
    then have tl: "length (tl ?t) < length s" using t by (cases ?t) auto
    show ?thesis
      using assms obj tl length_tl_skip_ws [of "tl ?t"]
      by (fastforce simp: parse_value_Suc_iff consuming_def split: if_splits)
  next
    case scalar
    then have "parse_scalar ?t = Some (v, r)" using assms by (simp add: parse_value_Suc_iff)
    then show ?thesis using parse_scalar_consumes t by fastforce
  qed
qed

lemma consuming_elements:
  assumes "consuming n" and "parse_elements (Suc n) s = Some (vs, r)"
  shows "length r < length s"
proof -
  obtain v r1 where v: "parse_value n s = Some (v, r1)"
    and rest: "if prefix '','' (skip_ws r1)
               then \<exists>vs'. parse_elements n (tl (skip_ws r1)) = Some (vs', r)
               else r = tl (skip_ws r1)"
    using assms(2) unfolding parse_elements_Suc_iff by (auto split: if_splits)
  have "length r1 < length s" using assms(1) v by (rule consumingD)
  moreover have "length r \<le> length r1"
    using rest assms(1) length_tl_skip_ws [of r1]
    by (fastforce simp: consuming_def split: if_splits)
  ultimately show ?thesis by simp
qed

lemma consuming_members:
  assumes "consuming n" and "parse_members (Suc n) s = Some (ms, r)"
  shows "length r < length s"
proof -
  obtain k r1 v r2 where k: "parse_chars (tl (skip_ws s)) = Some (k, r1)"
    and v: "parse_value n (tl (skip_ws r1)) = Some (v, r2)"
    and rest: "if prefix '','' (skip_ws r2)
               then \<exists>ms'. parse_members n (tl (skip_ws r2)) = Some (ms', r)
               else r = tl (skip_ws r2)"
    using assms(2) unfolding parse_members_Suc_iff by (auto split: if_splits)
  have "length r1 < length (tl (skip_ws s))" using k by (rule parse_chars_consumes)
  then have "length r1 < length s" using length_tl_skip_ws [of s] by simp
  moreover have "length r2 < length (tl (skip_ws r1))"
    using assms(1) v by (rule consumingD)
  then have "length r2 < length r1" using length_tl_skip_ws [of r1] by simp
  moreover have "length r \<le> length r2"
    using rest assms(1) length_tl_skip_ws [of r2]
    by (fastforce simp: consuming_def split: if_splits)
  ultimately show ?thesis by simp
qed

lemma consuming_all: "consuming n"
proof (induction n)
  case 0
  show ?case by (simp add: consuming_def)
next
  case (Suc n)
  then show ?case
    using consuming_value consuming_elements consuming_members
    unfolding consuming_def [of "Suc n"] by blast
qed

lemma parse_value_consumes: "parse_value n s = Some (v, r) \<Longrightarrow> length r < length s"
  using consuming_all [of n] by (simp add: consuming_def)

lemma parse_elements_consumes: "parse_elements n s = Some (vs, r) \<Longrightarrow> length r < length s"
  using consuming_all [of n] by (simp add: consuming_def)

lemma parse_members_consumes: "parse_members n s = Some (ms, r) \<Longrightarrow> length r < length s"
  using consuming_all [of n] by (simp add: consuming_def)

section \<open>Fuel\<close>

lemma fuel_freeD:
  "fuel_free n \<Longrightarrow> parse_value n s = Some (v, r) \<Longrightarrow> length s < m + length r \<Longrightarrow>
   parse_value m s = Some (v, r)"
  "fuel_free n \<Longrightarrow> parse_elements n s = Some (vs, r) \<Longrightarrow> length s < m + length r \<Longrightarrow>
   parse_elements m s = Some (vs, r)"
  "fuel_free n \<Longrightarrow> parse_members n s = Some (ms, r) \<Longrightarrow> length s < m + length r \<Longrightarrow>
   parse_members m s = Some (ms, r)"
  unfolding fuel_free_def by blast+

lemma fuel_free_value:
  assumes "fuel_free n" and p: "parse_value (Suc n) s = Some (v, r)"
    and m: "length s < m + length r"
  shows "parse_value m s = Some (v, r)"
proof -
  let ?t = "skip_ws s"
  have "length r < length s" using p by (rule parse_value_consumes)
  then obtain m' where m': "m = Suc m'" using m by (cases m) auto
  have tl: "length (tl ?t) < m' + length r" if "prefix [c] ?t" for c
    using tl_skip_ws_consumes [OF that] m unfolding m' by simp
  have "parse_elements m' (tl ?t) = Some (vs, r)"
    if "parse_elements n (tl ?t) = Some (vs, r)" "prefix ''['' ?t" for vs
    using fuel_freeD(2) [OF assms(1) that(1) tl [OF that(2)]] .
  moreover have "parse_members m' (tl ?t) = Some (ms, r)"
    if "parse_members n (tl ?t) = Some (ms, r)" "prefix ''{'' ?t" for ms
    using fuel_freeD(3) [OF assms(1) that(1) tl [OF that(2)]] .
  ultimately show ?thesis
    using p unfolding m' parse_value_Suc_iff by (auto split: if_splits)
qed

lemma fuel_free_elements:
  assumes "fuel_free n" and p: "parse_elements (Suc n) s = Some (vs, r)"
    and m: "length s < m + length r"
  shows "parse_elements m s = Some (vs, r)"
proof -
  obtain v r1 where v: "parse_value n s = Some (v, r1)"
    and rest: "if prefix '','' (skip_ws r1)
               then \<exists>vs'. parse_elements n (tl (skip_ws r1)) = Some (vs', r) \<and> vs = v # vs'
               else prefix '']'' (skip_ws r1) \<and> vs = [v] \<and> r = tl (skip_ws r1)"
    using p unfolding parse_elements_Suc_iff by blast
  have "length r < length s" using p by (rule parse_elements_consumes)
  then obtain m' where m': "m = Suc m'" using m by (cases m) auto
  have r1: "length r1 < length s" using v by (rule parse_value_consumes)
  have "\<exists>c. prefix [c] (skip_ws r1)" using rest by (auto split: if_splits)
  then have tl: "length (tl (skip_ws r1)) < length r1"
    using tl_skip_ws_consumes by blast
  have r: "length r \<le> length (tl (skip_ws r1))"
    using rest parse_elements_consumes [of n "tl (skip_ws r1)"] by (fastforce split: if_splits)
  have "parse_value m' s = Some (v, r1)"
    using fuel_freeD(1) [OF assms(1) v, of m'] m r tl unfolding m' by (simp del: length_tl)
  moreover have "parse_elements m' (tl (skip_ws r1)) = Some (vs', r)"
    if "parse_elements n (tl (skip_ws r1)) = Some (vs', r)" for vs'
    using fuel_freeD(2) [OF assms(1) that, of m'] m r1 tl unfolding m' by (simp del: length_tl)
  ultimately show ?thesis
    using rest unfolding m' parse_elements_Suc_iff by (auto split: if_splits)
qed

lemma fuel_free_members:
  assumes "fuel_free n" and p: "parse_members (Suc n) s = Some (ms, r)"
    and m: "length s < m + length r"
  shows "parse_members m s = Some (ms, r)"
proof -
  obtain k r1 v r2 where q: "prefix [CHR 0x22] (skip_ws s)"
    and k: "parse_chars (tl (skip_ws s)) = Some (k, r1)"
    and c: "prefix '':'' (skip_ws r1)"
    and v: "parse_value n (tl (skip_ws r1)) = Some (v, r2)"
    and rest: "if prefix '','' (skip_ws r2)
               then \<exists>ms'. parse_members n (tl (skip_ws r2)) = Some (ms', r) \<and> ms = (k, v) # ms'
               else prefix ''}'' (skip_ws r2) \<and> ms = [(k, v)] \<and> r = tl (skip_ws r2)"
    using p unfolding parse_members_Suc_iff by blast
  have "length r < length s" using p by (rule parse_members_consumes)
  then obtain m' where m': "m = Suc m'" using m by (cases m) auto
  have "length r1 < length (tl (skip_ws s))" using k by (rule parse_chars_consumes)
  then have r1: "length r1 < length s" using length_tl_skip_ws [of s] by simp
  have t1: "length (tl (skip_ws r1)) < length r1" using c by (rule tl_skip_ws_consumes)
  have r2: "length r2 < length (tl (skip_ws r1))" using v by (rule parse_value_consumes)
  have "\<exists>c. prefix [c] (skip_ws r2)" using rest by (auto split: if_splits)
  then have t2: "length (tl (skip_ws r2)) < length r2"
    using tl_skip_ws_consumes by blast
  have r: "length r \<le> length (tl (skip_ws r2))"
    using rest parse_members_consumes [of n "tl (skip_ws r2)"] by (fastforce split: if_splits)
  have "parse_value m' (tl (skip_ws r1)) = Some (v, r2)"
    using fuel_freeD(1) [OF assms(1) v, of m'] m r1 t1 t2 r unfolding m' by (simp del: length_tl)
  moreover have "parse_members m' (tl (skip_ws r2)) = Some (ms', r)"
    if "parse_members n (tl (skip_ws r2)) = Some (ms', r)" for ms'
    using fuel_freeD(3) [OF assms(1) that, of m'] m r1 t1 r2 t2 unfolding m' by (simp del: length_tl)
  ultimately show ?thesis
    using q k c rest unfolding m' parse_members_Suc_iff by (auto split: if_splits)
qed

lemma fuel_free_all: "fuel_free n"
proof (induction n)
  case 0
  show ?case by (simp add: fuel_free_def)
next
  case (Suc n)
  then show ?case
    using fuel_free_value fuel_free_elements fuel_free_members
    unfolding fuel_free_def [of "Suc n"] by blast
qed

lemma parse_value_fuel_enough:
  assumes "parse_value n text = Some (v, r)"
  shows "parse_value (Suc (length text)) text = Some (v, r)"
  using fuel_freeD(1) [OF fuel_free_all assms, of "Suc (length text)"] by simp

text \<open>
  C19. The fuel of \<^verbatim>\<open>JSON.parse\<close> is never what makes it fail: when the parser reads a
  value from the text with some amount of fuel, leaving only whitespace, then
  \<open>JSON_parse\<close>, which uses one unit more than the text has characters, returns that
  value.
\<close>

theorem JSON_parse_fuel_enough:
  assumes "parse_value n text = Some (v, r)" and "skip_ws r = []"
  shows "JSON_parse text = Some v"
  using parse_value_fuel_enough [OF assms(1)] assms(2) by (simp add: JSON_parse_def)

theorem JSON_parse_fuel_enough_witness:
  "JSON_parse ''[[1], {}] '' = Some (Arr [Arr [Prim (JNum 1)], Obj []])"
proof -
  have "parse_value 9 ''[[1], {}] '' = Some (Arr [Arr [Prim (JNum 1)], Obj []], '' '')"
    by code_simp
  moreover have "skip_ws '' '' = []" by code_simp
  ultimately show ?thesis by (rule JSON_parse_fuel_enough)
qed

end
