(* ===== verification/JSON_Typing.thy ===== *)
theory JSON_Typing
  imports JSON_Fuel
begin

text \<open>
  What \<^verbatim>\<open>JSON.parse\<close> can return. \<open>json_value\<close> is the type of its results: no
  \<^verbatim>\<open>undefined\<close> and no \<^verbatim>\<open>NaN\<close> at any depth, and no object with a property name twice.
  The parser of theory \<open>JSON_Text\<close> returns only such values, whatever the text and the
  fuel.
\<close>

section \<open>Definitions\<close>

primrec json_value :: "jsdata \<Rightarrow> bool" where
  "json_value (Prim v) = (v \<noteq> JUndefined \<and> v \<noteq> JNaN)"
| "json_value (Arr vs) = list_all id (map json_value vs)"
| "json_value (Obj ms) =
     (distinct (map fst ms) \<and> list_all snd (map (map_prod id json_value) ms))"

text \<open>\<open>typed n\<close>: what the three parsers read with fuel \<open>n\<close> are JSON values.\<close>

definition typed :: "nat \<Rightarrow> bool" where
  "typed n \<longleftrightarrow>
     (\<forall>s v r. parse_value n s = Some (v, r) \<longrightarrow> json_value v) \<and>
     (\<forall>s vs r. parse_elements n s = Some (vs, r) \<longrightarrow> (\<forall>v \<in> set vs. json_value v)) \<and>
     (\<forall>s ms r. parse_members n s = Some (ms, r) \<longrightarrow> (\<forall>m \<in> set ms. json_value (snd m)))"

section \<open>Objects\<close>

lemma json_value_Arr: "json_value (Arr vs) \<longleftrightarrow> (\<forall>v \<in> set vs. json_value v)"
  by (simp add: list_all_iff)

lemma json_value_Obj:
  "json_value (Obj ms) \<longleftrightarrow> distinct (map fst ms) \<and> (\<forall>m \<in> set ms. json_value (snd m))"
  by (auto simp: list_all_iff)

declare json_value.simps(2,3) [simp del]

lemmas json_value_iff [simp] = json_value.simps(1) json_value_Arr json_value_Obj

lemma json_value_empty [simp]: "json_value (Obj [])" "json_value (Arr [])"
  by simp_all

lemma set_update_subset: "set (AList.update k v al) \<subseteq> insert (k, v) (set al)"
  by (induction al) auto

lemma set_fold_update:
  "set (fold (\<lambda>m. AList.update (fst m) (snd m)) ms acc) \<subseteq> set ms \<union> set acc"
proof (induction ms arbitrary: acc)
  case Nil
  show ?case by simp
next
  case (Cons m ms)
  from Cons.IH [of "AList.update (fst m) (snd m) acc"] set_update_subset [of "fst m" "snd m" acc]
  show ?case by auto
qed

lemma set_define_properties: "set (define_properties ms) \<subseteq> set ms"
  using set_fold_update [of ms "[]"] by (simp add: define_properties_def)

lemma json_value_define_properties:
  "\<forall>m \<in> set ms. json_value (snd m) \<Longrightarrow> json_value (Obj (define_properties ms))"
  using set_define_properties [of ms] by (auto simp: distinct_define_properties)

section \<open>The parser is typed\<close>

lemma parse_scalar_typed: "parse_scalar t = Some (v, r) \<Longrightarrow> json_value v"
  by (auto simp: parse_scalar_def split: if_splits)

lemma typedD:
  "typed n \<Longrightarrow> parse_value n s = Some (v, r) \<Longrightarrow> json_value v"
  "typed n \<Longrightarrow> parse_elements n s = Some (vs, r) \<Longrightarrow> v' \<in> set vs \<Longrightarrow> json_value v'"
  "typed n \<Longrightarrow> parse_members n s = Some (ms, r) \<Longrightarrow> m \<in> set ms \<Longrightarrow> json_value (snd m)"
  unfolding typed_def by blast+

lemma typed_Suc:
  assumes "typed n"
  shows "typed (Suc n)"
  unfolding typed_def
proof (intro conjI allI impI)
  fix s v r assume "parse_value (Suc n) s = Some (v, r)"
  then show "json_value v"
    using typedD(2,3) [OF assms] parse_scalar_typed
    by (auto simp: parse_value_Suc_iff simp del: json_value_Obj
        intro!: json_value_define_properties split: if_splits)
next
  fix s vs r assume "parse_elements (Suc n) s = Some (vs, r)"
  then show "\<forall>v \<in> set vs. json_value v"
    using typedD(1,2) [OF assms] by (auto simp: parse_elements_Suc_iff split: if_splits)
next
  fix s ms r assume "parse_members (Suc n) s = Some (ms, r)"
  then show "\<forall>m \<in> set ms. json_value (snd m)"
    using typedD(1,3) [OF assms] by (auto simp: parse_members_Suc_iff split: if_splits)
qed

lemma typed_all: "typed n"
proof (induction n)
  case 0
  show ?case by (simp add: typed_def)
next
  case (Suc n)
  then show ?case by (rule typed_Suc)
qed

lemma JSON_parse_typed: "JSON_parse t = Some v \<Longrightarrow> json_value v"
  using typedD(1) [OF typed_all]
  by (auto simp: JSON_parse_def split: option.splits if_splits)

lemma canonical_json_value: "canonical v \<Longrightarrow> json_value v"
  by (induction v) (auto simp: list_all_iff)

end
