(* ===== verification/Backing_Store.thy ===== *)
theory Backing_Store
  imports JSON_Typing
begin

text \<open>
  The backing store as \<^verbatim>\<open>expired_storage.js\<close> sees it: an object with the methods of
  the \<^verbatim>\<open>localStorage\<close> API, some of them optional. A store is a record of operations over
  a state type \<open>'s\<close>; the wrapper is written against the record, and each concrete store
  (the test suite's dictionary store, the browser's storage) is a value of it. The theory
  also holds the errors the program raises, the world the operations run in (the store's
  state and the clock), and \<open>store_contract\<close>, the laws of get, set, remove and clear
  that the wrapper's guarantees rest on.
\<close>

section \<open>Errors\<close>

text \<open>
  \<open>NoStorage\<close> and \<open>UnsupportedStorage\<close> are the two errors of the constructor,
  \<open>UndefinedJson\<close> the one of \<^verbatim>\<open>setJson\<close>; \<open>JsonSyntax\<close> is what \<^verbatim>\<open>JSON.parse\<close> throws
  inside \<^verbatim>\<open>getJson\<close>, and \<open>StorageFailure\<close> an exception of the store's own
  \<^verbatim>\<open>setItem\<close> (a full quota), which the wrapper lets through.
\<close>

datatype error = NoStorage | UnsupportedStorage | UndefinedJson | JsonSyntax | StorageFailure string

section \<open>The storage object\<close>

text \<open>
  The object handed to the constructor. A method the object lacks is \<open>None\<close>.
  \<open>own_keys_of\<close> is what \<^verbatim>\<open>Object.keys\<close> returns for the object and \<open>for_in_of\<close> what a
  \<^verbatim>\<open>for ... in\<close> loop over it enumerates. Reads, removals and \<^verbatim>\<open>clear\<close> do not fail;
  a write may, and then reports the exception beside the state it leaves.
\<close>

record 's storage =
  getItem_of :: "('s \<Rightarrow> key \<Rightarrow> jsval) option"
  setItem_of :: "('s \<Rightarrow> key \<Rightarrow> jsval \<Rightarrow> (error + jsval) \<times> 's) option"
  removeItem_of :: "('s \<Rightarrow> key \<Rightarrow> jsval \<times> 's) option"
  clear_of :: "('s \<Rightarrow> 's) option"
  keys_of :: "('s \<Rightarrow> key list) option"
  length_of :: "('s \<Rightarrow> nat) option"
  key_of :: "('s \<Rightarrow> nat \<Rightarrow> key) option"
  own_keys_of :: "'s \<Rightarrow> key list"
  for_in_of :: "'s \<Rightarrow> key list"

section \<open>The wrapper object and the world\<close>

text \<open>
  An \<^verbatim>\<open>ExpiredStorage\<close> instance after its constructor has run: the four required
  methods of \<^verbatim>\<open>this._storage\<close> are known to exist, the enumeration capabilities are as
  the object has them, \<open>env_Object_keys\<close> says whether the environment provides
  \<^verbatim>\<open>Object.keys\<close>, and \<open>getTimestamp_impl\<close> is the instance's \<^verbatim>\<open>getTimestamp\<close> as a
  function of the world's clock.
\<close>

record 's expired_storage =
  st_getItem :: "'s \<Rightarrow> key \<Rightarrow> jsval"
  st_setItem :: "'s \<Rightarrow> key \<Rightarrow> jsval \<Rightarrow> (error + jsval) \<times> 's"
  st_removeItem :: "'s \<Rightarrow> key \<Rightarrow> jsval \<times> 's"
  st_clear :: "'s \<Rightarrow> 's"
  st_keys :: "('s \<Rightarrow> key list) option"
  st_length :: "('s \<Rightarrow> nat) option"
  st_key :: "('s \<Rightarrow> nat \<Rightarrow> key) option"
  st_own_keys :: "'s \<Rightarrow> key list"
  st_for_in :: "'s \<Rightarrow> key list"
  env_Object_keys :: bool
  getTimestamp_impl :: "int \<Rightarrow> seconds"

text \<open>
  The mutable world of one call: the state of the store the instance refers to, and the
  clock (\<^verbatim>\<open>(new Date).getTime()\<close> in production, \<^verbatim>\<open>window._timestamp\<close> under the tests'
  override). The clock does not move during a call.
\<close>

record 's world =
  store :: 's
  clock :: int

section \<open>The contract of a store\<close>

text \<open>
  What the wrapper needs of a store, relative to an invariant \<open>I\<close> of the store's
  states and to the representation \<open>repr\<close> a written value is read back in (itself for a
  store of raw values, its text for a string store):
  a successful write is read back and touches no other key, a failed write changes no
  reading, a removal makes the key read \<^verbatim>\<open>null\<close> and touches no other key, after
  \<^verbatim>\<open>clear\<close> every key reads \<^verbatim>\<open>null\<close>, every operation keeps \<open>I\<close>, and \<open>repr\<close> does not
  change what \<^verbatim>\<open>parseInt\<close> makes of a value.
\<close>

definition set_law :: "'s expired_storage \<Rightarrow> ('s \<Rightarrow> bool) \<Rightarrow> (jsval \<Rightarrow> jsval) \<Rightarrow> bool" where
  "set_law E I repr \<longleftrightarrow>
     (\<forall>s k v. I s \<longrightarrow>
        I (snd (st_setItem E s k v)) \<and>
        (\<forall>k'. st_getItem E (snd (st_setItem E s k v)) k' =
           (if isl (fst (st_setItem E s k v)) \<or> k' \<noteq> k then st_getItem E s k' else repr v)))"

definition remove_law :: "'s expired_storage \<Rightarrow> ('s \<Rightarrow> bool) \<Rightarrow> bool" where
  "remove_law E I \<longleftrightarrow>
     (\<forall>s k. I s \<longrightarrow>
        I (snd (st_removeItem E s k)) \<and>
        (\<forall>k'. st_getItem E (snd (st_removeItem E s k)) k' =
           (if k' = k then JNull else st_getItem E s k')))"

definition clear_law :: "'s expired_storage \<Rightarrow> ('s \<Rightarrow> bool) \<Rightarrow> bool" where
  "clear_law E I \<longleftrightarrow>
     (\<forall>s. I s \<longrightarrow> I (st_clear E s) \<and> (\<forall>k. st_getItem E (st_clear E s) k = JNull))"

definition store_contract :: "'s expired_storage \<Rightarrow> ('s \<Rightarrow> bool) \<Rightarrow> (jsval \<Rightarrow> jsval) \<Rightarrow> bool" where
  "store_contract E I repr \<longleftrightarrow>
     set_law E I repr \<and> remove_law E I \<and> clear_law E I \<and>
     (\<forall>v. js_parseInt (repr v) = js_parseInt v)"

text \<open>
  \<open>raw\<close> is a direct read of the backing store (\<^verbatim>\<open>expired._storage.getItem(k)\<close> in the
  tests), and \<open>world_ok\<close> lifts an invariant of store states to worlds.
\<close>

definition raw :: "'s expired_storage \<Rightarrow> 's world \<Rightarrow> key \<Rightarrow> jsval" where
  "raw E w k = st_getItem E (store w) k"

definition world_ok :: "('s \<Rightarrow> bool) \<Rightarrow> 's world \<Rightarrow> bool" where
  "world_ok I w \<longleftrightarrow> I (store w)"

section \<open>Enumerating the keys of a store\<close>

text \<open>
  The keys a store in state \<open>s\<close> offers to an enumeration, by the first capability it
  has: its own \<^verbatim>\<open>keys()\<close>, the environment's \<^verbatim>\<open>Object.keys\<close>, \<^verbatim>\<open>length\<close> with \<^verbatim>\<open>key(i)\<close>,
  or a \<^verbatim>\<open>for ... in\<close> loop. With one of the first three (\<open>snapshot_iteration\<close>) the
  keys are collected before any of them is visited. \<open>enum_complete\<close> is the part of the
  contract that concerns enumeration: a key that reads non-\<^verbatim>\<open>null\<close> is enumerated.
\<close>

definition key_snapshot :: "'s expired_storage \<Rightarrow> 's \<Rightarrow> key list" where
  "key_snapshot E s =
     (case st_keys E of
        Some keys_fn \<Rightarrow> keys_fn s
      | None \<Rightarrow>
          if env_Object_keys E then st_own_keys E s
          else (case (st_length E, st_key E) of
                  (Some len, Some key_at) \<Rightarrow> map (key_at s) [0..<len s]
                | _ \<Rightarrow> st_for_in E s))"

definition snapshot_iteration :: "'s expired_storage \<Rightarrow> bool" where
  "snapshot_iteration E \<longleftrightarrow>
     st_keys E \<noteq> None \<or> env_Object_keys E \<or> (st_length E \<noteq> None \<and> st_key E \<noteq> None)"

definition enum_complete :: "'s expired_storage \<Rightarrow> ('s \<Rightarrow> bool) \<Rightarrow> bool" where
  "enum_complete E I \<longleftrightarrow>
     (\<forall>s k. I s \<longrightarrow> st_getItem E s k \<noteq> JNull \<longrightarrow> k \<in> set (key_snapshot E s))"

text \<open>
  \<open>enum_exact\<close> is the stronger law of a store that holds no \<^verbatim>\<open>null\<close>: the enumeration
  lists exactly the keys that read non-\<^verbatim>\<open>null\<close>.
\<close>

definition enum_exact :: "'s expired_storage \<Rightarrow> ('s \<Rightarrow> bool) \<Rightarrow> bool" where
  "enum_exact E I \<longleftrightarrow>
     (\<forall>s k. I s \<longrightarrow> (k \<in> set (key_snapshot E s) \<longleftrightarrow> st_getItem E s k \<noteq> JNull))"

text \<open>
  \<open>enum_law\<close> says how the enumerated keys follow the writes: a write that succeeds adds
  its key, one that fails changes nothing, a removal takes its key away, and after
  \<^verbatim>\<open>clear\<close> there is none. \<open>listed\<close> is the set of keys a world enumerates.
\<close>

definition enum_law :: "'s expired_storage \<Rightarrow> ('s \<Rightarrow> bool) \<Rightarrow> bool" where
  "enum_law E I \<longleftrightarrow>
     (\<forall>s k v. I s \<longrightarrow>
        set (key_snapshot E (snd (st_setItem E s k v))) =
          (if isl (fst (st_setItem E s k v)) then set (key_snapshot E s)
           else insert k (set (key_snapshot E s)))) \<and>
     (\<forall>s k. I s \<longrightarrow>
        set (key_snapshot E (snd (st_removeItem E s k))) = set (key_snapshot E s) - {k}) \<and>
     (\<forall>s. I s \<longrightarrow> set (key_snapshot E (st_clear E s)) = {})"

definition listed :: "'s expired_storage \<Rightarrow> 's world \<Rightarrow> key set" where
  "listed E w = set (key_snapshot E (store w))"

section \<open>The contract as rewrite rules\<close>

lemma contract_inv_set: "store_contract E I repr \<Longrightarrow> I s \<Longrightarrow> I (snd (st_setItem E s k v))"
  by (simp add: store_contract_def set_law_def)

lemma contract_get_set_ok:
  "store_contract E I repr \<Longrightarrow> I s \<Longrightarrow> fst (st_setItem E s k v) = Inr r \<Longrightarrow>
   st_getItem E (snd (st_setItem E s k v)) k' = (if k' = k then repr v else st_getItem E s k')"
  by (simp add: store_contract_def set_law_def)

lemma contract_get_set_failed:
  "store_contract E I repr \<Longrightarrow> I s \<Longrightarrow> fst (st_setItem E s k v) = Inl e \<Longrightarrow>
   st_getItem E (snd (st_setItem E s k v)) k' = st_getItem E s k'"
  by (simp add: store_contract_def set_law_def)

lemma contract_inv_remove: "store_contract E I repr \<Longrightarrow> I s \<Longrightarrow> I (snd (st_removeItem E s k))"
  by (simp add: store_contract_def remove_law_def)

lemma contract_get_remove:
  "store_contract E I repr \<Longrightarrow> I s \<Longrightarrow>
   st_getItem E (snd (st_removeItem E s k)) k' = (if k' = k then JNull else st_getItem E s k')"
  by (simp add: store_contract_def remove_law_def)

lemma contract_inv_clear: "store_contract E I repr \<Longrightarrow> I s \<Longrightarrow> I (st_clear E s)"
  by (simp add: store_contract_def clear_law_def)

lemma contract_get_clear:
  "store_contract E I repr \<Longrightarrow> I s \<Longrightarrow> st_getItem E (st_clear E s) k = JNull"
  by (simp add: store_contract_def clear_law_def)

lemma contract_parseInt_repr: "store_contract E I repr \<Longrightarrow> js_parseInt (repr v) = js_parseInt v"
  by (simp add: store_contract_def)

lemma enum_exact_complete: "enum_exact E I \<Longrightarrow> enum_complete E I"
  by (simp add: enum_exact_def enum_complete_def)

lemma enum_set:
  "enum_law E I \<Longrightarrow> I s \<Longrightarrow>
   set (key_snapshot E (snd (st_setItem E s k v))) =
     (if isl (fst (st_setItem E s k v)) then set (key_snapshot E s)
      else insert k (set (key_snapshot E s)))"
  by (simp add: enum_law_def)

lemma enum_remove:
  "enum_law E I \<Longrightarrow> I s \<Longrightarrow>
   set (key_snapshot E (snd (st_removeItem E s k))) = set (key_snapshot E s) - {k}"
  by (simp add: enum_law_def)

lemma enum_clear: "enum_law E I \<Longrightarrow> I s \<Longrightarrow> set (key_snapshot E (st_clear E s)) = {}"
  by (simp add: enum_law_def)

lemmas contract_gets = contract_get_set_ok contract_get_set_failed contract_get_remove
  contract_get_clear contract_parseInt_repr

lemmas contract_invs = contract_inv_set contract_inv_remove contract_inv_clear

lemmas enum_laws = enum_set enum_remove enum_clear

end
