(* ===== verification/Construction.thy ===== *)
theory Construction
  imports Backing_Store
begin

text \<open>
  The constructor of \<^verbatim>\<open>ExpiredStorage\<close> and the clock seam: which storage object an
  instance ends up with, the two ways construction fails, and the production
  \<^verbatim>\<open>getTimestamp\<close> together with the override the test suite installs.
\<close>

section \<open>Definitions\<close>

text \<open>
  \<^verbatim>\<open>Math.floor(((new Date).getTime()) / 1000)\<close>: whole seconds of a clock in milliseconds,
  rounded down (also before the epoch, as \<open>div\<close> on \<open>int\<close> does).
\<close>

definition default_getTimestamp :: "int \<Rightarrow> seconds" where
  "default_getTimestamp ms = ms div 1000"

text \<open>
  \<^verbatim>\<open>storage || (typeof localStorage !== "undefined" ? localStorage : null)\<close>: the argument
  when it is given, else the environment's \<^verbatim>\<open>localStorage\<close> when there is one.
\<close>

definition chosen_storage :: "'s storage option \<Rightarrow> 's storage option \<Rightarrow> 's storage option" where
  "chosen_storage storage localStorage = (case storage of Some st \<Rightarrow> Some st | None \<Rightarrow> localStorage)"

text \<open>
  The constructor. \<open>object_keys\<close> records whether the environment has \<^verbatim>\<open>Object.keys\<close>;
  \<open>storage\<close> is the argument (\<open>None\<close> when it is omitted or falsy) and \<open>localStorage\<close> the
  global of that name (\<open>None\<close> when it is undefined). The two sanity checks are the two
  error results; on success the instance refers to the chosen object and has the
  prototype's \<^verbatim>\<open>getTimestamp\<close>.
\<close>

definition ExpiredStorage ::
  "bool \<Rightarrow> 's storage option \<Rightarrow> 's storage option \<Rightarrow> error + 's expired_storage" where
  "ExpiredStorage object_keys storage localStorage =
     (case chosen_storage storage localStorage of
        None \<Rightarrow> Inl NoStorage
      | Some st \<Rightarrow>
          (case (setItem_of st, getItem_of st, removeItem_of st, clear_of st) of
             (Some si, Some gi, Some ri, Some cl) \<Rightarrow>
               Inr \<lparr>st_getItem = gi, st_setItem = si, st_removeItem = ri, st_clear = cl,
                    st_keys = keys_of st, st_length = length_of st, st_key = key_of st,
                    st_own_keys = own_keys_of st, st_for_in = for_in_of st,
                    env_Object_keys = object_keys, getTimestamp_impl = default_getTimestamp\<rparr>
           | _ \<Rightarrow> Inl UnsupportedStorage))"

text \<open>
  \<^verbatim>\<open>this.getTimestamp()\<close>: the instance's time source read against the world's clock.
\<close>

definition getTimestamp :: "'s expired_storage \<Rightarrow> 's world \<Rightarrow> seconds" where
  "getTimestamp E w = getTimestamp_impl E (clock w)"

text \<open>
  The test suite's \<^verbatim>\<open>ExpiredStorage.prototype.getTimestamp = function() {return
  window._timestamp;}\<close>: the clock of the world is then the controlled timestamp itself.
\<close>

definition override_getTimestamp :: "'s expired_storage \<Rightarrow> 's expired_storage" where
  "override_getTimestamp E = E\<lparr>getTimestamp_impl := (\<lambda>t. t)\<rparr>"

text \<open>The storage object has the four methods the constructor asks for.\<close>

definition supports_api :: "'s storage \<Rightarrow> bool" where
  "supports_api st \<longleftrightarrow>
     setItem_of st \<noteq> None \<and> getItem_of st \<noteq> None \<and> removeItem_of st \<noteq> None \<and> clear_of st \<noteq> None"

lemmas [es_ops] = default_getTimestamp_def chosen_storage_def getTimestamp_def
  override_getTimestamp_def

section \<open>Outcome of construction\<close>

lemma ExpiredStorage_no_storage [simp]: "ExpiredStorage ok None None = Inl NoStorage"
  by (simp add: ExpiredStorage_def chosen_storage_def)

lemma ExpiredStorage_unsupported:
  "chosen_storage storage localStorage = Some st \<Longrightarrow> \<not> supports_api st \<Longrightarrow>
   ExpiredStorage ok storage localStorage = Inl UnsupportedStorage"
  by (auto simp: ExpiredStorage_def supports_api_def split: option.splits)

lemma ExpiredStorage_supported:
  assumes "chosen_storage storage localStorage = Some st" and "supports_api st"
  shows "\<exists>E. ExpiredStorage ok storage localStorage = Inr E \<and>
              getItem_of st = Some (st_getItem E) \<and> setItem_of st = Some (st_setItem E) \<and>
              removeItem_of st = Some (st_removeItem E) \<and> clear_of st = Some (st_clear E) \<and>
              st_keys E = keys_of st \<and> st_length E = length_of st \<and> st_key E = key_of st \<and>
              st_own_keys E = own_keys_of st \<and> st_for_in E = for_in_of st \<and>
              env_Object_keys E = ok \<and> getTimestamp_impl E = default_getTimestamp"
  using assms by (auto simp: ExpiredStorage_def supports_api_def)

lemma getTimestamp_override [simp]: "getTimestamp (override_getTimestamp E) w = clock w"
  by (simp add: getTimestamp_def override_getTimestamp_def)

lemma override_getTimestamp_fields [simp]:
  "st_getItem (override_getTimestamp E) = st_getItem E"
  "st_setItem (override_getTimestamp E) = st_setItem E"
  "st_removeItem (override_getTimestamp E) = st_removeItem E"
  "st_clear (override_getTimestamp E) = st_clear E"
  "st_keys (override_getTimestamp E) = st_keys E"
  "st_length (override_getTimestamp E) = st_length E"
  "st_key (override_getTimestamp E) = st_key E"
  "st_own_keys (override_getTimestamp E) = st_own_keys E"
  "st_for_in (override_getTimestamp E) = st_for_in E"
  "env_Object_keys (override_getTimestamp E) = env_Object_keys E"
  by (simp_all add: override_getTimestamp_def)

lemma store_contract_override [simp]:
  "store_contract (override_getTimestamp E) I repr = store_contract E I repr"
  by (simp add: store_contract_def set_law_def remove_law_def clear_law_def)

section \<open>Guarantees of construction\<close>

text \<open>
  C16. Construction fails exactly when there is no usable storage object. With neither an
  argument nor a global \<^verbatim>\<open>localStorage\<close> the constructor raises the first error; with a
  storage object that lacks one of \<^verbatim>\<open>setItem\<close>, \<^verbatim>\<open>getItem\<close>, \<^verbatim>\<open>removeItem\<close>, \<^verbatim>\<open>clear\<close> it
  raises the second; otherwise it returns an instance whose store methods are those of
  the chosen object (the argument before the global) and whose clock is the production
  \<^verbatim>\<open>getTimestamp\<close>.
\<close>

theorem ExpiredStorage_outcome:
  "(chosen_storage storage localStorage = None \<longrightarrow>
      ExpiredStorage ok storage localStorage = Inl NoStorage) \<and>
   (\<forall>st. chosen_storage storage localStorage = Some st \<and> \<not> supports_api st \<longrightarrow>
      ExpiredStorage ok storage localStorage = Inl UnsupportedStorage) \<and>
   (\<forall>st. chosen_storage storage localStorage = Some st \<and> supports_api st \<longrightarrow>
      (\<exists>E. ExpiredStorage ok storage localStorage = Inr E \<and>
           getItem_of st = Some (st_getItem E) \<and> setItem_of st = Some (st_setItem E) \<and>
           removeItem_of st = Some (st_removeItem E) \<and> clear_of st = Some (st_clear E) \<and>
           st_keys E = keys_of st \<and> getTimestamp_impl E = default_getTimestamp)) \<and>
   (chosen_storage storage localStorage = (if storage = None then localStorage else storage))"
proof -
  have "ExpiredStorage ok storage localStorage = Inl NoStorage"
    if "chosen_storage storage localStorage = None"
    using that by (simp add: ExpiredStorage_def)
  moreover have "\<exists>E. ExpiredStorage ok storage localStorage = Inr E \<and>
           getItem_of st = Some (st_getItem E) \<and> setItem_of st = Some (st_setItem E) \<and>
           removeItem_of st = Some (st_removeItem E) \<and> clear_of st = Some (st_clear E) \<and>
           st_keys E = keys_of st \<and> getTimestamp_impl E = default_getTimestamp"
    if "chosen_storage storage localStorage = Some st" "supports_api st" for st
    using ExpiredStorage_supported [OF that, of ok] by blast
  moreover have "chosen_storage storage localStorage = (if storage = None then localStorage else storage)"
    by (simp add: chosen_storage_def split: option.splits)
  ultimately show ?thesis using ExpiredStorage_unsupported [of storage localStorage _ ok] by blast
qed

theorem ExpiredStorage_outcome_witness:
  "ExpiredStorage True
     (Some \<lparr>getItem_of = Some (\<lambda>s k. JUndefined), setItem_of = Some (\<lambda>s k v. (Inr JUndefined, s)),
            removeItem_of = None, clear_of = Some (\<lambda>s. s), keys_of = None, length_of = None,
            key_of = None, own_keys_of = (\<lambda>s. []), for_in_of = (\<lambda>s::unit. [])\<rparr>) None
     = Inl UnsupportedStorage"
  using ExpiredStorage_outcome [of
      "Some \<lparr>getItem_of = Some (\<lambda>s k. JUndefined), setItem_of = Some (\<lambda>s k v. (Inr JUndefined, s)),
            removeItem_of = None, clear_of = Some (\<lambda>s. s), keys_of = None, length_of = None,
            key_of = None, own_keys_of = (\<lambda>s. []), for_in_of = (\<lambda>s::unit. [])\<rparr>" None True]
  by (simp add: chosen_storage_def supports_api_def)

text \<open>
  C33. The production clock counts whole seconds and rounds down: the timestamp of a
  clock reading in milliseconds is the unique number of seconds \<open>s\<close> with
  \<open>1000 s \<le> ms < 1000 s + 1000\<close>, also for readings before the epoch.
\<close>

theorem default_getTimestamp_floor:
  "default_getTimestamp ms * 1000 \<le> ms \<and> ms < default_getTimestamp ms * 1000 + 1000 \<and>
   (\<forall>s. s * 1000 \<le> ms \<and> ms < s * 1000 + 1000 \<longrightarrow> s = default_getTimestamp ms)"
proof -
  have "ms div 1000 * 1000 \<le> ms \<and> ms < ms div 1000 * 1000 + 1000"
    by linarith
  moreover have "s = ms div 1000" if "s * 1000 \<le> ms \<and> ms < s * 1000 + 1000" for s
    using that by linarith
  ultimately show ?thesis
    unfolding default_getTimestamp_def by blast
qed

theorem default_getTimestamp_floor_witness:
  "default_getTimestamp 1999 = 1 \<and> default_getTimestamp (- 1) = - 1"
  using default_getTimestamp_floor [of 1999] default_getTimestamp_floor [of "- 1"]
  by (simp add: default_getTimestamp_def)



end
