(* ===== verification/Test_Storage.thy ===== *)
theory Test_Storage
  imports Construction
begin

text \<open>
  The dictionary-backed store of the test suite (\<^verbatim>\<open>testStorage\<close> in
  \<^verbatim>\<open>src/unnamed/part_000\<close>, the text of the suite that has the JSON test): its state is
  the object \<^verbatim>\<open>this._storage\<close>, modelled by its own properties in creation order. The
  earlier text of the suite in \<^verbatim>\<open>src/tests/tests.js\<close> and the README's example differ
  in \<^verbatim>\<open>getItem\<close> only, which there returns the property as it is. The
  theory defines the five methods, builds the wrapper instance over it, and proves that
  it meets \<open>store_contract\<close>, so that every guarantee of the wrapper applies to it.
  Property names that \<^verbatim>\<open>Object.prototype\<close> defines (\<^verbatim>\<open>toString\<close>, \<^verbatim>\<open>constructor\<close>, ...)
  are not modelled: a key is looked up among the own properties only.
\<close>

section \<open>A plain JavaScript object used as a dictionary\<close>

text \<open>
  The dictionary \<^verbatim>\<open>this._storage\<close>: its properties in creation order, enumerated as
  theory \<open>JS_Objects\<close> describes.
\<close>

type_synonym js_object = "(key \<times> jsval) list"

section \<open>The methods of testStorage\<close>

definition ts_getItem :: "js_object \<Rightarrow> key \<Rightarrow> jsval" where
  "ts_getItem s k =
     (case map_of s k of
        None \<Rightarrow> JNull
      | Some ret \<Rightarrow> if ret = JUndefined then JNull else ret)"

definition ts_setItem :: "js_object \<Rightarrow> key \<Rightarrow> jsval \<Rightarrow> (error + jsval) \<times> js_object" where
  "ts_setItem s k val = (Inr JUndefined, AList.update k val s)"

definition ts_removeItem :: "js_object \<Rightarrow> key \<Rightarrow> jsval \<times> js_object" where
  "ts_removeItem s k = (JUndefined, AList.delete k s)"

definition ts_clear :: "js_object \<Rightarrow> js_object" where
  "ts_clear s = []"

definition ts_keys :: "js_object \<Rightarrow> key list" where
  "ts_keys s = own_property_keys s"

text \<open>
  The object literal: the five methods, no \<^verbatim>\<open>length\<close> and no \<^verbatim>\<open>key\<close>; its own enumerable
  properties are the field \<^verbatim>\<open>_storage\<close> and the methods, whatever the dictionary holds.
\<close>

definition testStorage :: "js_object storage" where
  "testStorage =
     \<lparr>getItem_of = Some ts_getItem, setItem_of = Some ts_setItem,
      removeItem_of = Some ts_removeItem, clear_of = Some ts_clear, keys_of = Some ts_keys,
      length_of = None, key_of = None,
      own_keys_of = (\<lambda>s. [''_storage'', ''getItem'', ''setItem'', ''removeItem'', ''clear'', ''keys'']),
      for_in_of = (\<lambda>s. [''_storage'', ''getItem'', ''setItem'', ''removeItem'', ''clear'', ''keys''])\<rparr>"

text \<open>
  \<^verbatim>\<open>new ExpiredStorage(testStorage)\<close> under the suite's \<^verbatim>\<open>getTimestamp\<close> override, written
  out; \<open>test_expired_constructed\<close> shows that the constructor returns it.
\<close>

definition test_expired :: "js_object expired_storage" where
  "test_expired =
     \<lparr>st_getItem = ts_getItem, st_setItem = ts_setItem, st_removeItem = ts_removeItem,
      st_clear = ts_clear, st_keys = Some ts_keys, st_length = None, st_key = None,
      st_own_keys = own_keys_of testStorage, st_for_in = for_in_of testStorage,
      env_Object_keys = True, getTimestamp_impl = (\<lambda>t. t)\<rparr>"

text \<open>
  The storage class of the README and of the earlier text of the suite
  (\<^verbatim>\<open>src/tests/tests.js\<close>): the same object, except that \<^verbatim>\<open>getItem\<close> returns
  \<^verbatim>\<open>this._storage[key]\<close> as it is, \<^verbatim>\<open>undefined\<close> for a key that is not there.
\<close>

definition readme_getItem :: "js_object \<Rightarrow> key \<Rightarrow> jsval" where
  "readme_getItem s k = (case map_of s k of None \<Rightarrow> JUndefined | Some ret \<Rightarrow> ret)"

definition readme_expired :: "js_object expired_storage" where
  "readme_expired = test_expired\<lparr>st_getItem := readme_getItem\<rparr>"

text \<open>The states of the dictionary: no property name occurs twice.\<close>

definition ts_inv :: "js_object \<Rightarrow> bool" where
  "ts_inv s \<longleftrightarrow> distinct (map fst s)"

text \<open>How a written value reads back: \<^verbatim>\<open>undefined\<close> as \<^verbatim>\<open>null\<close>, anything else as itself.\<close>

definition ts_repr :: "jsval \<Rightarrow> jsval" where
  "ts_repr v = (if v = JUndefined then JNull else v)"

text \<open>
  Two states of the test suite, used as concrete instances. \<open>expired_item_world\<close> is the
  store after \<^verbatim>\<open>setItem("test", "foo", 10)\<close> at time 0, read at time 15 (test ``Basic API
  on items with expiration''); \<open>clear_expired_world\<close> is the store after the four
  \<^verbatim>\<open>setItem\<close> calls of test ``Clear expired'', read at time 19.
\<close>

definition expired_item_world :: "js_object world" where
  "expired_item_world =
     \<lparr>store = [(''test'', JStr ''foo''), (''__expired_storage_ts__test'', JNum 10)], clock = 15\<rparr>"

definition clear_expired_world :: "js_object world" where
  "clear_expired_world =
     \<lparr>store = [(''test'', JStr ''foo''), (''__expired_storage_ts__test'', JNum 10),
               (''test2'', JStr ''bar''), (''__expired_storage_ts__test2'', JNum 15),
               (''stay'', JStr ''woo''), (''__expired_storage_ts__stay'', JNum 25),
               (''stay2'', JStr ''woo2'')],
      clock = 19\<rparr>"

lemmas [store_ops] = ts_getItem_def ts_setItem_def ts_removeItem_def ts_clear_def ts_keys_def
  ts_repr_def

section \<open>testStorage is a store\<close>

lemma test_expired_constructed:
  "map_sum id override_getTimestamp (ExpiredStorage True (Some testStorage) None) = Inr test_expired"
  by (simp add: ExpiredStorage_def chosen_storage_def testStorage_def test_expired_def
      override_getTimestamp_def)

lemma test_expired_simps [simp]:
  "st_getItem test_expired = ts_getItem" "st_setItem test_expired = ts_setItem"
  "st_removeItem test_expired = ts_removeItem" "st_clear test_expired = ts_clear"
  "st_keys test_expired = Some ts_keys" "getTimestamp test_expired w = clock w"
  by (simp_all add: test_expired_def getTimestamp_def)

lemma ts_getTimestamp_impl [simp]: "getTimestamp_impl test_expired c = c"
  by (simp add: test_expired_def)

lemma ts_getItem_update:
  "ts_getItem (AList.update k v s) k' = (if k' = k then ts_repr v else ts_getItem s k')"
  by (simp add: ts_getItem_def ts_repr_def map_of_update_apply)

lemma ts_getItem_delete:
  "ts_getItem (AList.delete k s) k' = (if k' = k then JNull else ts_getItem s k')"
  by (simp add: ts_getItem_def map_of_delete_apply)

lemma ts_getItem_empty [simp]: "ts_getItem [] k = JNull"
  by (simp add: ts_getItem_def)

lemma js_parseInt_ts_repr [simp]: "js_parseInt (ts_repr v) = js_parseInt v"
  by (simp add: ts_repr_def)

lemma ts_inv_preserved:
  "ts_inv s \<Longrightarrow> ts_inv (snd (ts_setItem s k v))"
  "ts_inv s \<Longrightarrow> ts_inv (snd (ts_removeItem s k))"
  "ts_inv (ts_clear s)"
  by (simp_all add: ts_inv_def store_ops distinct_keys_update distinct_keys_delete)

lemma ts_contract: "store_contract test_expired ts_inv ts_repr"
  using ts_inv_preserved
  by (auto simp: store_contract_def set_law_def remove_law_def clear_law_def
      ts_setItem_def ts_removeItem_def ts_clear_def ts_getItem_update ts_getItem_delete)

lemma ts_keys_complete: "ts_getItem s k \<noteq> JNull \<Longrightarrow> k \<in> set (ts_keys s)"
  by (auto simp: ts_getItem_def ts_keys_def split: option.splits dest: map_of_SomeD intro: rev_image_eqI)

lemma ts_keys_distinct: "ts_inv s \<Longrightarrow> distinct (ts_keys s)"
  by (simp add: ts_inv_def ts_keys_def distinct_own_property_keys)

lemma ts_key_snapshot [simp]: "key_snapshot test_expired s = ts_keys s"
  by (simp add: key_snapshot_def)

lemma ts_snapshot_iteration [simp]: "snapshot_iteration test_expired"
  by (simp add: snapshot_iteration_def)

lemma ts_enum_complete: "enum_complete test_expired ts_inv"
  by (simp add: enum_complete_def ts_keys_complete)

lemma ts_enum_law: "enum_law test_expired ts_inv"
  by (simp add: enum_law_def ts_keys_def ts_setItem_def ts_removeItem_def ts_clear_def
      set_keys_update set_keys_delete del: set_map)

text \<open>
  C12. The test suite's dictionary store is a lawful backing store: with the invariant
  that no property name occurs twice, its \<^verbatim>\<open>setItem\<close>, \<^verbatim>\<open>removeItem\<close> and \<^verbatim>\<open>clear\<close>
  satisfy the laws of \<open>store_contract\<close> (a written value reads back, as \<^verbatim>\<open>null\<close> when it
  was \<^verbatim>\<open>undefined\<close>; other keys are untouched), its \<^verbatim>\<open>keys()\<close> lists every key that reads
  non-\<^verbatim>\<open>null\<close>, lists no key twice, lists exactly the own property names, and follows
  the writes: a written key is listed, also when the value is \<^verbatim>\<open>null\<close>, and a removed one
  is not.
\<close>

theorem testStorage_lawful:
  "store_contract test_expired ts_inv ts_repr \<and> enum_complete test_expired ts_inv \<and>
   enum_law test_expired ts_inv \<and>
   (\<forall>s. ts_inv s \<longrightarrow> distinct (ts_keys s) \<and> set (ts_keys s) = fst ` set s)"
  using ts_keys_distinct by (simp add: ts_contract ts_enum_complete ts_enum_law ts_keys_def)

theorem testStorage_lawful_witness:
  "ts_inv [(''a'', JNum 1), (''b'', JNull)] \<and>
   distinct (ts_keys [(''a'', JNum 1), (''b'', JNull)]) \<and>
   set (ts_keys [(''a'', JNum 1), (''b'', JNull)]) = {''a'', ''b''}"
  using testStorage_lawful by (simp add: ts_inv_def)

section \<open>The example worlds\<close>

lemma world_ok_examples [simp]:
  "world_ok ts_inv expired_item_world" "world_ok ts_inv clear_expired_world"
  by (simp_all add: world_ok_def ts_inv_def expired_item_world_def clear_expired_world_def)

lemma world_ok_ts_empty [simp]: "world_ok ts_inv \<lparr>store = [], clock = c\<rparr>"
  by (simp add: world_ok_def ts_inv_def)

end
