(* ===== verification/Local_Storage.thy ===== *)
theory Local_Storage
  imports Construction
begin

text \<open>
  The browser's \<^verbatim>\<open>localStorage\<close> and \<^verbatim>\<open>sessionStorage\<close>, the default storage of the
  constructor of \<^verbatim>\<open>ExpiredStorage\<close> and two of the three storages the test suite runs
  on. They are not code of the repository; the model follows the Web Storage
  interface: keys and values are strings, a value is converted to a string when it is
  written, a missing key reads \<^verbatim>\<open>null\<close>, and a write that would take the stored keys and
  values over the quota throws and changes nothing. The theory proves that such a store
  meets \<open>store_contract\<close> for every quota.
\<close>

section \<open>Definitions\<close>

type_synonym web_storage = "(key \<times> string) list"

text \<open>What the quota counts: the characters of the keys and the values.\<close>

definition storage_size :: "web_storage \<Rightarrow> int" where
  "storage_size s = (\<Sum>p\<leftarrow>s. int (length (fst p)) + int (length (snd p)))"

definition ls_getItem :: "web_storage \<Rightarrow> key \<Rightarrow> jsval" where
  "ls_getItem s k = (case map_of s k of None \<Rightarrow> JNull | Some v \<Rightarrow> JStr v)"

definition ls_setItem :: "int \<Rightarrow> web_storage \<Rightarrow> key \<Rightarrow> jsval \<Rightarrow> (error + jsval) \<times> web_storage" where
  "ls_setItem quota s k val =
     (let s' = AList.update k (js_ToString val) s in
      if storage_size s' \<le> quota then (Inr JUndefined, s')
      else (Inl (StorageFailure ''QuotaExceededError''), s))"

definition ls_removeItem :: "web_storage \<Rightarrow> key \<Rightarrow> jsval \<times> web_storage" where
  "ls_removeItem s k = (JUndefined, AList.delete k s)"

definition ls_clear :: "web_storage \<Rightarrow> web_storage" where
  "ls_clear s = []"

definition ls_length :: "web_storage \<Rightarrow> nat" where
  "ls_length s = length s"

text \<open>
  \<^verbatim>\<open>key(n)\<close>: the name of the \<open>n\<close>-th key. Beyond the last key the interface returns
  \<^verbatim>\<open>null\<close>; \<^verbatim>\<open>_iterKeys\<close> never asks for it, and the model returns the empty name there.
\<close>

definition ls_key :: "web_storage \<Rightarrow> nat \<Rightarrow> key" where
  "ls_key s n = (if n < length s then fst (s ! n) else [])"

text \<open>
  The storage object with a quota. It has no \<^verbatim>\<open>keys\<close> method. \<^verbatim>\<open>Object.keys\<close> gives the
  stored keys; a \<^verbatim>\<open>for ... in\<close> loop gives them followed by the names the interface
  defines.
\<close>

definition web_storage_object :: "int \<Rightarrow> web_storage storage" where
  "web_storage_object quota =
     \<lparr>getItem_of = Some ls_getItem, setItem_of = Some (ls_setItem quota),
      removeItem_of = Some ls_removeItem, clear_of = Some ls_clear, keys_of = None,
      length_of = Some ls_length, key_of = Some ls_key,
      own_keys_of = (\<lambda>s. map fst s),
      for_in_of = (\<lambda>s. map fst s @
         [''length'', ''key'', ''getItem'', ''setItem'', ''removeItem'', ''clear''])\<rparr>"

text \<open>
  \<^verbatim>\<open>new ExpiredStorage()\<close> in a browser, written out: \<open>object_keys\<close> says whether the
  browser has \<^verbatim>\<open>Object.keys\<close>. \<open>local_expired_constructed\<close> shows that the constructor
  returns it.
\<close>

definition local_expired :: "bool \<Rightarrow> int \<Rightarrow> web_storage expired_storage" where
  "local_expired object_keys quota =
     \<lparr>st_getItem = ls_getItem, st_setItem = ls_setItem quota, st_removeItem = ls_removeItem,
      st_clear = ls_clear, st_keys = None, st_length = Some ls_length, st_key = Some ls_key,
      st_own_keys = own_keys_of (web_storage_object quota),
      st_for_in = for_in_of (web_storage_object quota),
      env_Object_keys = object_keys, getTimestamp_impl = default_getTimestamp\<rparr>"

text \<open>The states of the store: no key twice. A written value reads back as its text.\<close>

definition ls_inv :: "web_storage \<Rightarrow> bool" where
  "ls_inv s \<longleftrightarrow> distinct (map fst s)"

definition ls_repr :: "jsval \<Rightarrow> jsval" where
  "ls_repr v = JStr (js_ToString v)"

lemmas [store_ops] = ls_getItem_def ls_setItem_def ls_removeItem_def ls_clear_def ls_length_def
  ls_key_def ls_repr_def

section \<open>The store is lawful\<close>

lemma local_expired_constructed:
  "ExpiredStorage ok None (Some (web_storage_object quota)) = Inr (local_expired ok quota)"
  by (simp add: ExpiredStorage_def chosen_storage_def web_storage_object_def local_expired_def)

lemma local_expired_simps [simp]:
  "st_getItem (local_expired ok q) = ls_getItem" "st_setItem (local_expired ok q) = ls_setItem q"
  "st_removeItem (local_expired ok q) = ls_removeItem" "st_clear (local_expired ok q) = ls_clear"
  "st_keys (local_expired ok q) = None" "st_length (local_expired ok q) = Some ls_length"
  "st_key (local_expired ok q) = Some ls_key" "env_Object_keys (local_expired ok q) = ok"
  "st_own_keys (local_expired ok q) = map fst"
  by (simp_all add: local_expired_def web_storage_object_def)

lemma ls_getItem_update:
  "ls_getItem (AList.update k (js_ToString v) s) k' = (if k' = k then ls_repr v else ls_getItem s k')"
  by (simp add: ls_getItem_def ls_repr_def map_of_update_apply)

lemma ls_getItem_delete:
  "ls_getItem (AList.delete k s) k' = (if k' = k then JNull else ls_getItem s k')"
  by (simp add: ls_getItem_def map_of_delete_apply)

lemma ls_getItem_empty [simp]: "ls_getItem [] k = JNull"
  by (simp add: ls_getItem_def)

lemma js_parseInt_ls_repr [simp]: "js_parseInt (ls_repr v) = js_parseInt v"
  by (simp add: ls_repr_def)

lemma ls_inv_preserved:
  "ls_inv s \<Longrightarrow> ls_inv (snd (ls_setItem q s k v))"
  "ls_inv s \<Longrightarrow> ls_inv (snd (ls_removeItem s k))"
  "ls_inv (ls_clear s)"
  by (simp_all add: ls_inv_def store_ops Let_def distinct_keys_update distinct_keys_delete)

lemma ls_contract: "store_contract (local_expired ok q) ls_inv ls_repr"
  using ls_inv_preserved
  by (auto simp: store_contract_def set_law_def remove_law_def clear_law_def
      ls_setItem_def ls_removeItem_def ls_clear_def ls_getItem_update ls_getItem_delete Let_def)

lemma map_ls_key: "map (ls_key s) [0..<ls_length s] = map fst s"
  by (auto simp: ls_key_def ls_length_def intro: nth_equalityI)

lemma ls_key_snapshot [simp]: "key_snapshot (local_expired ok q) s = map fst s"
  by (simp add: key_snapshot_def map_ls_key)

lemma ls_snapshot_iteration [simp]: "snapshot_iteration (local_expired ok q)"
  by (simp add: snapshot_iteration_def)

lemma ls_enum_complete: "enum_complete (local_expired ok q) ls_inv"
  by (auto simp: enum_complete_def ls_getItem_def split: option.splits
      dest: map_of_SomeD intro: rev_image_eqI)

lemma world_ok_ls_empty [simp]: "world_ok ls_inv \<lparr>store = [], clock = c\<rparr>"
  by (simp add: world_ok_def ls_inv_def)

lemma ls_enum_law: "enum_law (local_expired ok q) ls_inv"
  by (simp add: enum_law_def ls_setItem_def ls_removeItem_def ls_clear_def Let_def
      set_keys_update set_keys_delete del: set_map)

lemma ls_enum_exact: "enum_exact (local_expired ok q) ls_inv"
  by (auto simp: enum_exact_def ls_getItem_def split: option.splits
      dest: map_of_SomeD weak_map_of_SomeI intro: rev_image_eqI)

text \<open>
  C13. The storage of the browser is a lawful backing store, with or without
  \<^verbatim>\<open>Object.keys\<close> and whatever its quota: with the invariant that no key is stored twice
  it meets \<open>store_contract\<close>, a written value reading back as its text and a refused
  write changing nothing; its keys are collected before they are visited, are exactly
  the keys that read non-\<^verbatim>\<open>null\<close> and follow the writes; and the constructor without an
  argument builds the instance over it.
\<close>

theorem web_storage_lawful:
  "store_contract (local_expired ok q) ls_inv ls_repr \<and>
   enum_exact (local_expired ok q) ls_inv \<and> enum_law (local_expired ok q) ls_inv \<and>
   snapshot_iteration (local_expired ok q) \<and>
   ExpiredStorage ok None (Some (web_storage_object q)) = Inr (local_expired ok q)"
  by (simp add: ls_contract ls_enum_exact ls_enum_law local_expired_constructed)

theorem web_storage_lawful_witness:
  "ls_inv [(''a'', ''1'')] \<and>
   (\<forall>k. k \<in> set (key_snapshot (local_expired False 10) [(''a'', ''1'')]) \<longleftrightarrow>
      ls_getItem [(''a'', ''1'')] k \<noteq> JNull)"
proof -
  have i: "ls_inv [(''a'', ''1'')]" by (simp add: ls_inv_def)
  from web_storage_lawful [of False 10] have "enum_exact (local_expired False 10) ls_inv" by simp
  then have "ls_inv s \<Longrightarrow> k \<in> set (key_snapshot (local_expired False 10) s) \<longleftrightarrow>
      ls_getItem s k \<noteq> JNull" for s k
    by (simp add: enum_exact_def del: ls_key_snapshot)
  from this [OF i] i show ?thesis by blast
qed

end
