(* ===== verification/Expired_Storage.thy ===== *)
theory Expired_Storage
  imports Test_Storage Local_Storage
begin

text \<open>
  The methods of \<^verbatim>\<open>ExpiredStorage.prototype\<close> (\<^verbatim>\<open>src/dist/expired_storage.js\<close>), in the
  order of the source. Each takes the instance \<open>E\<close> and the world \<open>w\<close> and returns its
  JavaScript result beside the world it leaves; a method that can raise returns
  \<open>error + result\<close>. The lemmas give, for any store that meets \<open>store_contract\<close>, what
  each method reads and writes; the theorems on expiry, eviction and the sweep are built
  on them.
\<close>

section \<open>Definitions\<close>

definition expiration_key_prefix :: string where
  "expiration_key_prefix = ''__expired_storage_ts__''"

text \<open>\<^verbatim>\<open>this._expiration_key_prefix + key\<close>: where the expiry instant of \<open>key\<close> is kept.\<close>

definition expiration_key :: "key \<Rightarrow> key" where
  "expiration_key k = expiration_key_prefix @ k"

definition updateExpiration ::
  "'s expired_storage \<Rightarrow> key \<Rightarrow> jsval \<Rightarrow> 's world \<Rightarrow> (error + jsval) \<times> 's world" where
  "updateExpiration E k expiration w =
     (let r = st_setItem E (store w) (expiration_key k) (js_add (JNum (getTimestamp E w)) expiration)
      in (fst r, w\<lparr>store := snd r\<rparr>))"

text \<open>
  \<^verbatim>\<open>setItem\<close>: the value is written first; the expiry record only when \<open>expiration\<close> is
  truthy. An exception of the store ends the call where it is raised, so a failed
  second write leaves the value written. The result is the store's result for the value.
\<close>

definition setItem ::
  "'s expired_storage \<Rightarrow> key \<Rightarrow> jsval \<Rightarrow> jsval \<Rightarrow> 's world \<Rightarrow> (error + jsval) \<times> 's world" where
  "setItem E k val expiration w =
     (let r = st_setItem E (store w) k val; w1 = w\<lparr>store := snd r\<rparr> in
      case fst r of
        Inl e \<Rightarrow> (Inl e, w1)
      | Inr ret \<Rightarrow>
          if truthy expiration then
            (let u = updateExpiration E k expiration w1 in
             case fst u of
               Inl e \<Rightarrow> (Inl e, snd u)
             | Inr code \<Rightarrow> (Inr ret, snd u))
          else (Inr ret, w1))"

text \<open>
  \<^verbatim>\<open>getTimeLeft\<close>: \<open>None\<close> is \<^verbatim>\<open>null\<close>. The guard \<^verbatim>\<open>expireTime && !isNaN(expireTime)\<close>
  rejects \<^verbatim>\<open>NaN\<close> (\<open>None\<close> of \<open>js_parseInt\<close>) and also the number 0.
\<close>

definition getTimeLeft :: "'s expired_storage \<Rightarrow> key \<Rightarrow> 's world \<Rightarrow> seconds option" where
  "getTimeLeft E k w =
     (case js_parseInt (st_getItem E (store w) (expiration_key k)) of
        Some expireTime \<Rightarrow> if expireTime \<noteq> 0 then Some (expireTime - getTimestamp E w) else None
      | None \<Rightarrow> None)"

definition isExpired :: "'s expired_storage \<Rightarrow> key \<Rightarrow> 's world \<Rightarrow> bool" where
  "isExpired E k w = (case getTimeLeft E k w of None \<Rightarrow> False | Some timeLeft \<Rightarrow> timeLeft \<le> 0)"

definition removeItem :: "'s expired_storage \<Rightarrow> key \<Rightarrow> 's world \<Rightarrow> jsval \<times> 's world" where
  "removeItem E k w =
     (let r = st_removeItem E (store w) k;
          r2 = st_removeItem E (snd r) (expiration_key k)
      in (fst r, w\<lparr>store := snd r2\<rparr>))"

definition getItem :: "'s expired_storage \<Rightarrow> key \<Rightarrow> 's world \<Rightarrow> jsval \<times> 's world" where
  "getItem E k w =
     (if isExpired E k w then (JNull, snd (removeItem E k w))
      else (st_getItem E (store w) k, w))"

record peek_result =
  pk_value :: jsval
  pk_timeLeft :: "seconds option"
  pk_isExpired :: bool

definition peek :: "'s expired_storage \<Rightarrow> key \<Rightarrow> 's world \<Rightarrow> peek_result" where
  "peek E k w =
     (let v = st_getItem E (store w) k; t = getTimeLeft E k w
      in \<lparr>pk_value = v, pk_timeLeft = t,
          pk_isExpired = (case t of None \<Rightarrow> False | Some timeLeft \<Rightarrow> timeLeft \<le> 0)\<rparr>)"

text \<open>
  The JSON layer. \<^verbatim>\<open>setJson\<close> refuses \<^verbatim>\<open>undefined\<close> and stores the text of the value;
  \<^verbatim>\<open>getJson\<close> returns \<^verbatim>\<open>null\<close> when \<^verbatim>\<open>getItem\<close> does, and otherwise parses what
  \<^verbatim>\<open>getItem\<close> returned (\<^verbatim>\<open>JSON.parse\<close> converts its argument to a string first); a
  \<^verbatim>\<open>SyntaxError\<close> of \<^verbatim>\<open>JSON.parse\<close> leaves the world as \<^verbatim>\<open>getItem\<close> left it.
\<close>

definition setJson ::
  "'s expired_storage \<Rightarrow> key \<Rightarrow> jsdata \<Rightarrow> jsval \<Rightarrow> 's world \<Rightarrow> (error + jsval) \<times> 's world" where
  "setJson E k val expiration w =
     (if val = Prim JUndefined then (Inl UndefinedJson, w)
      else setItem E k (JSON_stringify val) expiration w)"

definition getJson :: "'s expired_storage \<Rightarrow> key \<Rightarrow> 's world \<Rightarrow> (error + jsdata) \<times> 's world" where
  "getJson E k w =
     (let r = getItem E k w in
      if fst r = JNull then (Inr (Prim JNull), snd r)
      else (case JSON_parse (js_ToString (fst r)) of
              None \<Rightarrow> (Inl JsonSyntax, snd r)
            | Some j \<Rightarrow> (Inr j, snd r)))"

definition clear :: "'s expired_storage \<Rightarrow> 's world \<Rightarrow> 's world" where
  "clear E w = w\<lparr>store := st_clear E (store w)\<rparr>"

lemmas [es_ops] = expiration_key_def updateExpiration_def setItem_def getTimeLeft_def
  isExpired_def removeItem_def getItem_def peek_def setJson_def getJson_def clear_def

section \<open>Derived keys\<close>

lemma expiration_key_inject [simp]: "expiration_key k = expiration_key k' \<longleftrightarrow> k = k'"
  by (simp add: expiration_key_def)

lemma length_expiration_key: "length (expiration_key k) = 22 + length k"
  by (simp add: expiration_key_def expiration_key_prefix_def)

lemma expiration_key_neq_self [simp]: "expiration_key k \<noteq> k" "k \<noteq> expiration_key k"
  using length_expiration_key [of k] by (auto dest: arg_cong [where f = length])

lemma prefix_expiration_key [simp]: "prefix expiration_key_prefix (expiration_key k)"
  by (simp add: expiration_key_def)

lemma drop_expiration_key [simp]: "drop (length expiration_key_prefix) (expiration_key k) = k"
  by (simp add: expiration_key_def)

lemma prefix_is_expiration_key:
  "prefix expiration_key_prefix x \<Longrightarrow> expiration_key (drop (length expiration_key_prefix) x) = x"
  by (simp add: expiration_key_def prefix_drop_append)

lemma not_prefix_not_expiration_key: "\<not> prefix expiration_key_prefix k \<Longrightarrow> k \<noteq> expiration_key k'"
  by (auto simp: expiration_key_def)

subsection \<open>The clock is not written\<close>

lemma clock_updateExpiration [simp]: "clock (snd (updateExpiration E k e w)) = clock w"
  by (simp add: updateExpiration_def Let_def)

lemma clock_setItem [simp]: "clock (snd (setItem E k v e w)) = clock w"
  by (simp add: setItem_def Let_def split: sum.splits)

lemma clock_removeItem [simp]: "clock (snd (removeItem E k w)) = clock w"
  by (simp add: removeItem_def Let_def)

lemma clock_getItem [simp]: "clock (snd (getItem E k w)) = clock w"
  by (simp add: getItem_def)

lemma clock_clear [simp]: "clock (clear E w) = clock w"
  by (simp add: clear_def)

subsection \<open>Expiry depends on one record and the clock\<close>

lemma getTimeLeft_raw:
  "getTimeLeft E k w =
     (case js_parseInt (raw E w (expiration_key k)) of
        Some t \<Rightarrow> if t \<noteq> 0 then Some (t - getTimestamp_impl E (clock w)) else None
      | None \<Rightarrow> None)"
  by (simp add: getTimeLeft_def raw_def getTimestamp_def split: option.splits)

lemma getTimeLeft_cong:
  "raw E w' (expiration_key k) = raw E w (expiration_key k) \<Longrightarrow> clock w' = clock w \<Longrightarrow>
   getTimeLeft E k w' = getTimeLeft E k w"
  by (simp only: getTimeLeft_raw)

lemma isExpired_cong:
  "raw E w' (expiration_key k) = raw E w (expiration_key k) \<Longrightarrow> clock w' = clock w \<Longrightarrow>
   isExpired E k w' = isExpired E k w"
  by (simp only: isExpired_def getTimeLeft_raw)

lemma getTimeLeft_null: "raw E w (expiration_key k) = JNull \<Longrightarrow> getTimeLeft E k w = None"
  by (simp add: getTimeLeft_raw)

lemma not_isExpired_null: "raw E w (expiration_key k) = JNull \<Longrightarrow> \<not> isExpired E k w"
  by (simp add: isExpired_def getTimeLeft_null)

subsection \<open>What each operation leaves in the store\<close>

lemma raw_updateExpiration:
  assumes "store_contract E I repr" "world_ok I w"
  shows "raw E (snd (updateExpiration E k e w)) k' =
     (if isl (fst (updateExpiration E k e w)) \<or> k' \<noteq> expiration_key k then raw E w k'
      else repr (js_add (JNum (getTimestamp E w)) e))"
  using assms
  by (simp add: updateExpiration_def Let_def raw_def world_ok_def store_contract_def set_law_def)

lemma world_ok_updateExpiration:
  "store_contract E I repr \<Longrightarrow> world_ok I w \<Longrightarrow> world_ok I (snd (updateExpiration E k e w))"
  by (simp add: updateExpiration_def Let_def world_ok_def contract_inv_set)

lemma raw_removeItem:
  assumes "store_contract E I repr" "world_ok I w"
  shows "raw E (snd (removeItem E k w)) k' =
     (if k' = k \<or> k' = expiration_key k then JNull else raw E w k')"
  using assms
  by (simp add: removeItem_def Let_def raw_def world_ok_def contract_get_remove contract_inv_remove)

lemma world_ok_removeItem:
  "store_contract E I repr \<Longrightarrow> world_ok I w \<Longrightarrow> world_ok I (snd (removeItem E k w))"
  by (simp add: removeItem_def Let_def world_ok_def contract_inv_remove)


lemma setItem_ok:
  assumes "fst (setItem E k v e w) = Inr r"
  shows "fst (st_setItem E (store w) k v) = Inr r"
    and "snd (setItem E k v e w) =
      (if truthy e then snd (updateExpiration E k e (w\<lparr>store := snd (st_setItem E (store w) k v)\<rparr>))
       else w\<lparr>store := snd (st_setItem E (store w) k v)\<rparr>)"
    and "truthy e \<Longrightarrow>
      \<not> isl (fst (updateExpiration E k e (w\<lparr>store := snd (st_setItem E (store w) k v)\<rparr>)))"
  using assms by (auto simp: setItem_def Let_def split: sum.splits if_splits)

lemma raw_setItem:
  assumes "store_contract E I repr" "world_ok I w" "fst (setItem E k v e w) = Inr r"
  shows "raw E (snd (setItem E k v e w)) k' =
     (if k' = k then repr v
      else if k' = expiration_key k \<and> truthy e then repr (js_add (JNum (getTimestamp E w)) e)
      else raw E w k')"
proof -
  let ?w1 = "w\<lparr>store := snd (st_setItem E (store w) k v)\<rparr>"
  note ok = setItem_ok [OF assms(3)]
  have w1: "world_ok I ?w1" using assms(1,2) by (simp add: world_ok_def contract_inv_set)
  have "raw E ?w1 k' = (if k' = k then repr v else raw E w k')"
    using assms(1,2) ok(1) by (simp add: raw_def world_ok_def contract_get_set_ok)
  then show ?thesis
    using raw_updateExpiration [OF assms(1) w1, of k e k'] ok(3)
    by (auto simp: ok(2) getTimestamp_def)
qed

lemma world_ok_setItem:
  "store_contract E I repr \<Longrightarrow> world_ok I w \<Longrightarrow> world_ok I (snd (setItem E k v e w))"
  by (auto simp: setItem_def Let_def updateExpiration_def world_ok_def contract_inv_set split: sum.splits)

lemma world_ok_getItem:
  "store_contract E I repr \<Longrightarrow> world_ok I w \<Longrightarrow> world_ok I (snd (getItem E k w))"
  by (simp add: getItem_def world_ok_removeItem)

lemma world_ok_clear:
  "store_contract E I repr \<Longrightarrow> world_ok I w \<Longrightarrow> world_ok I (clear E w)"
  by (simp add: clear_def world_ok_def contract_inv_clear)

lemma raw_clear: "store_contract E I repr \<Longrightarrow> world_ok I w \<Longrightarrow> raw E (clear E w) k = JNull"
  by (simp add: clear_def raw_def world_ok_def contract_get_clear)


lemmas raw_after = raw_updateExpiration raw_removeItem raw_setItem raw_clear

lemmas world_ok_after = world_ok_updateExpiration world_ok_removeItem world_ok_setItem
  world_ok_getItem world_ok_clear


subsection \<open>What each operation leaves in the enumeration\<close>

lemma listed_updateExpiration:
  assumes "enum_law E I" "world_ok I w"
  shows "listed E (snd (updateExpiration E k e w)) =
     (if isl (fst (updateExpiration E k e w)) then listed E w
      else insert (expiration_key k) (listed E w))"
  using assms by (simp add: updateExpiration_def Let_def listed_def world_ok_def enum_set)

lemma listed_removeItem:
  assumes "store_contract E I repr" "enum_law E I" "world_ok I w"
  shows "listed E (snd (removeItem E k w)) = listed E w - {k, expiration_key k}"
  using assms
  by (auto simp: removeItem_def Let_def listed_def world_ok_def enum_remove contract_inv_remove)

lemma listed_setItem:
  assumes "store_contract E I repr" "enum_law E I" "world_ok I w" "fst (setItem E k v e w) = Inr r"
  shows "listed E (snd (setItem E k v e w)) =
     insert k (listed E w) \<union> (if truthy e then {expiration_key k} else {})"
proof -
  let ?w1 = "w\<lparr>store := snd (st_setItem E (store w) k v)\<rparr>"
  note ok = setItem_ok [OF assms(4)]
  have w1: "world_ok I ?w1" using assms(1,3) by (simp add: world_ok_def contract_inv_set)
  have "listed E ?w1 = insert k (listed E w)"
    using assms(2,3) ok(1) by (simp add: listed_def world_ok_def enum_set)
  then show ?thesis
    using listed_updateExpiration [OF assms(2) w1, of k e] ok(3) by (auto simp: ok(2))
qed

lemma listed_clear: "enum_law E I \<Longrightarrow> world_ok I w \<Longrightarrow> listed E (clear E w) = {}"
  by (simp add: clear_def listed_def world_ok_def enum_clear)

lemma listed_clock_update [simp]: "listed E (w\<lparr>clock := c\<rparr>) = listed E w"
  by (simp add: listed_def)

lemmas listed_after = listed_updateExpiration listed_removeItem listed_setItem listed_clear

section \<open>The test store never fails, and reads of the world\<close>

lemma ts_updateExpiration_ok [simp]: "fst (updateExpiration test_expired k e w) = Inr JUndefined"
  by (simp add: updateExpiration_def ts_setItem_def)

lemma ts_setItem_ok [simp]: "fst (setItem test_expired k v e w) = Inr JUndefined"
  by (simp add: setItem_def Let_def ts_setItem_def)

lemma raw_clock_update [simp]: "raw E (w\<lparr>clock := c\<rparr>) k = raw E w k"
  by (simp add: raw_def)

lemma getTimestamp_clock_update [simp]: "getTimestamp E (w\<lparr>clock := c\<rparr>) = getTimestamp_impl E c"
  by (simp add: getTimestamp_def)

lemma raw_setItem_no_ttl:
  assumes "store_contract E I repr" "world_ok I w" "\<not> truthy e"
  shows "raw E (snd (setItem E k v e w)) k' =
     (if isl (fst (setItem E k v e w)) \<or> k' \<noteq> k then raw E w k' else repr v)"
  using assms
  by (auto simp: setItem_def Let_def raw_def world_ok_def contract_get_set_ok
      contract_get_set_failed split: sum.splits)

section \<open>Guarantees of the item operations\<close>

text \<open>
  C2. Lazy eviction. On any store that meets the contract, \<^verbatim>\<open>getItem\<close> of a key that is
  expired returns \<^verbatim>\<open>null\<close> and leaves both the value and its expiry record absent from
  the backing store (they read \<^verbatim>\<open>null\<close>); no other key of the store is changed.
\<close>

theorem getItem_expired_evicts:
  assumes "store_contract E I repr" and "world_ok I w" and "isExpired E k w"
  shows "fst (getItem E k w) = JNull \<and>
         raw E (snd (getItem E k w)) k = JNull \<and>
         raw E (snd (getItem E k w)) (expiration_key k) = JNull \<and>
         (\<forall>k'. k' \<noteq> k \<longrightarrow> k' \<noteq> expiration_key k \<longrightarrow> raw E (snd (getItem E k w)) k' = raw E w k')"
  using assms by (simp add: getItem_def raw_removeItem)

theorem getItem_expired_evicts_witness:
  "isExpired test_expired ''test'' expired_item_world \<and>
   fst (getItem test_expired ''test'' expired_item_world) = JNull \<and>
   raw test_expired (snd (getItem test_expired ''test'' expired_item_world)) ''test'' = JNull \<and>
   raw test_expired (snd (getItem test_expired ''test'' expired_item_world))
     (expiration_key ''test'') = JNull"
proof -
  have h: "isExpired test_expired ''test'' expired_item_world" by code_simp
  from getItem_expired_evicts [OF ts_contract world_ok_examples(1) h] h show ?thesis by simp
qed

text \<open>
  C3. After a successful \<^verbatim>\<open>setItem(k, v, t)\<close> with a numeric, non-zero \<open>t\<close> made at time
  \<open>T\<close> (with \<open>T + t \<noteq> 0\<close>), a later \<^verbatim>\<open>getTimeLeft(k)\<close> at time \<open>T'\<close> is \<open>T + t - T'\<close>, and
  \<^verbatim>\<open>isExpired(k)\<close> holds exactly when \<open>T + t \<le> T'\<close>: an item whose time left is 0 is
  already expired.
\<close>

theorem setItem_ttl_timeLeft:
  assumes "store_contract E I repr" and "world_ok I w"
    and "fst (setItem E k v (JNum t) w) = Inr r" and "t \<noteq> 0" and "getTimestamp E w + t \<noteq> 0"
  shows "getTimeLeft E k ((snd (setItem E k v (JNum t) w))\<lparr>clock := c\<rparr>)
           = Some (getTimestamp E w + t - getTimestamp_impl E c) \<and>
         (isExpired E k ((snd (setItem E k v (JNum t) w))\<lparr>clock := c\<rparr>)
           \<longleftrightarrow> getTimestamp E w + t \<le> getTimestamp_impl E c)"
proof -
  have "raw E ((snd (setItem E k v (JNum t) w))\<lparr>clock := c\<rparr>) (expiration_key k)
      = repr (JNum (getTimestamp E w + t))"
    using raw_setItem [OF assms(1-3), of "expiration_key k"] assms(4) by simp
  then have "getTimeLeft E k ((snd (setItem E k v (JNum t) w))\<lparr>clock := c\<rparr>)
           = Some (getTimestamp E w + t - getTimestamp_impl E c)"
    using assms(5) by (simp add: getTimeLeft_raw contract_parseInt_repr [OF assms(1)])
  then show ?thesis by (simp add: isExpired_def)
qed

theorem setItem_ttl_timeLeft_witness:
  "getTimeLeft test_expired ''test''
     ((snd (setItem test_expired ''test'' (JStr ''foo'') (JNum 10) \<lparr>store = [], clock = 0\<rparr>))\<lparr>clock := 15\<rparr>)
     = Some (- 5) \<and>
   isExpired test_expired ''test''
     ((snd (setItem test_expired ''test'' (JStr ''foo'') (JNum 10) \<lparr>store = [], clock = 0\<rparr>))\<lparr>clock := 10\<rparr>)"
  using setItem_ttl_timeLeft [OF ts_contract world_ok_ts_empty [of 0] ts_setItem_ok,
      where t = 10 and k = "''test''" and v = "JStr ''foo''" and c = 15]
    setItem_ttl_timeLeft [OF ts_contract world_ok_ts_empty [of 0] ts_setItem_ok,
      where t = 10 and k = "''test''" and v = "JStr ''foo''" and c = 10]
  by simp

text \<open>
  C4. Write then read. After a successful \<^verbatim>\<open>setItem(k, v, e)\<close>, with or without a
  time to live, \<^verbatim>\<open>getItem(k)\<close> at any later time at which \<open>k\<close> is not expired returns the
  value as the store represents it and changes nothing.
\<close>

theorem setItem_getItem_roundtrip:
  assumes "store_contract E I repr" and "world_ok I w" and "fst (setItem E k v e w) = Inr r"
    and "\<not> isExpired E k ((snd (setItem E k v e w))\<lparr>clock := c\<rparr>)"
  shows "getItem E k ((snd (setItem E k v e w))\<lparr>clock := c\<rparr>)
           = (repr v, (snd (setItem E k v e w))\<lparr>clock := c\<rparr>)"
  using assms(4) raw_setItem [OF assms(1-3), of k]
  by (simp add: getItem_def raw_def)

theorem setItem_getItem_roundtrip_witness:
  "fst (getItem test_expired ''test''
     ((snd (setItem test_expired ''test'' (JStr ''foo'') (JNum 10) \<lparr>store = [], clock = 0\<rparr>))\<lparr>clock := 9\<rparr>))
     = JStr ''foo''"
proof -
  have h: "\<not> isExpired test_expired ''test''
     ((snd (setItem test_expired ''test'' (JStr ''foo'') (JNum 10) \<lparr>store = [], clock = 0\<rparr>))\<lparr>clock := 9\<rparr>)"
    by code_simp
  from setItem_getItem_roundtrip [OF ts_contract world_ok_ts_empty ts_setItem_ok h]
  show ?thesis by (simp add: ts_repr_def)
qed

text \<open>
  C6. The expiry record round-trips through the store. \<^verbatim>\<open>updateExpiration(k, t)\<close> at time
  \<open>T\<close> leaves under the derived key a value that \<^verbatim>\<open>parseInt\<close> reads as \<open>T + t\<close>, whether the
  store keeps the number or its text; \<^verbatim>\<open>getTimeLeft\<close> then reports \<open>T + t - T'\<close>, except
  that an expiry instant of exactly 0 is taken for no expiry at all.
\<close>

theorem expiry_roundtrip:
  assumes "store_contract E I repr" and "world_ok I w"
    and "\<not> isl (fst (updateExpiration E k (JNum t) w))"
  shows "js_parseInt (raw E (snd (updateExpiration E k (JNum t) w)) (expiration_key k))
           = Some (getTimestamp E w + t) \<and>
         getTimeLeft E k ((snd (updateExpiration E k (JNum t) w))\<lparr>clock := c\<rparr>)
           = (if getTimestamp E w + t = 0 then None
              else Some (getTimestamp E w + t - getTimestamp_impl E c))"
  using raw_updateExpiration [OF assms(1,2), of k "JNum t" "expiration_key k"] assms(3)
  by (simp add: getTimeLeft_raw contract_parseInt_repr [OF assms(1)])

theorem expiry_roundtrip_witness:
  "getTimeLeft test_expired ''k''
     ((snd (updateExpiration test_expired ''k'' (JNum 100) \<lparr>store = [], clock = 7\<rparr>))\<lparr>clock := 8\<rparr>) = Some 99 \<and>
   getTimeLeft test_expired ''k''
     ((snd (updateExpiration test_expired ''k'' (JNum (- 7)) \<lparr>store = [], clock = 7\<rparr>))\<lparr>clock := 8\<rparr>) = None"
  using expiry_roundtrip [OF ts_contract world_ok_ts_empty [of 7],
      where k = "''k''" and t = 100 and c = 8]
    expiry_roundtrip [OF ts_contract world_ok_ts_empty [of 7],
      where k = "''k''" and t = "- 7" and c = 8]
  by simp

text \<open>
  C9. \<^verbatim>\<open>setItem\<close> without a time to live (a falsy third argument) does not touch the
  expiry record: the time left of the key is what it was. In particular a key that was
  expired stays expired, and the value just written is evicted by the next \<^verbatim>\<open>getItem\<close>.
\<close>

theorem setItem_without_ttl_keeps_expiry:
  assumes "store_contract E I repr" and "world_ok I w" and "\<not> truthy e"
  shows "getTimeLeft E k (snd (setItem E k v e w)) = getTimeLeft E k w \<and>
         (isExpired E k w \<longrightarrow> fst (getItem E k (snd (setItem E k v e w))) = JNull)"
proof -
  have "getTimeLeft E k (snd (setItem E k v e w)) = getTimeLeft E k w"
    by (rule getTimeLeft_cong) (simp_all add: raw_setItem_no_ttl [OF assms])
  then show ?thesis by (simp add: isExpired_def getItem_def)
qed

theorem setItem_without_ttl_keeps_expiry_witness:
  "isExpired test_expired ''test'' expired_item_world \<and>
   fst (getItem test_expired ''test''
     (snd (setItem test_expired ''test'' (JStr ''new'') JUndefined expired_item_world))) = JNull"
proof -
  have h: "isExpired test_expired ''test'' expired_item_world" by code_simp
  from setItem_without_ttl_keeps_expiry [OF ts_contract world_ok_examples(1),
      where e = JUndefined and k = "''test''" and v = "JStr ''new''"] h
  show ?thesis by simp
qed

text \<open>
  C10. \<^verbatim>\<open>removeItem(k)\<close> makes the value and the expiry record of \<open>k\<close> read \<^verbatim>\<open>null\<close>,
  changes no other key, leaves \<open>k\<close> without an expiry, and doing it twice is the same
  as doing it once.
\<close>

theorem removeItem_removes_both:
  assumes "store_contract E I repr" and "world_ok I w"
  shows "(\<forall>k'. raw E (snd (removeItem E k w)) k' =
            (if k' = k \<or> k' = expiration_key k then JNull else raw E w k')) \<and>
         (\<forall>k'. raw E (snd (removeItem E k (snd (removeItem E k w)))) k' =
            raw E (snd (removeItem E k w)) k') \<and>
         getTimeLeft E k (snd (removeItem E k w)) = None"
  using assms by (simp add: raw_removeItem world_ok_removeItem getTimeLeft_null)

theorem removeItem_removes_both_witness:
  "raw test_expired (snd (removeItem test_expired ''test'' expired_item_world)) ''test'' = JNull \<and>
   raw test_expired (snd (removeItem test_expired ''test'' expired_item_world)) (expiration_key ''test'') = JNull"
  using removeItem_removes_both [OF ts_contract world_ok_examples(1), where k = "''test''"] by simp



text \<open>
  C28. \<^verbatim>\<open>updateExpiration\<close> checks nothing: it writes the expiry record and leaves the
  value as it is. Called for a key that holds no value it creates an expiry record on its
  own, and the key then has a time left although it reads \<^verbatim>\<open>null\<close>.
\<close>

theorem updateExpiration_dangling:
  assumes "store_contract E I repr" and "world_ok I w"
    and "\<not> isl (fst (updateExpiration E k (JNum t) w))" and "getTimestamp E w + t \<noteq> 0"
  shows "raw E (snd (updateExpiration E k (JNum t) w)) k = raw E w k \<and>
         getTimeLeft E k (snd (updateExpiration E k (JNum t) w)) = Some t"
  using raw_updateExpiration [OF assms(1,2), of k "JNum t"] assms(3,4)
  by (simp add: getTimeLeft_raw getTimestamp_def contract_parseInt_repr [OF assms(1)])

theorem updateExpiration_dangling_witness:
  "raw test_expired (snd (updateExpiration test_expired ''ghost'' (JNum 5) \<lparr>store = [], clock = 1\<rparr>)) ''ghost'' = JNull \<and>
   getTimeLeft test_expired ''ghost'' (snd (updateExpiration test_expired ''ghost'' (JNum 5) \<lparr>store = [], clock = 1\<rparr>)) = Some 5"
  using updateExpiration_dangling [OF ts_contract world_ok_ts_empty [of 1],
      where k = "''ghost''" and t = 5]
  by (simp add: raw_def)

text \<open>
  C29. The namespace of expiry records is not protected. Writing a number \<open>n\<close> as the
  value of the key \<^verbatim>\<open>"__expired_storage_ts__" + k\<close> gives the key \<open>k\<close> the expiry instant
  \<open>n\<close>: its time left becomes \<open>n\<close> minus the current time.
\<close>

theorem prefixed_key_collides:
  assumes "store_contract E I repr" and "world_ok I w"
    and "fst (setItem E (expiration_key k) (JNum n) e w) = Inr r" and "n \<noteq> 0"
  shows "getTimeLeft E k (snd (setItem E (expiration_key k) (JNum n) e w))
           = Some (n - getTimestamp E w)"
  using raw_setItem [OF assms(1-3), of "expiration_key k"] assms(4)
  by (simp add: getTimeLeft_raw getTimestamp_def contract_parseInt_repr [OF assms(1)])

theorem prefixed_key_collides_witness:
  "getTimeLeft test_expired ''a''
     (snd (setItem test_expired (expiration_key ''a'') (JNum 5) JUndefined \<lparr>store = [], clock = 9\<rparr>)) = Some (- 4)"
  using prefixed_key_collides [OF ts_contract world_ok_ts_empty [of 9] ts_setItem_ok,
      where n = 5 and k = "''a''" and e = JUndefined]
  by simp

text \<open>
  C30. A time to live given as text is concatenated, not added. \<^verbatim>\<open>setItem(k, v, s)\<close> with a
  string \<open>s\<close> of decimal digits at a time \<open>T \<ge> 0\<close> stores as expiry instant the text of
  \<open>T\<close> followed by \<open>s\<close>, which \<^verbatim>\<open>parseInt\<close> reads as \<open>T\<close> shifted by as many decimal places
  as \<open>s\<close> has digits, plus the number \<open>s\<close> denotes: the item lives far longer than \<open>s\<close>
  seconds.
\<close>

theorem string_ttl_concatenates:
  assumes "store_contract E I repr" and "world_ok I w"
    and "fst (setItem E k v (JStr s) w) = Inr r" and "is_decimal s" and "0 \<le> getTimestamp E w"
  shows "js_parseInt (raw E (snd (setItem E k v (JStr s) w)) (expiration_key k))
           = Some (getTimestamp E w * 10 ^ length s + int (parse_digits 10 s 0))"
proof -
  from assms(4) have "truthy (JStr s)" by (auto simp: is_decimal_def)
  then have "raw E (snd (setItem E k v (JStr s) w)) (expiration_key k)
      = repr (JStr (int_to_decimal (getTimestamp E w) @ s))"
    using raw_setItem [OF assms(1-3), of "expiration_key k"] by simp
  then show ?thesis
    using assms(4,5) by (simp add: contract_parseInt_repr [OF assms(1)] js_parseInt_number_digits)
qed

theorem string_ttl_concatenates_witness:
  "getTimeLeft test_expired ''k''
     (snd (setItem test_expired ''k'' (JStr ''v'') (JStr ''60'') \<lparr>store = [], clock = 1000\<rparr>))
     = Some 99060"
proof -
  have d: "is_decimal ''60''" by code_simp
  from string_ttl_concatenates [OF ts_contract world_ok_ts_empty [of 1000] ts_setItem_ok d,
      of "''k''" "JStr ''v''"]
  show ?thesis by (simp add: getTimeLeft_raw digit_val_def)
qed

text \<open>
  C26. \<^verbatim>\<open>clear\<close> wipes everything. After \<^verbatim>\<open>clear()\<close> every key of the backing store reads
  \<^verbatim>\<open>null\<close>, whether the wrapper wrote it or not, no key has an expiry instant, and
  \<^verbatim>\<open>getItem\<close> of any key returns \<^verbatim>\<open>null\<close> without changing the store.
\<close>

theorem clear_removes_everything:
  assumes "store_contract E I repr" and "world_ok I w"
  shows "raw E (clear E w) k = JNull \<and> getTimeLeft E k (clear E w) = None \<and>
         getItem E k (clear E w) = (JNull, clear E w)"
  using raw_clear [OF assms]
  by (simp add: getItem_def isExpired_def getTimeLeft_null raw_def [symmetric])

theorem clear_removes_everything_witness:
  "getItem test_expired ''test'' (clear test_expired expired_item_world)
     = (JNull, \<lparr>store = [], clock = clock expired_item_world\<rparr>)"
  using clear_removes_everything [OF ts_contract world_ok_examples(1), of "''test''"]
  by (simp add: clear_def ts_clear_def)

end
