(* ===== verification/Key_Enumeration.thy ===== *)
theory Key_Enumeration
  imports Expired_Storage
begin

text \<open>
  The methods of \<^verbatim>\<open>ExpiredStorage.prototype\<close> that walk the keys of the backing store:
  \<^verbatim>\<open>_iterKeys\<close> with its four ways of enumerating, \<^verbatim>\<open>keys\<close> and the active sweep
  \<^verbatim>\<open>clearExpired\<close>. The callbacks, closures over a result array in the source, take
  and return that array beside the world. \<^verbatim>\<open>clearExpired\<close> also reads the clock into a
  variable it never uses; the model has no counterpart for it.
\<close>

section \<open>Definitions\<close>

text \<open>
  The \<^verbatim>\<open>for ... in\<close> loop of \<^verbatim>\<open>_iterKeys\<close>: the names are those the object had when the
  loop began, and a name that has been deleted before its turn is not visited.
\<close>

fun forin_loop ::
  "('s \<Rightarrow> key list) \<Rightarrow> (key \<Rightarrow> 'a \<times> 's world \<Rightarrow> 'a \<times> 's world) \<Rightarrow> key list \<Rightarrow>
   'a \<times> 's world \<Rightarrow> 'a \<times> 's world" where
  "forin_loop en cb [] aw = aw"
| "forin_loop en cb (k # ks) aw =
     (if k \<in> set (en (store (snd aw))) then forin_loop en cb ks (cb k aw)
      else forin_loop en cb ks aw)"

text \<open>
  \<^verbatim>\<open>_iterKeys\<close>: the callback is run over the keys of the first capability the store
  has. The callback's accumulator is the \<^verbatim>\<open>ret\<close> array its closure appends to. In the
  first three branches the keys are collected before the first call.
\<close>

definition iterKeys ::
  "'s expired_storage \<Rightarrow> (key \<Rightarrow> 'a \<times> 's world \<Rightarrow> 'a \<times> 's world) \<Rightarrow> 'a \<times> 's world \<Rightarrow>
   'a \<times> 's world" where
  "iterKeys E cb aw =
     (let s = store (snd aw) in
      case st_keys E of
        Some keys_fn \<Rightarrow> fold cb (keys_fn s) aw
      | None \<Rightarrow>
          if env_Object_keys E then fold cb (st_own_keys E s) aw
          else (case (st_length E, st_key E) of
                  (Some len, Some key_at) \<Rightarrow> fold cb (map (key_at s) [0..<len s]) aw
                | _ \<Rightarrow> forin_loop (st_for_in E) cb (st_for_in E s) aw))"

definition keys_callback ::
  "'s expired_storage \<Rightarrow> bool \<Rightarrow> key \<Rightarrow> key list \<times> 's world \<Rightarrow> key list \<times> 's world" where
  "keys_callback E includeExpired storageKey aw =
     (if \<not> prefix expiration_key_prefix storageKey then
        (if includeExpired \<or> \<not> isExpired E storageKey (snd aw)
         then (fst aw @ [storageKey], snd aw) else aw)
      else aw)"

definition keys :: "'s expired_storage \<Rightarrow> bool \<Rightarrow> 's world \<Rightarrow> key list \<times> 's world" where
  "keys E includeExpired w = iterKeys E (keys_callback E includeExpired) ([], w)"

definition clearExpired_callback ::
  "'s expired_storage \<Rightarrow> key \<Rightarrow> key list \<times> 's world \<Rightarrow> key list \<times> 's world" where
  "clearExpired_callback E storageKey aw =
     (if prefix expiration_key_prefix storageKey then
        (let itemKey = drop (length expiration_key_prefix) storageKey in
         if isExpired E itemKey (snd aw)
         then (fst aw @ [itemKey], snd (removeItem E itemKey (snd aw))) else aw)
      else aw)"

definition clearExpired :: "'s expired_storage \<Rightarrow> 's world \<Rightarrow> key list \<times> 's world" where
  "clearExpired E w = iterKeys E (clearExpired_callback E) ([], w)"

text \<open>
  The two tests the callbacks make of a storage key, named for the statements below:
  whether it is an expiry record, and the item it is the expiry record of.
\<close>

definition is_expiration_key :: "key \<Rightarrow> bool" where
  "is_expiration_key x = prefix expiration_key_prefix x"

definition item_key_of :: "key \<Rightarrow> key" where
  "item_key_of x = drop (length expiration_key_prefix) x"

text \<open>
  What a sweep does, apart from the order of the visits: \<open>sweeps E w new w'\<close> holds when
  removing the keys \<open>new\<close> one after the other, each expired at its turn, leads from \<open>w\<close>
  to \<open>w'\<close>.
\<close>

inductive sweeps :: "'s expired_storage \<Rightarrow> 's world \<Rightarrow> key list \<Rightarrow> 's world \<Rightarrow> bool"
  for E :: "'s expired_storage" where
    sweeps_done: "sweeps E w [] w"
  | sweeps_remove:
      "isExpired E k w \<Longrightarrow> sweeps E (snd (removeItem E k w)) new w' \<Longrightarrow> sweeps E w (k # new) w'"

inductive_cases sweeps_NilE [elim!]: "sweeps E w [] w'"
inductive_cases sweeps_ConsE [elim!]: "sweeps E w (k # new) w'"

lemmas [es_ops] = keys_def clearExpired_def

section \<open>Enumeration\<close>

lemma iterKeys_snapshot:
  "snapshot_iteration E \<Longrightarrow> iterKeys E cb aw = fold cb (key_snapshot E (store (snd aw))) aw"
  by (auto simp: iterKeys_def key_snapshot_def snapshot_iteration_def Let_def split: option.splits)

lemma forin_loop_readonly:
  assumes "\<And>k aw. store (snd (cb k aw)) = store (snd aw)"
  shows "set ks \<subseteq> set (en (store (snd aw))) \<Longrightarrow> forin_loop en cb ks aw = fold cb ks aw"
  by (induction ks arbitrary: aw) (auto simp: assms)

lemma iterKeys_readonly:
  assumes "\<And>k aw. store (snd (cb k aw)) = store (snd aw)"
  shows "iterKeys E cb aw = fold cb (key_snapshot E (store (snd aw))) aw"
  using forin_loop_readonly [of cb "st_for_in E (store (snd aw))" "st_for_in E" aw, OF assms]
  by (auto simp: iterKeys_def key_snapshot_def Let_def split: option.splits)

lemma forin_loop_preserves:
  assumes "\<And>k aw. P (snd aw) \<Longrightarrow> P (snd (cb k aw))"
  shows "P (snd aw) \<Longrightarrow> P (snd (forin_loop en cb ks aw))"
  by (induction ks arbitrary: aw) (auto simp: assms)

lemma iterKeys_preserves:
  assumes "\<And>k aw. P (snd aw) \<Longrightarrow> P (snd (cb k aw))" and "P (snd aw)"
  shows "P (snd (iterKeys E cb aw))"
  using assms
  by (auto simp: iterKeys_def Let_def forin_loop_preserves split: option.splits
        intro!: fold_preserves [where P = "\<lambda>aw. P (snd aw)"])

lemma snd_keys_callback [simp]: "snd (keys_callback E inc k aw) = snd aw"
  by (simp add: keys_callback_def)

lemma fold_keys_callback:
  "fold (keys_callback E inc) ks (acc, w) =
     (acc @ filter (\<lambda>k. \<not> is_expiration_key k \<and> (inc \<or> \<not> isExpired E k w)) ks, w)"
  by (induction ks arbitrary: acc) (auto simp: keys_callback_def is_expiration_key_def)

text \<open>
  C5. \<^verbatim>\<open>keys(includeExpired)\<close> returns, in the store's enumeration order, the enumerated
  keys that do not begin with the expiry prefix, without those that are expired unless
  \<open>includeExpired\<close> is set; and it leaves the world as it was: the expired keys it hides
  are not evicted. This holds for each of the four ways \<^verbatim>\<open>_iterKeys\<close> enumerates.
\<close>

theorem keys_filters:
  "keys E inc w =
     (filter (\<lambda>k. \<not> is_expiration_key k \<and> (inc \<or> \<not> isExpired E k w)) (key_snapshot E (store w)), w)"
  by (simp add: keys_def iterKeys_readonly fold_keys_callback)

theorem keys_filters_witness:
  "keys test_expired False clear_expired_world = ([''stay'', ''stay2''], clear_expired_world) \<and>
   keys test_expired True clear_expired_world =
     ([''test'', ''test2'', ''stay'', ''stay2''], clear_expired_world)"
proof -
  have "filter (\<lambda>k. \<not> is_expiration_key k \<and> (False \<or> \<not> isExpired test_expired k clear_expired_world))
          (key_snapshot test_expired (store clear_expired_world)) = [''stay'', ''stay2'']"
    by code_simp
  moreover have "filter (\<lambda>k. \<not> is_expiration_key k \<and> (True \<or> \<not> isExpired test_expired k clear_expired_world))
          (key_snapshot test_expired (store clear_expired_world)) = [''test'', ''test2'', ''stay'', ''stay2'']"
    by code_simp
  ultimately show ?thesis
    using keys_filters [of test_expired False clear_expired_world]
      keys_filters [of test_expired True clear_expired_world] by simp
qed

section \<open>The sweep as a fold\<close>

lemma clearExpired_callback_cases:
  "clearExpired_callback E x (acc, w) =
     (if is_expiration_key x \<and> isExpired E (item_key_of x) w
      then (acc @ [item_key_of x], snd (removeItem E (item_key_of x) w)) else (acc, w))"
  by (simp add: clearExpired_callback_def is_expiration_key_def item_key_of_def Let_def)

lemma fold_sweeps:
  "\<exists>new. fst (fold (clearExpired_callback E) ks (acc, w)) = acc @ new \<and>
         sweeps E w new (snd (fold (clearExpired_callback E) ks (acc, w)))"
proof (induction ks arbitrary: acc w)
  case Nil
  show ?case by (simp add: sweeps_done)
next
  case (Cons x ks)
  show ?case
  proof (cases "is_expiration_key x \<and> isExpired E (item_key_of x) w")
    case False
    with Cons [of acc w] show ?thesis by (auto simp: clearExpired_callback_cases)
  next
    case True
    from Cons [of "acc @ [item_key_of x]" "snd (removeItem E (item_key_of x) w)"]
    obtain new where
      "fst (fold (clearExpired_callback E) (x # ks) (acc, w)) = acc @ item_key_of x # new"
      "sweeps E (snd (removeItem E (item_key_of x) w)) new
         (snd (fold (clearExpired_callback E) (x # ks) (acc, w)))"
      using True by (auto simp: clearExpired_callback_cases)
    with True show ?thesis by (blast intro: sweeps_remove)
  qed
qed

lemma sweeps_raw:
  assumes c: "store_contract E I repr"
  shows "sweeps E w new w' \<Longrightarrow> world_ok I w \<Longrightarrow>
    world_ok I w' \<and> clock w' = clock w \<and>
    (\<forall>k'. raw E w' k' = (if k' \<in> set new \<or> k' \<in> expiration_key ` set new then JNull else raw E w k'))"
proof (induction rule: sweeps.induct)
  case (sweeps_done w)
  then show ?case by simp
next
  case (sweeps_remove k w new w')
  then show ?case
    using world_ok_removeItem [OF c, of w k] raw_removeItem [OF c, of w k] by auto
qed

lemma sweep_fold:
  assumes c: "store_contract E I repr"
  shows "world_ok I w \<Longrightarrow>
    \<exists>new. fst (fold (clearExpired_callback E) ks (acc, w)) = acc @ new \<and>
          world_ok I (snd (fold (clearExpired_callback E) ks (acc, w))) \<and>
          clock (snd (fold (clearExpired_callback E) ks (acc, w))) = clock w \<and>
          (\<forall>k'. raw E (snd (fold (clearExpired_callback E) ks (acc, w))) k' =
             (if k' \<in> set new \<or> k' \<in> expiration_key ` set new then JNull else raw E w k'))"
  using fold_sweeps [of E ks acc w] sweeps_raw [OF c] by blast

lemma sweep_keeps_unexpired:
  assumes "store_contract E I repr" and "world_ok I w" and "\<not> isExpired E k w"
  shows "\<not> isExpired E k (snd (fold (clearExpired_callback E) ks (acc, w)))"
proof -
  let ?w' = "snd (fold (clearExpired_callback E) ks (acc, w))"
  from sweep_fold [OF assms(1,2), of ks acc] obtain new where
    clk: "clock ?w' = clock w" and
    rw: "\<And>k'. raw E ?w' k' = (if k' \<in> set new \<or> k' \<in> expiration_key ` set new then JNull else raw E w k')"
    by blast
  show ?thesis
  proof (cases "raw E ?w' (expiration_key k) = JNull")
    case True
    then show ?thesis by (rule not_isExpired_null)
  next
    case False
    with rw [of "expiration_key k"] have "raw E ?w' (expiration_key k) = raw E w (expiration_key k)"
      by (simp split: if_splits)
    then have "isExpired E k ?w' = isExpired E k w" using clk by (rule isExpired_cong)
    with assms(3) show ?thesis by simp
  qed
qed

lemma sweep_visited:
  assumes c: "store_contract E I repr"
  shows "world_ok I w \<Longrightarrow> expiration_key k \<in> set ks \<Longrightarrow>
         \<not> isExpired E k (snd (fold (clearExpired_callback E) ks (acc, w)))"
proof (induction ks arbitrary: acc w)
  case Nil
  then show ?case by simp
next
  case (Cons x ks)
  obtain acc1 w1 where cb: "clearExpired_callback E x (acc, w) = (acc1, w1)"
    by (cases "clearExpired_callback E x (acc, w)")
  have ok1: "world_ok I w1"
    using cb Cons.prems(1) world_ok_removeItem [OF c]
    by (auto simp: clearExpired_callback_cases split: if_splits)
  show ?case
  proof (cases "x = expiration_key k")
    case True
    have "\<not> isExpired E k w1"
    proof (cases "isExpired E k w")
      case True
      with \<open>x = expiration_key k\<close> cb have "w1 = snd (removeItem E k w)"
        by (simp add: clearExpired_callback_cases is_expiration_key_def item_key_of_def)
      then show ?thesis
        using raw_removeItem [OF c Cons.prems(1), of k "expiration_key k"]
        by (simp add: not_isExpired_null)
    next
      case False
      with \<open>x = expiration_key k\<close> cb show ?thesis
        by (simp add: clearExpired_callback_cases is_expiration_key_def item_key_of_def)
    qed
    with sweep_keeps_unexpired [OF c ok1] cb show ?thesis by simp
  next
    case False
    with Cons.prems(2) have "expiration_key k \<in> set ks" by simp
    with Cons.IH [OF ok1] cb show ?thesis by simp
  qed
qed

lemma sweep_result:
  assumes c: "store_contract E I repr"
  shows "world_ok I w \<Longrightarrow> distinct ks \<Longrightarrow>
    \<forall>x \<in> set ks. is_expiration_key x \<longrightarrow> \<not> is_expiration_key (item_key_of x) \<Longrightarrow>
    fst (fold (clearExpired_callback E) ks (acc, w)) =
      acc @ map item_key_of (filter (\<lambda>x. is_expiration_key x \<and> isExpired E (item_key_of x) w) ks)"
proof (induction ks arbitrary: acc w)
  case Nil
  then show ?case by simp
next
  case (Cons x ks)
  show ?case
  proof (cases "is_expiration_key x \<and> isExpired E (item_key_of x) w")
    case False
    with Cons.IH [OF Cons.prems(1), of acc] Cons.prems(2,3) show ?thesis
      by (auto simp: clearExpired_callback_cases)
  next
    case True
    let ?k = "item_key_of x" and ?w1 = "snd (removeItem E (item_key_of x) w)"
    have ok1: "world_ok I ?w1" using c Cons.prems(1) by (rule world_ok_removeItem)
    have same: "isExpired E (item_key_of y) ?w1 = isExpired E (item_key_of y) w"
      if y: "y \<in> set ks" "is_expiration_key y" for y
    proof (rule isExpired_cong)
      have ey: "expiration_key (item_key_of y) = y"
        using y(2) by (simp add: is_expiration_key_def item_key_of_def prefix_is_expiration_key)
      have ex: "expiration_key ?k = x"
        using True by (simp add: is_expiration_key_def item_key_of_def prefix_is_expiration_key)
      from y(1) Cons.prems(2) have "y \<noteq> x" by auto
      moreover from True Cons.prems(3) y(2) have "y \<noteq> ?k" by auto
      ultimately show "raw E ?w1 (expiration_key (item_key_of y)) = raw E w (expiration_key (item_key_of y))"
        using raw_removeItem [OF c Cons.prems(1), of ?k y] ey ex by simp
    qed simp
    have "filter (\<lambda>y. is_expiration_key y \<and> isExpired E (item_key_of y) ?w1) ks
        = filter (\<lambda>y. is_expiration_key y \<and> isExpired E (item_key_of y) w) ks"
      by (rule filter_cong) (auto simp: same)
    with Cons.IH [OF ok1, of "acc @ [?k]"] Cons.prems(2,3) True show ?thesis
      by (simp add: clearExpired_callback_cases)
  qed
qed

section \<open>The sweep over a live enumeration\<close>

text \<open>
  In its last branch \<^verbatim>\<open>_iterKeys\<close> walks the store with \<^verbatim>\<open>for ... in\<close> while the
  callback removes keys. A key that has been removed before its turn is skipped, and
  for the callback of the sweep that changes nothing: such a key reads \<^verbatim>\<open>null\<close>, and an
  expiry record that reads \<^verbatim>\<open>null\<close> makes no item expired. So the sweep is the same fold
  over the keys in all four branches.
\<close>

lemma world_ok_clearExpired_callback:
  "store_contract E I repr \<Longrightarrow> world_ok I (snd aw) \<Longrightarrow>
   world_ok I (snd (clearExpired_callback E x aw))"
  by (simp add: clearExpired_callback_def Let_def world_ok_removeItem)

lemma clearExpired_callback_absent:
  assumes "raw E w x = JNull"
  shows "clearExpired_callback E x (acc, w) = (acc, w)"
proof (cases "is_expiration_key x")
  case True
  then have "expiration_key (item_key_of x) = x"
    by (simp add: is_expiration_key_def item_key_of_def prefix_is_expiration_key)
  then have "\<not> isExpired E (item_key_of x) w"
    using assms not_isExpired_null [of E w "item_key_of x"] by simp
  then show ?thesis by (simp add: clearExpired_callback_cases)
qed (simp add: clearExpired_callback_cases)

lemma forin_sweep:
  assumes c: "store_contract E I repr"
    and en: "\<And>s k. I s \<Longrightarrow> k \<notin> set (en s) \<Longrightarrow> st_getItem E s k = JNull"
  shows "world_ok I w \<Longrightarrow>
         forin_loop en (clearExpired_callback E) ks (acc, w) =
           fold (clearExpired_callback E) ks (acc, w)"
proof (induction ks arbitrary: acc w)
  case Nil
  show ?case by simp
next
  case (Cons x ks)
  obtain acc1 w1 where cb: "clearExpired_callback E x (acc, w) = (acc1, w1)"
    by (cases "clearExpired_callback E x (acc, w)")
  have ok1: "world_ok I w1"
    using world_ok_clearExpired_callback [OF c, of "(acc, w)" x] Cons.prems cb by simp
  show ?case
  proof (cases "x \<in> set (en (store w))")
    case True
    then show ?thesis using Cons.IH [OF ok1] cb by simp
  next
    case False
    then have "raw E w x = JNull" using en Cons.prems by (simp add: raw_def world_ok_def)
    then have "clearExpired_callback E x (acc, w) = (acc, w)"
      by (rule clearExpired_callback_absent)
    then show ?thesis using False Cons.IH [OF Cons.prems] by simp
  qed
qed

lemma sweep_iterKeys:
  assumes "store_contract E I repr" and "world_ok I w"
    and "snapshot_iteration E \<or> enum_complete E I"
  shows "iterKeys E (clearExpired_callback E) (acc, w) =
           fold (clearExpired_callback E) (key_snapshot E (store w)) (acc, w)"
proof (cases "snapshot_iteration E")
  case True
  then show ?thesis by (simp add: iterKeys_snapshot)
next
  case False
  then have ks: "key_snapshot E s = st_for_in E s" for s
    by (auto simp: key_snapshot_def snapshot_iteration_def split: option.splits)
  have en: "st_getItem E s k = JNull" if "I s" "k \<notin> set (st_for_in E s)" for s k
    using assms(3) False that by (auto simp: enum_complete_def ks)
  have "iterKeys E (clearExpired_callback E) (acc, w) =
          forin_loop (st_for_in E) (clearExpired_callback E) (st_for_in E (store w)) (acc, w)"
    using False by (auto simp: iterKeys_def snapshot_iteration_def Let_def split: option.splits)
  then show ?thesis
    using forin_sweep [OF assms(1) en assms(2)] by (simp add: ks)
qed

section \<open>Guarantees of the sweep\<close>

text \<open>
  C1. The active sweep is complete. On a store that meets the contract and enumerates
  every key that reads non-\<^verbatim>\<open>null\<close>, no key at all is expired after \<^verbatim>\<open>clearExpired()\<close>,
  whichever of its four ways \<^verbatim>\<open>_iterKeys\<close> takes, the live \<^verbatim>\<open>for ... in\<close> loop included.
\<close>

theorem clearExpired_leaves_nothing_expired:
  assumes "store_contract E I repr" and "enum_complete E I" and "world_ok I w"
  shows "\<not> isExpired E k (snd (clearExpired E w))"
proof
  let ?ks = "key_snapshot E (store w)"
  let ?w' = "snd (fold (clearExpired_callback E) ?ks ([], w))"
  assume "isExpired E k (snd (clearExpired E w))"
  then have ex: "isExpired E k ?w'"
    using assms by (simp add: clearExpired_def sweep_iterKeys)
  then have nn: "raw E ?w' (expiration_key k) \<noteq> JNull"
    using not_isExpired_null by blast
  from sweep_fold [OF assms(1,3), of ?ks "[]"] obtain new where
    "\<And>k'. raw E ?w' k' = (if k' \<in> set new \<or> k' \<in> expiration_key ` set new then JNull else raw E w k')"
    by blast
  from this [of "expiration_key k"] nn have "raw E w (expiration_key k) \<noteq> JNull"
    by (simp split: if_splits)
  with assms(2,3) have "expiration_key k \<in> set ?ks"
    by (simp add: enum_complete_def raw_def world_ok_def)
  with sweep_visited [OF assms(1,3)] ex show False by blast
qed

theorem clearExpired_leaves_nothing_expired_witness:
  "\<not> isExpired test_expired ''test'' (snd (clearExpired test_expired clear_expired_world)) \<and>
   \<not> isExpired test_expired ''test2'' (snd (clearExpired test_expired clear_expired_world))"
  using clearExpired_leaves_nothing_expired [OF ts_contract ts_enum_complete world_ok_examples(2)]
  by blast

text \<open>
  C7. The sweep removes what it reports and nothing else: after \<^verbatim>\<open>clearExpired()\<close> the
  returned keys and their expiry records read \<^verbatim>\<open>null\<close>, and every other key of the store
  reads what it read before. This holds when the keys are walked over a snapshot, and
  over the live \<^verbatim>\<open>for ... in\<close> loop when that loop enumerates every key that reads
  non-\<^verbatim>\<open>null\<close>.
\<close>

theorem clearExpired_frame:
  assumes "store_contract E I repr" and "snapshot_iteration E \<or> enum_complete E I"
    and "world_ok I w"
  shows "raw E (snd (clearExpired E w)) k' =
           (if k' \<in> set (fst (clearExpired E w)) \<or> k' \<in> expiration_key ` set (fst (clearExpired E w))
            then JNull else raw E w k')"
  using sweep_fold [OF assms(1,3), of "key_snapshot E (store w)" "[]"]
  by (auto simp: clearExpired_def sweep_iterKeys [OF assms(1,3,2)])

theorem clearExpired_frame_witness:
  "raw test_expired (snd (clearExpired test_expired clear_expired_world)) ''stay'' = JStr ''woo'' \<and>
   raw test_expired (snd (clearExpired test_expired clear_expired_world)) ''test'' = JNull"
proof -
  have r: "fst (clearExpired test_expired clear_expired_world) = [''test'', ''test2'']"
    by code_simp
  have s: "raw test_expired clear_expired_world ''stay'' = JStr ''woo''"
    by code_simp
  from clearExpired_frame [OF ts_contract disjI1 [OF ts_snapshot_iteration] world_ok_examples(2),
        where k' = "''stay''"]
    clearExpired_frame [OF ts_contract disjI1 [OF ts_snapshot_iteration] world_ok_examples(2),
        where k' = "''test''"]
    r s
  show ?thesis by (simp add: expiration_key_def expiration_key_prefix_def)
qed

text \<open>
  C8. The result of the sweep, against a reference. When the enumeration lists no key
  twice and no expiry record of an expiry record, \<^verbatim>\<open>clearExpired()\<close> returns exactly the
  items of the enumerated expiry records that were expired when the sweep began, in
  enumeration order: removals made during the sweep do not change which later keys are
  found expired.
\<close>

theorem clearExpired_result:
  assumes "store_contract E I repr" and "snapshot_iteration E \<or> enum_complete E I"
    and "world_ok I w"
    and "distinct (key_snapshot E (store w))"
    and "\<forall>x \<in> set (key_snapshot E (store w)). is_expiration_key x \<longrightarrow> \<not> is_expiration_key (item_key_of x)"
  shows "fst (clearExpired E w) =
           map item_key_of (filter (\<lambda>x. is_expiration_key x \<and> isExpired E (item_key_of x) w)
             (key_snapshot E (store w)))"
  using sweep_result [OF assms(1,3,4,5), of "[]"]
  by (simp add: clearExpired_def sweep_iterKeys [OF assms(1,3,2)])

theorem clearExpired_result_witness:
  "fst (clearExpired test_expired clear_expired_world) = [''test'', ''test2'']"
proof -
  have d: "distinct (key_snapshot test_expired (store clear_expired_world))"
    by code_simp
  have h: "\<forall>x \<in> set (key_snapshot test_expired (store clear_expired_world)).
             is_expiration_key x \<longrightarrow> \<not> is_expiration_key (item_key_of x)"
    by code_simp
  have r: "map item_key_of (filter (\<lambda>x. is_expiration_key x \<and> isExpired test_expired (item_key_of x) clear_expired_world)
             (key_snapshot test_expired (store clear_expired_world))) = [''test'', ''test2'']"
    by code_simp
  from clearExpired_result [OF ts_contract disjI1 [OF ts_snapshot_iteration] world_ok_examples(2) d h] r
  show ?thesis by simp
qed

end
