(* ===== verification/JSON_Layer.thy ===== *)
theory JSON_Layer
  imports Expired_Storage
begin

text \<open>
  What \<^verbatim>\<open>setJson\<close> and \<^verbatim>\<open>getJson\<close> of \<^verbatim>\<open>expired_storage.js\<close> guarantee: a value
  written by \<^verbatim>\<open>setJson\<close> is read back by \<^verbatim>\<open>getJson\<close> until it expires, on every
  store that keeps strings as they are; what \<^verbatim>\<open>getJson\<close> does with a value that is
  not JSON; and what it does on a store that reports a missing key as \<^verbatim>\<open>undefined\<close>.
\<close>

section \<open>Definitions\<close>

text \<open>A store keeps strings as they are: what is read back of a string is that string.\<close>

definition keeps_strings :: "(jsval \<Rightarrow> jsval) \<Rightarrow> bool" where
  "keeps_strings repr \<longleftrightarrow> (\<forall>t. repr (JStr t) = JStr t)"

section \<open>The invariant\<close>

lemma world_ok_setJson:
  "store_contract E I repr \<Longrightarrow> world_ok I w \<Longrightarrow> world_ok I (snd (setJson E k j e w))"
  by (simp add: setJson_def world_ok_setItem)

lemma world_ok_getJson:
  "store_contract E I repr \<Longrightarrow> world_ok I w \<Longrightarrow> world_ok I (snd (getJson E k w))"
  by (simp add: getJson_def Let_def world_ok_getItem split: option.splits)

section \<open>Reading what was written\<close>

lemma getItem_live: "\<not> isExpired E k w \<Longrightarrow> getItem E k w = (raw E w k, w)"
  by (simp add: getItem_def raw_def)

lemma getJson_live:
  assumes "\<not> isExpired E k w" and "raw E w k = JStr t"
  shows "getJson E k w = (case JSON_parse t of None \<Rightarrow> Inl JsonSyntax | Some j \<Rightarrow> Inr j, w)"
  using assms by (simp add: getJson_def getItem_live split: option.splits)

lemma setJson_is_setItem:
  assumes "fst (setJson E k v e w) = Inr r"
  shows "\<exists>t. serialize v = Some t \<and> setJson E k v e w = setItem E k (JStr t) e w"
proof -
  have "v \<noteq> Prim JUndefined" using assms by (auto simp: setJson_def)
  then obtain t where "serialize v = Some t"
    using serialize_None_iff [of v] by (cases "serialize v") auto
  then show ?thesis using \<open>v \<noteq> Prim JUndefined\<close> by (simp add: setJson_def JSON_stringify_def)
qed

lemma keeps_strings_ts_repr [simp]: "keeps_strings ts_repr"
  by (simp add: keeps_strings_def ts_repr_def)

lemma setJson_throws:
  assumes "fst (setJson E k j e w) = Inl x"
  shows "if j = Prim JUndefined then x = UndefinedJson
         else fst (setItem E k (JSON_stringify j) e w) = Inl x"
  using assms by (auto simp: setJson_def split: if_splits)

lemma getJson_throws: "fst (getJson E k w) = Inl x \<Longrightarrow> x = JsonSyntax"
  by (auto simp: getJson_def Let_def split: if_splits option.splits)

text \<open>
  C20. JSON round trip through the store. After a successful \<^verbatim>\<open>setJson(k, v, e)\<close> on a
  store that keeps strings as they are, \<^verbatim>\<open>getJson(k)\<close> at any later time at which \<open>k\<close>
  is not expired does not throw and returns \<^verbatim>\<open>JSON.parse(JSON.stringify(v))\<close>, which is
  \<open>v\<close> itself when \<open>v\<close> is canonical, and changes nothing.
\<close>

theorem setJson_getJson_roundtrip:
  assumes "store_contract E I repr" and "world_ok I w" and "keeps_strings repr"
    and "fst (setJson E k v e w) = Inr r"
    and "\<not> isExpired E k ((snd (setJson E k v e w))\<lparr>clock := c\<rparr>)"
  shows "\<exists>u. reparsed v = Some u \<and> (canonical v \<longrightarrow> u = v) \<and>
             getJson E k ((snd (setJson E k v e w))\<lparr>clock := c\<rparr>)
               = (Inr u, (snd (setJson E k v e w))\<lparr>clock := c\<rparr>)"
proof -
  obtain t where t: "serialize v = Some t" "setJson E k v e w = setItem E k (JStr t) e w"
    using setJson_is_setItem [OF assms(4)] by blast
  obtain u where u: "reparsed v = Some u"
    using t(1) reparsed_None_iff [of v] by (cases "reparsed v") auto
  have "raw E ((snd (setJson E k v e w))\<lparr>clock := c\<rparr>) k = JStr t"
    using raw_setItem [OF assms(1,2), of k "JStr t" e r k] assms(3,4)
    by (simp add: t(2) keeps_strings_def)
  from getJson_live [OF assms(5) this]
  show ?thesis
    using u JSON_parse_serialize [OF t(1)] reparsed_canonical [of v] by auto
qed

theorem setJson_getJson_roundtrip_witness:
  "fst (getJson test_expired ''test''
     ((snd (setJson test_expired ''test'' (Arr [Prim (JNum 1), Prim (JStr ''x'')]) (JNum 10)
              \<lparr>store = [], clock = 0\<rparr>))\<lparr>clock := 9\<rparr>))
     = Inr (Arr [Prim (JNum 1), Prim (JStr ''x'')])"
proof -
  let ?v = "Arr [Prim (JNum 1), Prim (JStr ''x'')]"
  have ok: "fst (setJson test_expired ''test'' ?v (JNum 10) \<lparr>store = [], clock = 0\<rparr>) = Inr JUndefined"
    by (simp add: setJson_def)
  have h: "\<not> isExpired test_expired ''test''
     ((snd (setJson test_expired ''test'' ?v (JNum 10) \<lparr>store = [], clock = 0\<rparr>))\<lparr>clock := 9\<rparr>)"
    by code_simp
  have c: "canonical ?v" by code_simp
  from setJson_getJson_roundtrip [OF ts_contract world_ok_ts_empty keeps_strings_ts_repr ok h] c
  show ?thesis by auto
qed

section \<open>Errors of getJson\<close>



text \<open>
  C32. On a store whose \<^verbatim>\<open>getItem\<close> returns \<^verbatim>\<open>undefined\<close> for a missing key, as the
  storage class of the README does, \<^verbatim>\<open>getJson\<close> of a key that was never set throws:
  its test \<^verbatim>\<open>val === null\<close> lets \<^verbatim>\<open>undefined\<close> through to \<^verbatim>\<open>JSON.parse\<close>, which rejects
  the text \<^verbatim>\<open>undefined\<close>. \<^verbatim>\<open>getItem\<close> of that key returns \<^verbatim>\<open>undefined\<close>.
\<close>

theorem getJson_missing_on_readme_store:
  assumes "map_of s k = None" and "map_of s (expiration_key k) = None"
  shows "getJson readme_expired k \<lparr>store = s, clock = c\<rparr> = (Inl JsonSyntax, \<lparr>store = s, clock = c\<rparr>) \<and>
         getItem readme_expired k \<lparr>store = s, clock = c\<rparr> = (JUndefined, \<lparr>store = s, clock = c\<rparr>)"
proof -
  have "JSON_parse ''undefined'' = None" by code_simp
  moreover have "\<not> isExpired readme_expired k \<lparr>store = s, clock = c\<rparr>"
    using assms(2)
    by (simp add: isExpired_def getTimeLeft_def readme_expired_def readme_getItem_def)
  ultimately show ?thesis
    using assms(1)
    by (simp add: getJson_def getItem_def Let_def readme_expired_def readme_getItem_def)
qed

theorem getJson_missing_on_readme_store_witness:
  "getJson readme_expired ''nothing'' \<lparr>store = [], clock = 0\<rparr> = (Inl JsonSyntax, \<lparr>store = [], clock = 0\<rparr>)"
  using getJson_missing_on_readme_store [of "[]" "''nothing''" 0] by simp

text \<open>
  C21. The results of \<^verbatim>\<open>getJson\<close> are JSON values. Whatever the store holds under the
  key, a \<^verbatim>\<open>getJson\<close> that does not throw returns \<^verbatim>\<open>null\<close> or a value without
  \<^verbatim>\<open>undefined\<close> or \<^verbatim>\<open>NaN\<close> at any depth in which no object has a property name twice.
\<close>

theorem getJson_json_value:
  assumes "fst (getJson E k w) = Inr v"
  shows "json_value v"
  using assms JSON_parse_typed
  by (auto simp: getJson_def Let_def split: if_splits option.splits)

theorem getJson_json_value_witness:
  "json_value (Obj [(''a'', Arr [Prim (JNum 1), Prim JNull]), (''b'', Prim (JStr ''x''))])"
proof -
  have "fst (getJson test_expired ''k''
      (snd (setJson test_expired ''k''
         (Obj [(''a'', Arr [Prim (JNum 1), Prim JNaN]), (''b'', Prim (JStr ''y'')),
               (''b'', Prim (JStr ''x''))]) JUndefined \<lparr>store = [], clock = 0\<rparr>)))
    = Inr (Obj [(''a'', Arr [Prim (JNum 1), Prim JNull]), (''b'', Prim (JStr ''x''))])"
    by code_simp
  then show ?thesis by (rule getJson_json_value)
qed

end
