(* ===== verification/API_Runs.thy ===== *)
theory API_Runs
  imports Key_Enumeration JSON_Layer
begin

text \<open>
  The public surface of an \<^verbatim>\<open>ExpiredStorage\<close> instance as a datatype of calls, one
  constructor per method, with the three things a client or the test suite does beside
  them: read the backing store directly, clear it directly, and move the clock. \<open>step\<close>
  performs one call, \<open>run\<close> a sequence of them in order; \<open>reachable\<close> is the set of
  worlds a sequence of calls can lead to. The theory lifts the store invariant from
  single operations to runs.
\<close>

section \<open>Calls and their outcomes\<close>

datatype call =
    SetItem key jsval jsval
  | GetItem key
  | Peek key
  | GetTimeLeft key
  | IsExpired key
  | UpdateExpiration key jsval
  | RemoveItem key
  | SetJson key jsdata jsval
  | GetJson key
  | Keys bool
  | Clear
  | ClearExpired
  | StorageGetItem key
  | StorageClear
  | SetTimestamp int

text \<open>
  What a call gives back: a JavaScript value, a thrown error, the time left (\<open>None\<close> is
  \<^verbatim>\<open>null\<close>), a boolean, the object of \<^verbatim>\<open>peek\<close>, an array of keys, a parsed JSON value, or
  nothing (\<^verbatim>\<open>clear\<close> and the statements that are not method calls).
\<close>

datatype outcome =
    Returned jsval
  | Threw error
  | TimeLeft "seconds option"
  | Flag bool
  | Peeked peek_result
  | KeyList "key list"
  | Json jsdata
  | NoResult

definition of_result :: "error + jsval \<Rightarrow> outcome" where
  "of_result r = (case r of Inl e \<Rightarrow> Threw e | Inr v \<Rightarrow> Returned v)"

definition of_json_result :: "error + jsdata \<Rightarrow> outcome" where
  "of_json_result r = (case r of Inl e \<Rightarrow> Threw e | Inr j \<Rightarrow> Json j)"

fun step ::
  "'s expired_storage \<Rightarrow> call \<Rightarrow> 's world \<Rightarrow> outcome \<times> 's world" where
  "step E (SetItem k v e) w = (of_result (fst (setItem E k v e w)), snd (setItem E k v e w))"
| "step E (GetItem k) w = (Returned (fst (getItem E k w)), snd (getItem E k w))"
| "step E (Peek k) w = (Peeked (peek E k w), w)"
| "step E (GetTimeLeft k) w = (TimeLeft (getTimeLeft E k w), w)"
| "step E (IsExpired k) w = (Flag (isExpired E k w), w)"
| "step E (UpdateExpiration k e) w =
     (of_result (fst (updateExpiration E k e w)), snd (updateExpiration E k e w))"
| "step E (RemoveItem k) w = (Returned (fst (removeItem E k w)), snd (removeItem E k w))"
| "step E (SetJson k j e) w =
     (of_result (fst (setJson E k j e w)), snd (setJson E k j e w))"
| "step E (GetJson k) w = (of_json_result (fst (getJson E k w)), snd (getJson E k w))"
| "step E (Keys inc) w = (KeyList (fst (keys E inc w)), snd (keys E inc w))"
| "step E Clear w = (NoResult, clear E w)"
| "step E ClearExpired w = (KeyList (fst (clearExpired E w)), snd (clearExpired E w))"
| "step E (StorageGetItem k) w = (Returned (raw E w k), w)"
| "step E StorageClear w = (NoResult, w\<lparr>store := st_clear E (store w)\<rparr>)"
| "step E (SetTimestamp t) w = (NoResult, w\<lparr>clock := t\<rparr>)"

fun run ::
  "'s expired_storage \<Rightarrow> call list \<Rightarrow> 's world \<Rightarrow> outcome list \<times> 's world" where
  "run E [] w = ([], w)"
| "run E (c # cs) w =
     (let r = step E c w; rs = run E cs (snd r) in (fst r # fst rs, snd rs))"

inductive reachable :: "'s expired_storage \<Rightarrow> 's world \<Rightarrow> 's world \<Rightarrow> bool"
  for E :: "'s expired_storage" and w0 :: "'s world" where
    reachable_init: "reachable E w0 w0"
  | reachable_step: "reachable E w0 w \<Longrightarrow> reachable E w0 (snd (step E c w))"

section \<open>Calls that throw\<close>

lemma of_result_Threw [simp]:
  "of_result r = Threw e \<longleftrightarrow> r = Inl e" "Threw e = of_result r \<longleftrightarrow> r = Inl e"
  by (cases r; auto simp: of_result_def)+

lemma of_json_result_Threw [simp]:
  "of_json_result r = Threw e \<longleftrightarrow> r = Inl e" "Threw e = of_json_result r \<longleftrightarrow> r = Inl e"
  by (cases r; auto simp: of_json_result_def)+

text \<open>The calls whose outcome can be an exception, as an elimination rule.\<close>

fun_cases step_ThrewE: "step E c w = (Threw e, w')"

section \<open>Runs\<close>

lemma run_append:
  "run E (cs @ ds) w =
     (fst (run E cs w) @ fst (run E ds (snd (run E cs w))),
      snd (run E ds (snd (run E cs w))))"
  by (induction cs arbitrary: w) (simp_all add: Let_def)

lemma length_run [simp]: "length (fst (run E cs w)) = length cs"
  by (induction cs arbitrary: w) (simp_all add: Let_def)

lemma run_snoc:
  "snd (run E (cs @ [c]) w) = snd (step E c (snd (run E cs w)))"
  by (simp add: run_append Let_def)

lemma reachable_run: "reachable E w0 (snd (run E cs w0))"
proof (induction cs rule: rev_induct)
  case Nil
  show ?case by (simp add: reachable_init)
next
  case (snoc c cs)
  then show ?case by (simp only: run_snoc reachable_step)
qed

lemma reachable_is_run: "reachable E w0 w \<Longrightarrow> \<exists>cs. w = snd (run E cs w0)"
proof (induction rule: reachable.induct)
  case reachable_init
  have "w0 = snd (run E [] w0)" by simp
  then show ?case by blast
next
  case (reachable_step w c)
  then obtain cs where "w = snd (run E cs w0)" by blast
  then have "snd (step E c w) = snd (run E (cs @ [c]) w0)" by (simp only: run_snoc)
  then show ?case by blast
qed

lemma reachable_invariant:
  assumes "reachable E w0 w" and "P w0"
    and "\<And>c w. P w \<Longrightarrow> P (snd (step E c w))"
  shows "P w"
  using assms by (induction rule: reachable.induct) auto

section \<open>The store invariant along a run\<close>

lemma world_ok_keys: "world_ok I w \<Longrightarrow> world_ok I (snd (keys E inc w))"
  by (simp add: keys_def iterKeys_readonly fold_keys_callback)

lemma world_ok_clearExpired:
  "store_contract E I repr \<Longrightarrow> world_ok I w \<Longrightarrow> world_ok I (snd (clearExpired E w))"
  by (simp add: clearExpired_def iterKeys_preserves world_ok_clearExpired_callback)

lemma world_ok_step:
  "store_contract E I repr \<Longrightarrow> world_ok I w \<Longrightarrow> world_ok I (snd (step E c w))"
  by (cases c)
    (simp_all add: world_ok_after world_ok_keys world_ok_clearExpired world_ok_setJson
       world_ok_getJson, simp_all add: world_ok_def contract_inv_clear)

section \<open>Reading without evicting\<close>



end
