(* ===== verification/Test_Suite.thy ===== *)
theory Test_Suite
  imports API_Runs "HOL-Library.List_Lexorder" "HOL-Library.Char_ord"
begin

text \<open>
  The QUnit suite (\<^verbatim>\<open>src/unnamed/part_000\<close>) as data: each test is the list of its
  statements, a call paired with what the test asserts of the call's result. \<open>run_test\<close>
  executes such a list from a world and says whether every assertion held. The theorems
  run the tests on the suite's custom storage; they tie the model to the behaviour the
  authors expect of the code.
\<close>

section \<open>Assertions\<close>

text \<open>
  \<open>Equal\<close> is \<^verbatim>\<open>assert.equal\<close> or \<^verbatim>\<open>assert.deepEqual\<close> against a literal, \<open>SortedEqual\<close> is
  \<^verbatim>\<open>assert.deepEqual(x.sort(), [...].sort())\<close>, \<open>HasLength\<close> is
  \<^verbatim>\<open>assert.equal(x.length, n)\<close>, \<open>Throws\<close> is \<^verbatim>\<open>assert.throws\<close>, and \<open>Unchecked\<close> marks a
  statement whose result the test ignores. \<^verbatim>\<open>sort\<close> without a comparator orders
  strings by their code units, which is the lexicographic order on \<open>string\<close>.
\<close>

datatype expectation =
    Equal outcome
  | SortedEqual "key list"
  | HasLength nat
  | Throws
  | Unchecked

fun meets :: "expectation \<Rightarrow> outcome \<Rightarrow> bool" where
  "meets (Equal x) y = (y = x)"
| "meets (SortedEqual ks) (KeyList xs) = (sort xs = sort ks)"
| "meets (SortedEqual ks) y = False"
| "meets (HasLength n) (KeyList xs) = (length xs = n)"
| "meets (HasLength n) y = False"
| "meets Throws (Threw e) = True"
| "meets Throws y = False"
| "meets Unchecked y = True"

fun run_test ::
  "'s expired_storage \<Rightarrow> (call \<times> expectation) list \<Rightarrow> 's world \<Rightarrow> bool \<times> 's world" where
  "run_test E [] w = (True, w)"
| "run_test E ((c, x) # rest) w =
     (let r = step E c w; r' = run_test E rest (snd r)
      in (meets x (fst r) \<and> fst r', snd r'))"

section \<open>The tests\<close>

definition initTest :: "(call \<times> expectation) list" where
  "initTest = [(StorageClear, Unchecked), (SetTimestamp 0, Unchecked)]"

definition test_basic :: "(call \<times> expectation) list" where
  "test_basic = initTest @
     [(SetItem ''test'' (JStr ''foo'') JUndefined, Unchecked),
      (GetItem ''test'', Equal (Returned (JStr ''foo''))),
      (RemoveItem ''test'', Unchecked),
      (GetItem ''test'', Equal (Returned JNull)),
      (SetItem ''test1'' (JStr ''foo'') JUndefined, Unchecked),
      (SetItem ''test2'' (JStr ''bar'') JUndefined, Unchecked),
      (Keys False, SortedEqual [''test1'', ''test2'']),
      (Clear, Unchecked),
      (Keys False, Equal (KeyList [])),
      (SetItem ''test1'' (JStr ''foo'') JUndefined, Unchecked),
      (SetItem ''test2'' (JStr ''bar'') JUndefined, Unchecked),
      (Clear, Unchecked),
      (GetItem ''test1'', Equal (Returned JNull)),
      (Keys False, HasLength 0),
      (SetItem ''__noex'' (JStr ''bar'') JUndefined, Unchecked),
      (GetItem ''__noex'', Equal (Returned (JStr ''bar''))),
      (GetTimeLeft ''__noex'', Equal (TimeLeft None)),
      (IsExpired ''__noex'', Equal (Flag False)),
      (Clear, Unchecked),
      (Keys False, HasLength 0)]"

definition test_expiration :: "(call \<times> expectation) list" where
  "test_expiration = initTest @
     [(SetItem ''test'' (JStr ''foo'') (JNum 10), Unchecked),
      (GetItem ''test'', Equal (Returned (JStr ''foo''))),
      (GetTimeLeft ''test'', Equal (TimeLeft (Some 10))),
      (IsExpired ''test'', Equal (Flag False)),
      (Peek ''test'',
       Equal (Peeked \<lparr>pk_value = JStr ''foo'', pk_timeLeft = Some 10, pk_isExpired = False\<rparr>)),
      (Keys False, Equal (KeyList [''test''])),
      (SetTimestamp 15, Unchecked),
      (GetTimeLeft ''test'', Equal (TimeLeft (Some (- 5)))),
      (IsExpired ''test'', Equal (Flag True)),
      (Peek ''test'',
       Equal (Peeked \<lparr>pk_value = JStr ''foo'', pk_timeLeft = Some (- 5), pk_isExpired = True\<rparr>)),
      (Peek ''test'',
       Equal (Peeked \<lparr>pk_value = JStr ''foo'', pk_timeLeft = Some (- 5), pk_isExpired = True\<rparr>)),
      (GetItem ''test'', Equal (Returned JNull)),
      (StorageGetItem ''test'', Equal (Returned JNull)),
      (Peek ''test'',
       Equal (Peeked \<lparr>pk_value = JNull, pk_timeLeft = None, pk_isExpired = False\<rparr>)),
      (Keys False, Equal (KeyList []))]"

definition clear_expired_setup :: "(call \<times> expectation) list" where
  "clear_expired_setup = initTest @
     [(SetTimestamp 0, Unchecked),
      (SetItem ''test'' (JStr ''foo'') (JNum 10), Unchecked),
      (SetItem ''test2'' (JStr ''bar'') (JNum 15), Unchecked),
      (SetItem ''stay'' (JStr ''woo'') (JNum 25), Unchecked),
      (SetItem ''stay2'' (JStr ''woo2'') JUndefined, Unchecked),
      (Keys False, SortedEqual [''test'', ''test2'', ''stay'', ''stay2'']),
      (SetTimestamp 19, Unchecked)]"

definition test_clear_expired :: "(call \<times> expectation) list" where
  "test_clear_expired = clear_expired_setup @
     [(Keys True, SortedEqual [''test'', ''test2'', ''stay'', ''stay2'']),
      (Keys False, SortedEqual [''stay'', ''stay2'']),
      (ClearExpired, SortedEqual [''test'', ''test2'']),
      (Keys True, SortedEqual [''stay'', ''stay2''])]"

text \<open>
  Test ``JSON get / set''. \<open>json_test_val\<close> is the object literal of the test, with
  \<^verbatim>\<open>5*"a"\<close> evaluated to \<^verbatim>\<open>NaN\<close>, and \<open>json_test_expected\<close> is
  \<^verbatim>\<open>JSON.parse(JSON.stringify(val))\<close> as the test computes it.
\<close>

definition json_test_val :: jsdata where
  "json_test_val =
     Obj [(''a'', Prim (JNum 5)), (''b'', Prim JNaN), (''c'', Prim JNull),
          (''d'', Prim JUndefined), (''e'', Prim (JStr ''aa''))]"

definition json_test_expected :: "jsdata option" where
  "json_test_expected = JSON_parse (js_ToString (JSON_stringify json_test_val))"

definition test_json :: "(call \<times> expectation) list" where
  "test_json = initTest @
     [(SetJson ''test'' json_test_val JUndefined, Unchecked),
      (GetJson ''test'', Equal (of_json_result (case json_test_expected of
                                                   None \<Rightarrow> Inl JsonSyntax | Some j \<Rightarrow> Inr j))),
      (RemoveItem ''test'', Unchecked),
      (GetItem ''test'', Equal (Returned JNull)),
      (SetJson ''test'' (Prim JNull) JUndefined, Unchecked),
      (GetJson ''test'', Equal (Json (Prim JNull))),
      (SetJson ''test'' (Prim JUndefined) JUndefined, Throws),
      (Clear, Unchecked),
      (Keys False, HasLength 0)]"

text \<open>
  The suite runs every test on \<^verbatim>\<open>localStorage\<close> and \<^verbatim>\<open>sessionStorage\<close> as well.
  \<open>web_expired\<close> is \<^verbatim>\<open>getStorage()\<close> for either of them under the suite's clock, in a
  browser with \<^verbatim>\<open>Object.keys\<close> and a quota of 5 MiB; \<open>web_expired_legacy\<close> is the same
  in a browser without \<^verbatim>\<open>Object.keys\<close>, where \<^verbatim>\<open>_iterKeys\<close> walks \<^verbatim>\<open>length\<close> and
  \<^verbatim>\<open>key(i)\<close>.
\<close>

definition web_expired :: "web_storage expired_storage" where
  "web_expired = override_getTimestamp (local_expired True 5242880)"

definition web_expired_legacy :: "web_storage expired_storage" where
  "web_expired_legacy = override_getTimestamp (local_expired False 5242880)"

text \<open>
  The objects of test ``Creation'': one whose four methods do nothing, and the empty
  object. The test first constructs an instance without an argument, which takes the
  \<^verbatim>\<open>localStorage\<close> of the browser, and one over \<^verbatim>\<open>sessionStorage\<close>.
\<close>

definition creation_minimal :: "unit storage" where
  "creation_minimal =
     \<lparr>getItem_of = Some (\<lambda>s k. JUndefined), setItem_of = Some (\<lambda>s k v. (Inr JUndefined, s)),
      removeItem_of = Some (\<lambda>s k. (JUndefined, s)), clear_of = Some (\<lambda>s. s),
      keys_of = None, length_of = None, key_of = None,
      own_keys_of = (\<lambda>s. [''getItem'', ''setItem'', ''removeItem'', ''clear'']),
      for_in_of = (\<lambda>s. [''getItem'', ''setItem'', ''removeItem'', ''clear''])\<rparr>"

definition creation_empty :: "unit storage" where
  "creation_empty =
     \<lparr>getItem_of = None, setItem_of = None, removeItem_of = None, clear_of = None,
      keys_of = None, length_of = None, key_of = None,
      own_keys_of = (\<lambda>s. []), for_in_of = (\<lambda>s. [])\<rparr>"

definition test_creation :: bool where
  "test_creation \<longleftrightarrow>
     \<not> isl (ExpiredStorage True None (Some (web_storage_object 5242880))) \<and>
     \<not> isl (ExpiredStorage True (Some (web_storage_object 5242880))
              (Some (web_storage_object 5242880))) \<and>
     (case ExpiredStorage True (Some creation_minimal) None of
        Inl e \<Rightarrow> False
      | Inr expired \<Rightarrow>
          getTimestamp (override_getTimestamp expired) \<lparr>store = (), clock = 0\<rparr> = 0) \<and>
     isl (ExpiredStorage True (Some creation_empty) None)"

section \<open>Running a test\<close>

lemma run_test_append:
  "run_test E (xs @ ys) w =
     (fst (run_test E xs w) \<and> fst (run_test E ys (snd (run_test E xs w))),
      snd (run_test E ys (snd (run_test E xs w))))"
  by (induction xs arbitrary: w) (auto simp: Let_def)

lemma run_test_run:
  "run_test E xs w =
     (list_all2 meets (map snd xs) (fst (run E (map fst xs) w)), snd (run E (map fst xs) w))"
  by (induction xs arbitrary: w) (auto simp: Let_def)

lemma initTest_test_expired [simp]:
  "run_test test_expired initTest w = (True, \<lparr>store = [], clock = 0\<rparr>)"
  by (cases w) (simp add: initTest_def ts_clear_def)

text \<open>
  The statements of test ``Clear expired'' up to the second assignment of the clock lead
  to \<open>clear_expired_world\<close>, the state the sweep's guarantees are instantiated at.
\<close>

lemma clear_expired_setup_world:
  "run_test test_expired clear_expired_setup w =
     (True, clear_expired_world)"
  unfolding clear_expired_setup_def run_test_append initTest_test_expired by code_simp

section \<open>The suite passes on the custom storage\<close>


lemma initTest_web_expired [simp]:
  "run_test web_expired initTest w = (True, \<lparr>store = [], clock = 0\<rparr>)"
  "run_test web_expired_legacy initTest w = (True, \<lparr>store = [], clock = 0\<rparr>)"
  by (cases w; simp add: initTest_def web_expired_def web_expired_legacy_def ls_clear_def)+




end
