(* ===== verification/Write_Failures.thy ===== *)
theory Write_Failures
  imports Expired_Storage
begin

text \<open>
  What \<^verbatim>\<open>setItem\<close> leaves behind when the backing store throws. \<^verbatim>\<open>setItem\<close> writes the
  value and then, through \<^verbatim>\<open>updateExpiration\<close>, the expiry record; it catches nothing, so
  an exception of either write ends the call. The first write failing leaves the store
  as it was; the second failing leaves the new value without the new expiry.
\<close>

section \<open>Definitions\<close>

text \<open>
  The second write of \<^verbatim>\<open>setItem(k, v, e)\<close>: the result of writing the expiry record
  after the value has been written.
\<close>

definition expiry_write ::
  "'s expired_storage \<Rightarrow> key \<Rightarrow> jsval \<Rightarrow> jsval \<Rightarrow> 's world \<Rightarrow> (error + jsval) \<times> 's" where
  "expiry_write E k v e w =
     st_setItem E (snd (st_setItem E (store w) k v)) (expiration_key k)
       (js_add (JNum (getTimestamp E w)) e)"

section \<open>Failure of the first write\<close>

lemma setItem_first_failure:
  assumes "fst (st_setItem E (store w) k v) = Inl x"
  shows "setItem E k v e w = (Inl x, w\<lparr>store := snd (st_setItem E (store w) k v)\<rparr>)"
  using assms by (simp add: setItem_def Let_def)

lemma setItem_second_failure:
  assumes "fst (st_setItem E (store w) k v) = Inr r" and "truthy e"
    and "fst (expiry_write E k v e w) = Inl x"
  shows "setItem E k v e w = (Inl x, w\<lparr>store := snd (expiry_write E k v e w)\<rparr>)"
  using assms
  by (simp add: setItem_def updateExpiration_def expiry_write_def Let_def getTimestamp_def)

lemma setItem_throws:
  assumes "fst (setItem E k v e w) = Inl x"
  shows "fst (st_setItem E (store w) k v) = Inl x \<or>
         truthy e \<and> fst (expiry_write E k v e w) = Inl x"
  using assms
  by (auto simp: setItem_def expiry_write_def updateExpiration_def Let_def getTimestamp_def
      split: sum.splits if_splits)

text \<open>
  C24. A failed first write changes nothing. When the store's \<^verbatim>\<open>setItem\<close> throws for the
  value, \<^verbatim>\<open>setItem\<close> of the wrapper throws the same exception, no expiry record is
  written, and every key reads as before.
\<close>

theorem setItem_failure_changes_nothing:
  assumes "store_contract E I repr" and "world_ok I w"
    and "fst (st_setItem E (store w) k v) = Inl x"
  shows "fst (setItem E k v e w) = Inl x \<and> (\<forall>k'. raw E (snd (setItem E k v e w)) k' = raw E w k')"
  using assms
  by (simp add: setItem_first_failure raw_def world_ok_def contract_get_set_failed)

theorem setItem_failure_changes_nothing_witness:
  "fst (setItem (local_expired True 10) ''key'' (JStr ''a long value'') (JNum 60) \<lparr>store = [], clock = 0\<rparr>)
     = Inl (StorageFailure ''QuotaExceededError'') \<and>
   (\<forall>k'. raw (local_expired True 10)
      (snd (setItem (local_expired True 10) ''key'' (JStr ''a long value'') (JNum 60) \<lparr>store = [], clock = 0\<rparr>)) k'
        = raw (local_expired True 10) \<lparr>store = [], clock = 0\<rparr> k')"
proof -
  have "fst (st_setItem (local_expired True 10) (store \<lparr>store = [], clock = 0\<rparr>) ''key'' (JStr ''a long value''))
          = Inl (StorageFailure ''QuotaExceededError'')"
    by code_simp
  from setItem_failure_changes_nothing [OF ls_contract world_ok_ls_empty this]
  show ?thesis .
qed

section \<open>Failure of the second write\<close>

text \<open>
  C25. \<^verbatim>\<open>setItem\<close> with a time to live is not atomic. When the store accepts the value
  and throws for the expiry record, \<^verbatim>\<open>setItem\<close> throws, yet the value has been written:
  the key reads the new value, its expiry record is the one it had before, and so its
  time left is what it was before the call.
\<close>

theorem setItem_partial_write:
  assumes "store_contract E I repr" and "world_ok I w"
    and "fst (st_setItem E (store w) k v) = Inr r" and "truthy e"
    and "fst (expiry_write E k v e w) = Inl x"
  shows "fst (setItem E k v e w) = Inl x \<and>
         raw E (snd (setItem E k v e w)) k = repr v \<and>
         getTimeLeft E k (snd (setItem E k v e w)) = getTimeLeft E k w"
proof -
  let ?s1 = "snd (st_setItem E (store w) k v)"
  have i1: "I ?s1" using assms(1,2) by (simp add: world_ok_def contract_inv_set)
  have g1: "st_getItem E ?s1 k' = (if k' = k then repr v else st_getItem E (store w) k')" for k'
    using assms(1-3) by (simp add: world_ok_def contract_get_set_ok)
  have g2: "st_getItem E (snd (expiry_write E k v e w)) k' = st_getItem E ?s1 k'" for k'
    using contract_get_set_failed [OF assms(1) i1] assms(5) by (simp add: expiry_write_def)
  show ?thesis
    using g1 g2 by (auto simp: setItem_second_failure [OF assms(3-5)] raw_def getTimeLeft_def
        getTimestamp_def split: option.splits)
qed

theorem setItem_partial_write_witness:
  "fst (setItem (local_expired True 30) ''key'' (JStr ''value'') (JNum 60) \<lparr>store = [], clock = 0\<rparr>)
     = Inl (StorageFailure ''QuotaExceededError'') \<and>
   raw (local_expired True 30)
     (snd (setItem (local_expired True 30) ''key'' (JStr ''value'') (JNum 60) \<lparr>store = [], clock = 0\<rparr>)) ''key''
     = JStr ''value'' \<and>
   getTimeLeft (local_expired True 30) ''key''
     (snd (setItem (local_expired True 30) ''key'' (JStr ''value'') (JNum 60) \<lparr>store = [], clock = 0\<rparr>))
     = None"
proof -
  let ?w = "\<lparr>store = [], clock = 0\<rparr> :: web_storage world"
  have a: "fst (st_setItem (local_expired True 30) (store ?w) ''key'' (JStr ''value'')) = Inr JUndefined"
    by code_simp
  have b: "fst (expiry_write (local_expired True 30) ''key'' (JStr ''value'') (JNum 60) ?w)
             = Inl (StorageFailure ''QuotaExceededError'')"
    by code_simp
  have c: "getTimeLeft (local_expired True 30) ''key'' ?w = None" by code_simp
  from setItem_partial_write [OF ls_contract world_ok_ls_empty a _ b]
  show ?thesis by (simp add: c ls_repr_def)
qed

end
