(* ===== verification/Abstract_Store.thy ===== *)
theory Abstract_Store
  imports API_Runs
begin

text \<open>
  What the wrapper promises, stated without a backing store: a map from keys to
  entries, an entry being a value, an optional expiry instant and whether the key is
  listed. The operations of the
  map are the contract of the methods of \<^verbatim>\<open>ExpiredStorage\<close>; the abstraction function
  \<open>abs_store\<close> reads the entry of a key off the two places of the backing store that hold
  it, and the refinement lemmas show, method by method, that the wrapper implements the
  map on the keys that do not begin with the expiry prefix.
\<close>

section \<open>The abstract map\<close>

text \<open>
  An entry keeps a value even when it has none (\<^verbatim>\<open>null\<close>), and an expiry instant even when
  it has no value: \<^verbatim>\<open>updateExpiration\<close> gives an instant to a key without a value, and
  \<^verbatim>\<open>setItem\<close> without a time to live gives a value to whatever instant is there. A key
  is listed from the moment it is written until it is removed, also when the value
  written is \<^verbatim>\<open>null\<close>.
\<close>

record entry =
  e_value :: jsval
  e_expiry :: "seconds option"
  e_listed :: bool

type_synonym astore = "key \<Rightarrow> entry"

definition no_entry :: entry where
  "no_entry = \<lparr>e_value = JNull, e_expiry = None, e_listed = False\<rparr>"

text \<open>
  The instant an expiry record stands for: what \<^verbatim>\<open>parseInt\<close> reads, if it is a number
  other than 0.
\<close>

definition expiry_of :: "jsval \<Rightarrow> seconds option" where
  "expiry_of x = (case js_parseInt x of None \<Rightarrow> None | Some n \<Rightarrow> if n \<noteq> 0 then Some n else None)"

definition a_getTimeLeft :: "astore \<Rightarrow> key \<Rightarrow> seconds \<Rightarrow> seconds option" where
  "a_getTimeLeft m k t = map_option (\<lambda>x. x - t) (e_expiry (m k))"

definition a_isExpired :: "astore \<Rightarrow> key \<Rightarrow> seconds \<Rightarrow> bool" where
  "a_isExpired m k t = (case e_expiry (m k) of None \<Rightarrow> False | Some x \<Rightarrow> x \<le> t)"

definition a_updateExpiration :: "astore \<Rightarrow> key \<Rightarrow> jsval \<Rightarrow> seconds \<Rightarrow> astore" where
  "a_updateExpiration m k ttl t = m(k := (m k)\<lparr>e_expiry := expiry_of (js_add (JNum t) ttl)\<rparr>)"

text \<open>\<open>v\<close> is the value as the store keeps it.\<close>

definition a_setItem :: "astore \<Rightarrow> key \<Rightarrow> jsval \<Rightarrow> jsval \<Rightarrow> seconds \<Rightarrow> astore" where
  "a_setItem m k v ttl t =
     (let m1 = m(k := (m k)\<lparr>e_value := v, e_listed := True\<rparr>)
      in if truthy ttl then a_updateExpiration m1 k ttl t else m1)"

definition a_removeItem :: "astore \<Rightarrow> key \<Rightarrow> astore" where
  "a_removeItem m k = m(k := no_entry)"

definition a_getItem :: "astore \<Rightarrow> key \<Rightarrow> seconds \<Rightarrow> jsval \<times> astore" where
  "a_getItem m k t =
     (if a_isExpired m k t then (JNull, a_removeItem m k) else (e_value (m k), m))"

definition a_peek :: "astore \<Rightarrow> key \<Rightarrow> seconds \<Rightarrow> peek_result" where
  "a_peek m k t =
     \<lparr>pk_value = e_value (m k), pk_timeLeft = a_getTimeLeft m k t, pk_isExpired = a_isExpired m k t\<rparr>"

definition a_clear :: astore where
  "a_clear = (\<lambda>k. no_entry)"

definition a_clearExpired :: "astore \<Rightarrow> seconds \<Rightarrow> astore" where
  "a_clearExpired m t = (\<lambda>k. if a_isExpired m k t then no_entry else m k)"

definition a_expired :: "astore \<Rightarrow> seconds \<Rightarrow> key set" where
  "a_expired m t = {k. a_isExpired m k t}"

definition a_keys :: "astore \<Rightarrow> bool \<Rightarrow> seconds \<Rightarrow> key set" where
  "a_keys m includeExpired t =
     {k. e_listed (m k) \<and> (includeExpired \<or> \<not> a_isExpired m k t)}"

section \<open>The abstraction\<close>

text \<open>A key of the client: one that does not begin with the expiry prefix.\<close>

definition plain :: "key \<Rightarrow> bool" where
  "plain k \<longleftrightarrow> \<not> is_expiration_key k"

text \<open>
  The entry of a plain key: its value is what the store reads under the key, its expiry
  what the store reads under the derived key, and it is listed when the store enumerates
  it. Other keys have no entry.
\<close>

definition abs_entry :: "'s expired_storage \<Rightarrow> 's world \<Rightarrow> key \<Rightarrow> entry" where
  "abs_entry E w k =
     \<lparr>e_value = raw E w k, e_expiry = expiry_of (raw E w (expiration_key k)),
      e_listed = (k \<in> listed E w)\<rparr>"

definition abs_store :: "'s expired_storage \<Rightarrow> 's world \<Rightarrow> astore" where
  "abs_store E w = (\<lambda>k. if plain k then abs_entry E w k else no_entry)"

text \<open>
  The namespace is in order: the store holds nothing under a key that begins with the
  prefix twice. Such a key would be the expiry record of an expiry record; the calls on
  plain keys never write one.
\<close>

definition namespace_ok :: "'s expired_storage \<Rightarrow> 's world \<Rightarrow> bool" where
  "namespace_ok E w \<longleftrightarrow> (\<forall>k. raw E w (expiration_key (expiration_key k)) = JNull)"

section \<open>Plain keys\<close>

lemma plain_not_expiration_key [simp]: "plain k \<Longrightarrow> k \<noteq> expiration_key k'"
  by (auto simp: plain_def is_expiration_key_def)

lemma plain_not_expiration_key' [simp]: "plain k \<Longrightarrow> expiration_key k' \<noteq> k"
  by (auto simp: plain_def is_expiration_key_def)

lemma not_plain_expiration_key [simp]: "\<not> plain (expiration_key k)"
  by (simp add: plain_def is_expiration_key_def)

lemma not_plainE: "\<not> plain k \<Longrightarrow> \<exists>k'. k = expiration_key k'"
  by (auto simp: plain_def is_expiration_key_def prefix_def expiration_key_def)

lemma expiry_of_null [simp]: "expiry_of JNull = None"
  by (simp add: expiry_of_def)

lemma expiry_of_repr: "store_contract E I repr \<Longrightarrow> expiry_of (repr v) = expiry_of v"
  by (simp add: expiry_of_def contract_parseInt_repr)

lemma abs_store_plain: "plain k \<Longrightarrow> abs_store E w k = abs_entry E w k"
  by (simp add: abs_store_def)

lemma abs_entry_simps [simp]:
  "e_value (abs_entry E w k) = raw E w k"
  "e_expiry (abs_entry E w k) = expiry_of (raw E w (expiration_key k))"
  "e_listed (abs_entry E w k) = (k \<in> listed E w)"
  by (simp_all add: abs_entry_def)

lemma abs_store_not_plain [simp]: "\<not> plain k \<Longrightarrow> abs_store E w k = no_entry"
  by (simp add: abs_store_def)

lemma abs_store_eqI:
  assumes "\<And>k. plain k \<Longrightarrow> m k = abs_entry E w k"
    and "\<And>k. \<not> plain k \<Longrightarrow> m k = no_entry"
  shows "abs_store E w = m"
  using assms by (auto simp: abs_store_def fun_eq_iff)

section \<open>Reading\<close>

lemma getTimeLeft_expiry_of:
  "getTimeLeft E k w = map_option (\<lambda>x. x - getTimestamp E w) (expiry_of (raw E w (expiration_key k)))"
  by (simp add: getTimeLeft_def expiry_of_def raw_def split: option.splits)

lemma refine_getTimeLeft:
  "plain k \<Longrightarrow> getTimeLeft E k w = a_getTimeLeft (abs_store E w) k (getTimestamp E w)"
  by (simp add: getTimeLeft_expiry_of a_getTimeLeft_def abs_store_plain)

lemma isExpired_expiry_of:
  "isExpired E k w =
     (case expiry_of (raw E w (expiration_key k)) of None \<Rightarrow> False | Some x \<Rightarrow> x \<le> getTimestamp E w)"
  by (simp add: isExpired_def getTimeLeft_expiry_of split: option.splits)

lemma refine_isExpired:
  "plain k \<Longrightarrow> isExpired E k w = a_isExpired (abs_store E w) k (getTimestamp E w)"
  by (simp add: isExpired_expiry_of a_isExpired_def abs_store_plain)

lemma a_isExpired_not_plain [simp]: "\<not> plain k \<Longrightarrow> \<not> a_isExpired (abs_store E w) k t"
  by (simp add: a_isExpired_def no_entry_def)

lemma refine_peek:
  "plain k \<Longrightarrow> peek E k w = a_peek (abs_store E w) k (getTimestamp E w)"
  by (simp add: peek_def a_peek_def refine_getTimeLeft [symmetric] refine_isExpired [symmetric]
      isExpired_def abs_store_plain raw_def Let_def)

section \<open>Writing\<close>

lemma namespace_okD: "namespace_ok E w \<Longrightarrow> raw E w (expiration_key (expiration_key k)) = JNull"
  by (simp add: namespace_ok_def)

lemma refine_updateExpiration:
  assumes "store_contract E I repr" and "enum_law E I" and "world_ok I w" and "plain k"
    and "\<not> isl (fst (updateExpiration E k e w))"
  shows "abs_store E (snd (updateExpiration E k e w))
           = a_updateExpiration (abs_store E w) k e (getTimestamp E w)"
  using assms(4,5)
  by (intro abs_store_eqI)
    (auto simp: raw_updateExpiration [OF assms(1,3)] listed_updateExpiration [OF assms(2,3)]
      a_updateExpiration_def abs_store_plain abs_entry_def expiry_of_repr [OF assms(1)])

lemma refine_setItem:
  assumes "store_contract E I repr" and "enum_law E I" and "world_ok I w" and "plain k"
    and "fst (setItem E k v e w) = Inr r"
  shows "abs_store E (snd (setItem E k v e w))
           = a_setItem (abs_store E w) k (repr v) e (getTimestamp E w)"
  using assms(4)
  by (intro abs_store_eqI)
    (auto simp: raw_setItem [OF assms(1,3,5)] listed_setItem [OF assms(1,2,3,5)] a_setItem_def
      a_updateExpiration_def abs_store_plain abs_entry_def expiry_of_repr [OF assms(1)] Let_def)

lemma refine_removeItem:
  assumes "store_contract E I repr" and "enum_law E I" and "world_ok I w" and "plain k"
  shows "abs_store E (snd (removeItem E k w)) = a_removeItem (abs_store E w) k"
  using assms(4)
  by (intro abs_store_eqI)
    (auto simp: raw_removeItem [OF assms(1,3)] listed_removeItem [OF assms(1-3)] a_removeItem_def
      abs_store_plain abs_entry_def no_entry_def)

lemma refine_getItem:
  assumes "store_contract E I repr" and "enum_law E I" and "world_ok I w" and "plain k"
  shows "fst (getItem E k w) = fst (a_getItem (abs_store E w) k (getTimestamp E w)) \<and>
         abs_store E (snd (getItem E k w)) = snd (a_getItem (abs_store E w) k (getTimestamp E w))"
  using assms
  by (simp add: getItem_def a_getItem_def refine_isExpired [symmetric] refine_removeItem
      abs_store_plain raw_def [symmetric])

lemma refine_clear:
  assumes "store_contract E I repr" and "enum_law E I" and "world_ok I w"
  shows "abs_store E (clear E w) = a_clear"
  by (intro abs_store_eqI)
    (simp_all add: raw_clear [OF assms(1,3)] listed_clear [OF assms(2,3)] a_clear_def
      abs_entry_def no_entry_def)

subsection \<open>The namespace stays in order\<close>

lemma namespace_ok_updateExpiration:
  assumes "store_contract E I repr" and "world_ok I w" and "plain k" and "namespace_ok E w"
  shows "namespace_ok E (snd (updateExpiration E k e w))"
  using assms(3,4) by (simp add: namespace_ok_def raw_updateExpiration [OF assms(1,2)])

lemma namespace_ok_removeItem:
  assumes "store_contract E I repr" and "world_ok I w" and "namespace_ok E w"
  shows "namespace_ok E (snd (removeItem E k w))"
  using assms(3) by (simp add: namespace_ok_def raw_removeItem [OF assms(1,2)])

lemma namespace_ok_setItem:
  assumes "store_contract E I repr" and "world_ok I w" and "plain k" and "namespace_ok E w"
    and "fst (setItem E k v e w) = Inr r"
  shows "namespace_ok E (snd (setItem E k v e w))"
  using assms(3,4) by (simp add: namespace_ok_def raw_setItem [OF assms(1,2,5)])

lemma namespace_ok_getItem:
  assumes "store_contract E I repr" and "world_ok I w" and "namespace_ok E w"
  shows "namespace_ok E (snd (getItem E k w))"
  using assms by (simp add: getItem_def namespace_ok_removeItem)

lemma namespace_ok_clear:
  assumes "store_contract E I repr" and "world_ok I w"
  shows "namespace_ok E (clear E w)"
  by (simp add: namespace_ok_def raw_clear [OF assms])

lemma namespace_ok_clock [simp]: "namespace_ok E (w\<lparr>clock := c\<rparr>) = namespace_ok E w"
  by (simp add: namespace_ok_def)

lemma abs_store_clock [simp]: "abs_store E (w\<lparr>clock := c\<rparr>) = abs_store E w"
  by (auto simp: abs_store_def fun_eq_iff)

section \<open>Enumeration and the sweep\<close>

lemma a_isExpired_abs_store:
  "a_isExpired (abs_store E w) k (getTimestamp E w) \<longleftrightarrow> plain k \<and> isExpired E k w"
  by (cases "plain k") (simp_all add: refine_isExpired)

lemma refine_keys:
  "set (fst (keys E inc w)) = a_keys (abs_store E w) inc (getTimestamp E w) \<and>
   snd (keys E inc w) = w"
proof -
  have "e_listed (abs_store E w k) \<longleftrightarrow> plain k \<and> k \<in> set (key_snapshot E (store w))" for k
    by (cases "plain k") (simp_all add: abs_store_plain no_entry_def listed_def)
  then show ?thesis
    by (auto simp: keys_def iterKeys_readonly fold_keys_callback a_keys_def
        a_isExpired_abs_store plain_def)
qed

lemma expired_plain:
  assumes "namespace_ok E w" and "isExpired E k w"
  shows "plain k"
proof (rule ccontr)
  assume "\<not> plain k"
  then obtain k' where "k = expiration_key k'" by (auto dest: not_plainE)
  with assms(1) have "raw E w (expiration_key k) = JNull" by (simp add: namespace_okD)
  with assms(2) show False by (simp add: not_isExpired_null)
qed

lemma removeItem_keeps_unexpired:
  assumes "store_contract E I repr" and "world_ok I w" and "\<not> isExpired E k' w"
  shows "\<not> isExpired E k' (snd (removeItem E k w))"
proof (cases "raw E (snd (removeItem E k w)) (expiration_key k') = JNull")
  case True
  then show ?thesis by (rule not_isExpired_null)
next
  case False
  then have "raw E (snd (removeItem E k w)) (expiration_key k') = raw E w (expiration_key k')"
    by (simp add: raw_removeItem [OF assms(1,2)] split: if_splits)
  then show ?thesis using assms(3) isExpired_cong [of E "snd (removeItem E k w)" k' w] by simp
qed

lemma sweeps_expired:
  assumes c: "store_contract E I repr"
  shows "sweeps E w new w' \<Longrightarrow> world_ok I w \<Longrightarrow> namespace_ok E w \<Longrightarrow>
         \<forall>k \<in> set new. plain k \<and> isExpired E k w"
proof (induction rule: sweeps.induct)
  case (sweeps_done w)
  show ?case by simp
next
  case (sweeps_remove k w new w')
  then have "\<forall>k' \<in> set new. plain k' \<and> isExpired E k' (snd (removeItem E k w))"
    by (simp add: world_ok_removeItem [OF c] namespace_ok_removeItem [OF c])
  then have "\<forall>k' \<in> set new. plain k' \<and> isExpired E k' w"
    using removeItem_keeps_unexpired [OF c sweeps_remove.prems(1)] by blast
  then show ?case using sweeps_remove.hyps(1) sweeps_remove.prems(2) by (simp add: expired_plain)
qed

lemma sweeps_listed:
  assumes c: "store_contract E I repr" and l: "enum_law E I"
  shows "sweeps E w new w' \<Longrightarrow> world_ok I w \<Longrightarrow>
         listed E w' = listed E w - (set new \<union> expiration_key ` set new)"
proof (induction rule: sweeps.induct)
  case (sweeps_done w)
  show ?case by simp
next
  case (sweeps_remove k w new w')
  then show ?case
    using world_ok_removeItem [OF c, of w k] listed_removeItem [OF c l, of w k] by auto
qed

text \<open>\<^verbatim>\<open>clearExpired\<close> is a sweep that removes the expired keys, all of them.\<close>

lemma clearExpired_sweeps:
  assumes "store_contract E I repr" and "world_ok I w"
    and "snapshot_iteration E \<or> enum_complete E I"
  shows "sweeps E w (fst (clearExpired E w)) (snd (clearExpired E w))"
  using fold_sweeps [of E "key_snapshot E (store w)" "[]" w]
  by (simp add: clearExpired_def sweep_iterKeys [OF assms])

lemma sweep_removes_all_expired:
  assumes c: "store_contract E I repr" and en: "enum_complete E I"
    and ok: "world_ok I w" and ns: "namespace_ok E w"
  shows "set (fst (clearExpired E w)) = {k. isExpired E k w}"
proof -
  let ?new = "fst (clearExpired E w)" and ?w' = "snd (clearExpired E w)"
  have sw: "sweeps E w ?new ?w'" using c ok en by (simp add: clearExpired_sweeps)
  note after = sweeps_raw [OF c sw ok]
  have sub: "\<forall>k \<in> set ?new. plain k \<and> isExpired E k w" using c sw ok ns by (rule sweeps_expired)
  have "k \<in> set ?new" if k: "isExpired E k w" for k
  proof (rule ccontr)
    assume notin: "k \<notin> set ?new"
    from k have "raw E w (expiration_key k) \<noteq> JNull" using not_isExpired_null by blast
    then have "expiration_key k \<in> set (key_snapshot E (store w))"
      using en ok by (auto simp: enum_complete_def world_ok_def raw_def)
    then have gone: "\<not> isExpired E k ?w'"
      using sweep_visited [OF c ok] c ok en by (simp add: clearExpired_def sweep_iterKeys)
    have "expiration_key k \<notin> set ?new" using sub by auto
    with notin after have "raw E ?w' (expiration_key k) = raw E w (expiration_key k)" by auto
    then have "isExpired E k ?w' = isExpired E k w" using after by (intro isExpired_cong) simp_all
    with gone k show False by simp
  qed
  with sub show ?thesis by auto
qed

lemma refine_clearExpired:
  assumes c: "store_contract E I repr" and l: "enum_law E I" and en: "enum_complete E I"
    and ok: "world_ok I w" and ns: "namespace_ok E w"
  shows "set (fst (clearExpired E w)) = a_expired (abs_store E w) (getTimestamp E w) \<and>
         abs_store E (snd (clearExpired E w)) = a_clearExpired (abs_store E w) (getTimestamp E w)"
proof -
  let ?new = "fst (clearExpired E w)" and ?w' = "snd (clearExpired E w)"
  have sw: "sweeps E w ?new ?w'" using c ok en by (simp add: clearExpired_sweeps)
  have new: "set ?new = {k. isExpired E k w}" using c en ok ns by (rule sweep_removes_all_expired)
  note rw = sweeps_raw [OF c sw ok, THEN conjunct2, THEN conjunct2, rule_format]
    and ls = sweeps_listed [OF c l sw ok]
  have pl: "isExpired E k w \<Longrightarrow> plain k" for k using ns by (rule expired_plain)
  have npl: "\<not> isExpired E (expiration_key k) w" for k
    using pl [of "expiration_key k"] by auto
  have "abs_store E ?w' = a_clearExpired (abs_store E w) (getTimestamp E w)"
  proof (rule abs_store_eqI)
    fix k assume "plain k"
    then show "a_clearExpired (abs_store E w) (getTimestamp E w) k = abs_entry E ?w' k"
      using npl by (auto simp: rw ls new a_clearExpired_def a_isExpired_abs_store abs_store_plain
          abs_entry_def no_entry_def)
  next
    fix k assume "\<not> plain k"
    then show "a_clearExpired (abs_store E w) (getTimestamp E w) k = no_entry"
      by (simp add: a_clearExpired_def)
  qed
  with new pl show ?thesis by (auto simp: a_expired_def a_isExpired_abs_store)
qed

lemma namespace_ok_clearExpired:
  assumes "store_contract E I repr" and "world_ok I w" and "namespace_ok E w"
  shows "namespace_ok E (snd (clearExpired E w))"
  unfolding clearExpired_def
  by (rule iterKeys_preserves [where P = "\<lambda>w. world_ok I w \<and> namespace_ok E w", THEN conjunct2])
    (auto simp: assms clearExpired_callback_def Let_def world_ok_removeItem [OF assms(1)]
      namespace_ok_removeItem [OF assms(1)])

text \<open>
  C22. The sweep reports exactly the expired keys. On a store that meets the contract,
  whose enumeration follows its writes and lists every key that reads non-\<^verbatim>\<open>null\<close>, in a
  world whose namespace is in order,
  the array \<^verbatim>\<open>clearExpired()\<close> returns holds the keys that were expired when it was called
  and no other, and afterwards exactly those keys and their expiry records are gone: the
  abstract map is the one with the expired entries removed.
\<close>

theorem clearExpired_returns_expired:
  assumes "store_contract E I repr" and "enum_law E I" and "enum_complete E I"
    and "world_ok I w" and "namespace_ok E w"
  shows "set (fst (clearExpired E w)) = {k. isExpired E k w} \<and>
         abs_store E (snd (clearExpired E w)) = a_clearExpired (abs_store E w) (getTimestamp E w)"
  using refine_clearExpired [OF assms] sweep_removes_all_expired [OF assms(1,3,4,5)] by simp

theorem clearExpired_returns_expired_witness:
  "set (fst (clearExpired test_expired clear_expired_world)) = {k. isExpired test_expired k clear_expired_world}"
proof -
  have "namespace_ok test_expired clear_expired_world"
    by (simp add: namespace_ok_def raw_def clear_expired_world_def ts_getItem_def
        expiration_key_def expiration_key_prefix_def)
  from clearExpired_returns_expired [OF ts_contract ts_enum_law ts_enum_complete
      world_ok_examples(2) this]
  show ?thesis by simp
qed

end
