(* ===== verification/Refinement.thy ===== *)
theory Refinement
  imports Abstract_Store
begin

text \<open>
  The simulation between the calls of an \<^verbatim>\<open>ExpiredStorage\<close> instance and the abstract
  map of theory \<open>Abstract_Store\<close>. \<open>a_step\<close> is one call on the abstract state, a map
  beside the clock; the abstraction of a world is the map read off its store beside
  its clock. Every call on a plain key that does not end in an exception of the store
  is matched by the abstract step, and so is every run of such calls. The order of the
  keys in the arrays \<^verbatim>\<open>keys\<close> and \<^verbatim>\<open>clearExpired\<close> return is the store's and is not part of
  the contract: their outcomes are compared as sets.
\<close>

section \<open>Abstract steps\<close>

type_synonym astate = "astore \<times> int"

datatype a_outcome = Result outcome | KeySet "key set"

fun abs_outcome :: "outcome \<Rightarrow> a_outcome" where
  "abs_outcome (KeyList ks) = KeySet (set ks)"
| "abs_outcome r = Result r"

definition abs_world :: "'s expired_storage \<Rightarrow> 's world \<Rightarrow> astate" where
  "abs_world E w = (abs_store E w, clock w)"

text \<open>
  \<open>repr\<close> is how the store represents a written value and \<open>ts\<close> how the instance reads
  the clock. The JSON calls are those of the code over the abstract \<open>a_setItem\<close> and
  \<open>a_getItem\<close>.
\<close>

definition a_getJson :: "jsval \<Rightarrow> outcome" where
  "a_getJson v =
     (if v = JNull then Json (Prim JNull)
      else (case JSON_parse (js_ToString v) of None \<Rightarrow> Threw JsonSyntax | Some j \<Rightarrow> Json j))"

fun a_step :: "(jsval \<Rightarrow> jsval) \<Rightarrow> (int \<Rightarrow> seconds) \<Rightarrow> call \<Rightarrow> astate \<Rightarrow> a_outcome \<times> astate" where
  "a_step repr ts (SetItem k v e) (m, c) =
     (Result (Returned JUndefined), a_setItem m k (repr v) e (ts c), c)"
| "a_step repr ts (GetItem k) (m, c) =
     (Result (Returned (fst (a_getItem m k (ts c)))), snd (a_getItem m k (ts c)), c)"
| "a_step repr ts (Peek k) (m, c) = (Result (Peeked (a_peek m k (ts c))), m, c)"
| "a_step repr ts (GetTimeLeft k) (m, c) = (Result (TimeLeft (a_getTimeLeft m k (ts c))), m, c)"
| "a_step repr ts (IsExpired k) (m, c) = (Result (Flag (a_isExpired m k (ts c))), m, c)"
| "a_step repr ts (UpdateExpiration k e) (m, c) =
     (Result (Returned JUndefined), a_updateExpiration m k e (ts c), c)"
| "a_step repr ts (RemoveItem k) (m, c) = (Result (Returned JUndefined), a_removeItem m k, c)"
| "a_step repr ts (SetJson k j e) (m, c) =
     (if j = Prim JUndefined then (Result (Threw UndefinedJson), m, c)
      else (Result (Returned JUndefined), a_setItem m k (repr (JSON_stringify j)) e (ts c), c))"
| "a_step repr ts (GetJson k) (m, c) =
     (Result (a_getJson (fst (a_getItem m k (ts c)))), snd (a_getItem m k (ts c)), c)"
| "a_step repr ts (Keys inc) (m, c) = (KeySet (a_keys m inc (ts c)), m, c)"
| "a_step repr ts Clear (m, c) = (Result NoResult, a_clear, c)"
| "a_step repr ts ClearExpired (m, c) = (KeySet (a_expired m (ts c)), a_clearExpired m (ts c), c)"
| "a_step repr ts (StorageGetItem k) (m, c) = (Result (Returned (e_value (m k))), m, c)"
| "a_step repr ts StorageClear (m, c) = (Result NoResult, a_clear, c)"
| "a_step repr ts (SetTimestamp t) (m, c) = (Result NoResult, m, t)"

fun a_run ::
  "(jsval \<Rightarrow> jsval) \<Rightarrow> (int \<Rightarrow> seconds) \<Rightarrow> call list \<Rightarrow> astate \<Rightarrow> a_outcome list \<times> astate" where
  "a_run repr ts [] a = ([], a)"
| "a_run repr ts (c # cs) a =
     (let r = a_step repr ts c a; rs = a_run repr ts cs (snd r) in (fst r # fst rs, snd rs))"

text \<open>The calls the simulation covers: those whose key is a plain key.\<close>

fun plain_call :: "call \<Rightarrow> bool" where
  "plain_call (SetItem k v e) = plain k"
| "plain_call (GetItem k) = plain k"
| "plain_call (Peek k) = plain k"
| "plain_call (GetTimeLeft k) = plain k"
| "plain_call (IsExpired k) = plain k"
| "plain_call (UpdateExpiration k e) = plain k"
| "plain_call (RemoveItem k) = plain k"
| "plain_call (SetJson k j e) = plain k"
| "plain_call (GetJson k) = plain k"
| "plain_call (StorageGetItem k) = plain k"
| "plain_call c = True"

text \<open>The outcomes the simulation covers: all but an exception of the store.\<close>

fun store_held :: "outcome \<Rightarrow> bool" where
  "store_held (Threw (StorageFailure f)) = False"
| "store_held r = True"

text \<open>
  A successful write and a removal return nothing, as those of the test store and of the
  browser's storage do.
\<close>

definition quiet :: "'s expired_storage \<Rightarrow> bool" where
  "quiet E \<longleftrightarrow>
     (\<forall>s k v r. fst (st_setItem E s k v) = Inr r \<longrightarrow> r = JUndefined) \<and>
     (\<forall>s k. fst (st_removeItem E s k) = JUndefined)"

text \<open>What the simulation asks of the store, and what it maintains of the world.\<close>

definition lawful :: "'s expired_storage \<Rightarrow> ('s \<Rightarrow> bool) \<Rightarrow> (jsval \<Rightarrow> jsval) \<Rightarrow> bool" where
  "lawful E I repr \<longleftrightarrow>
     store_contract E I repr \<and> enum_law E I \<and> enum_complete E I \<and> quiet E \<and>
     (\<forall>s k v f. fst (st_setItem E s k v) = Inl f \<longrightarrow> (\<exists>x. f = StorageFailure x))"

definition sim_inv :: "'s expired_storage \<Rightarrow> ('s \<Rightarrow> bool) \<Rightarrow> 's world \<Rightarrow> bool" where
  "sim_inv E I w \<longleftrightarrow> world_ok I w \<and> namespace_ok E w"

section \<open>One call\<close>

lemma lawfulD:
  assumes "lawful E I repr"
  shows "store_contract E I repr" and "enum_law E I" and "enum_complete E I" and "quiet E"
  using assms by (auto simp: lawful_def)

lemma store_held_of_result:
  assumes "lawful E I repr" and "fst r = fst (st_setItem E s k v)"
  shows "store_held (of_result (fst r)) \<longleftrightarrow> fst r = Inr JUndefined"
proof (cases "fst (st_setItem E s k v)")
  case (Inl f)
  with assms(1) have "\<exists>x. f = StorageFailure x" unfolding lawful_def by blast
  with Inl assms(2) show ?thesis by (auto simp: of_result_def)
next
  case (Inr r')
  with assms(1) have "r' = JUndefined" by (auto simp: lawful_def quiet_def)
  with Inr assms(2) show ?thesis by (simp add: of_result_def)
qed

lemma setItem_held:
  assumes "lawful E I repr" and "store_held (of_result (fst (setItem E k v e w)))"
  shows "fst (setItem E k v e w) = Inr JUndefined"
proof (cases "fst (setItem E k v e w)")
  case (Inl f)
  then have "\<exists>s k' v'. fst (st_setItem E s k' v') = Inl f"
    by (auto simp: setItem_def updateExpiration_def Let_def split: sum.splits if_splits)
  with assms(1) have "\<exists>x. f = StorageFailure x" unfolding lawful_def by blast
  with Inl assms(2) show ?thesis by (auto simp: of_result_def)
next
  case (Inr r)
  then have "fst (st_setItem E (store w) k v) = Inr r"
    by (auto simp: setItem_def Let_def split: sum.splits if_splits)
  with assms(1) have "r = JUndefined" by (auto simp: lawful_def quiet_def)
  with Inr show ?thesis by simp
qed

lemma updateExpiration_held:
  assumes "lawful E I repr" and "store_held (of_result (fst (updateExpiration E k e w)))"
  shows "fst (updateExpiration E k e w) = Inr JUndefined"
  using assms(2)
    store_held_of_result [OF assms(1), of "updateExpiration E k e w" "store w" "expiration_key k"
      "js_add (JNum (getTimestamp E w)) e"]
  by (simp add: updateExpiration_def Let_def)

lemma removeItem_quiet: "lawful E I repr \<Longrightarrow> fst (removeItem E k w) = JUndefined"
  by (simp add: removeItem_def Let_def lawful_def quiet_def)

lemma sim_invD:
  assumes "sim_inv E I w"
  shows "world_ok I w" and "namespace_ok E w"
  using assms by (simp_all add: sim_inv_def)

lemma sim_inv_step:
  assumes l: "lawful E I repr" and i: "sim_inv E I w" and p: "plain_call c"
    and h: "store_held (fst (step E c w))"
  shows "sim_inv E I (snd (step E c w))"
proof -
  note c = lawfulD(1) [OF l] and ok = sim_invD(1) [OF i] and ns = sim_invD(2) [OF i]
  have "world_ok I (snd (step E c w))" using c ok by (rule world_ok_step)
  moreover have "namespace_ok E (snd (step E c w))"
  proof (cases c)
    case (SetItem k v e)
    with p h setItem_held [OF l, of k v e w] show ?thesis
      by (simp add: namespace_ok_setItem [OF c ok _ ns])
  next
    case (SetJson k j e)
    with p h setItem_held [OF l, of k "JSON_stringify j" e w] show ?thesis
      by (auto simp: setJson_def ns namespace_ok_setItem [OF c ok _ ns])
  next
    case (GetJson k)
    then show ?thesis
      by (auto simp: getJson_def Let_def namespace_ok_getItem [OF c ok ns] split: option.splits)
  next
    case (Keys inc)
    then show ?thesis by (simp add: keys_def iterKeys_readonly fold_keys_callback ns)
  next
    case StorageClear
    then show ?thesis using namespace_ok_clear [OF c ok] by (simp add: clear_def)
  qed (use p ns in \<open>simp_all add: namespace_ok_updateExpiration [OF c ok] namespace_ok_getItem [OF c ok]
        namespace_ok_removeItem [OF c ok] namespace_ok_clear [OF c ok]
        namespace_ok_clearExpired [OF c ok]\<close>)
  ultimately show ?thesis by (simp add: sim_inv_def)
qed

lemma abs_world_simps [simp]:
  "fst (abs_world E w) = abs_store E w" "snd (abs_world E w) = clock w"
  by (simp_all add: abs_world_def)

lemma clock_clearExpired [simp]: "clock (snd (clearExpired E w)) = clock w"
  unfolding clearExpired_def
  by (rule iterKeys_preserves [where P = "\<lambda>w'. clock w' = clock w"])
    (simp_all add: clearExpired_callback_def Let_def)

lemma step_refines:
  assumes l: "lawful E I repr" and i: "sim_inv E I w" and p: "plain_call c"
    and h: "store_held (fst (step E c w))"
  shows "(abs_outcome (fst (step E c w)), abs_world E (snd (step E c w)))
           = a_step repr (getTimestamp_impl E) c (abs_world E w)"
proof -
  note c = lawfulD(1) [OF l] and en = lawfulD(2) [OF l]
    and ok = sim_invD(1) [OF i] and ns = sim_invD(2) [OF i]
  note ts = getTimestamp_def [of E w, symmetric]
  note refine = refine_peek refine_getTimeLeft refine_isExpired refine_removeItem [OF c en ok]
    refine_clear [OF c en ok] removeItem_quiet [OF l] abs_store_plain
  show ?thesis
  proof (cases c)
    case (SetItem k v e)
    with p h setItem_held [OF l, of k v e w] show ?thesis
      by (simp add: abs_world_def ts refine_setItem [OF c en ok] of_result_def)
  next
    case (GetItem k)
    with p refine_getItem [OF c en ok, of k] show ?thesis by (simp add: abs_world_def ts)
  next
    case (UpdateExpiration k e)
    with p h updateExpiration_held [OF l, of k e w] show ?thesis
      by (simp add: abs_world_def ts refine_updateExpiration [OF c en ok] of_result_def)
  next
    case (SetJson k j e)
    with p h setItem_held [OF l, of k "JSON_stringify j" e w] show ?thesis
      by (auto simp: abs_world_def ts setJson_def refine_setItem [OF c en ok] of_result_def)
  next
    case (GetJson k)
    with p refine_getItem [OF c en ok, of k] show ?thesis
      by (auto simp: abs_world_def ts getJson_def a_getJson_def Let_def of_json_result_def
          split: option.splits)
  next
    case (Keys inc)
    with refine_keys [of E inc w] show ?thesis by (simp add: abs_world_def ts)
  next
    case ClearExpired
    with refine_clearExpired [OF c en lawfulD(3) [OF l] ok ns] show ?thesis
      by (simp add: abs_world_def ts)
  next
    case StorageClear
    then show ?thesis using refine_clear [OF c en ok] by (simp add: abs_world_def clear_def)
  qed (use p in \<open>simp_all add: abs_world_def ts refine\<close>)
qed

section \<open>The stores of the suite are lawful\<close>

lemma lawful_local_expired: "lawful (local_expired ok q) ls_inv ls_repr"
  by (auto simp: lawful_def ls_contract ls_enum_law ls_enum_complete quiet_def ls_setItem_def
      ls_removeItem_def Let_def split: if_splits)

lemma lawful_test_expired: "lawful test_expired ts_inv ts_repr"
  by (simp add: lawful_def ts_contract ts_enum_law ts_enum_complete quiet_def ts_setItem_def
      ts_removeItem_def)

lemma sim_inv_ts_empty [simp]: "sim_inv test_expired ts_inv \<lparr>store = [], clock = c\<rparr>"
  by (simp add: sim_inv_def namespace_ok_def raw_def)

lemma sim_inv_ls_empty [simp]: "sim_inv (local_expired ok q) ls_inv \<lparr>store = [], clock = c\<rparr>"
  by (simp add: sim_inv_def namespace_ok_def raw_def)

section \<open>Runs\<close>

text \<open>
  C11. The wrapper implements the abstract map. On a store that meets the contract,
  whose enumeration follows its writes and lists every key that reads non-\<^verbatim>\<open>null\<close>, and
  whose writes return nothing, every run of
  calls on plain keys in which the store raises no exception gives the outcomes of the
  abstract run, ends in the world whose abstraction the abstract run ends in, and keeps
  the store and the namespace in order. The keys returned by \<^verbatim>\<open>keys\<close> and \<^verbatim>\<open>clearExpired\<close>
  are compared as sets.
\<close>

theorem run_refines:
  assumes "lawful E I repr" and "sim_inv E I w" and "list_all plain_call cs"
    and "list_all store_held (fst (run E cs w))"
  shows "(map abs_outcome (fst (run E cs w)), abs_world E (snd (run E cs w)))
           = a_run repr (getTimestamp_impl E) cs (abs_world E w) \<and>
         sim_inv E I (snd (run E cs w))"
  using assms(2-4)
proof (induction cs arbitrary: w)
  case Nil
  then show ?case by simp
next
  case (Cons c cs)
  from Cons.prems have p: "plain_call c" and h: "store_held (fst (step E c w))"
    by (simp_all add: Let_def)
  note st = step_refines [OF assms(1) Cons.prems(1) p h, symmetric]
  have "sim_inv E I (snd (step E c w))" using assms(1) Cons.prems(1) p h by (rule sim_inv_step)
  from Cons.IH [OF this] Cons.prems(2,3)
  have "a_run repr (getTimestamp_impl E) cs (abs_world E (snd (step E c w)))
          = (map abs_outcome (fst (run E cs (snd (step E c w)))),
             abs_world E (snd (run E cs (snd (step E c w)))))"
    and "sim_inv E I (snd (run E cs (snd (step E c w))))"
    by (simp_all add: Let_def)
  then show ?case by (simp add: Let_def st)
qed

theorem run_refines_witness:
  "a_run ls_repr default_getTimestamp
     [SetItem ''a'' (JNum 1) (JNum 10), SetItem ''b'' (JNum 2) JUndefined, SetTimestamp 20000,
      Keys False, ClearExpired, GetItem ''a'', GetItem ''b'']
     (abs_world (local_expired True 100) \<lparr>store = [], clock = 0\<rparr>)
   = ([Result (Returned JUndefined), Result (Returned JUndefined), Result NoResult,
       KeySet {''b''}, KeySet {''a''}, Result (Returned JNull), Result (Returned (JStr ''2''))],
      abs_world (local_expired True 100) \<lparr>store = [(''b'', ''2'')], clock = 20000\<rparr>) \<and>
   a_run ts_repr (\<lambda>t. t)
     [SetItem ''a'' JNull (JNum 10), Keys True, SetTimestamp 20, GetItem ''a'', Keys True]
     (abs_world test_expired \<lparr>store = [], clock = 0\<rparr>)
   = ([Result (Returned JUndefined), KeySet {''a''}, Result NoResult, Result (Returned JNull),
       KeySet {}],
      abs_world test_expired \<lparr>store = [], clock = 20\<rparr>)"
proof -
  let ?cs = "[SetItem ''a'' (JNum 1) (JNum 10), SetItem ''b'' (JNum 2) JUndefined, SetTimestamp 20000,
      Keys False, ClearExpired, GetItem ''a'', GetItem ''b'']"
  let ?ds = "[SetItem ''a'' JNull (JNum 10), Keys True, SetTimestamp 20, GetItem ''a'', Keys True]"
  have r: "run (local_expired True 100) ?cs \<lparr>store = [], clock = 0\<rparr>
    = ([Returned JUndefined, Returned JUndefined, NoResult, KeyList [''b''], KeyList [''a''],
        Returned JNull, Returned (JStr ''2'')], \<lparr>store = [(''b'', ''2'')], clock = 20000\<rparr>)"
    by code_simp
  have t: "run test_expired ?ds \<lparr>store = [], clock = 0\<rparr>
    = ([Returned JUndefined, KeyList [''a''], NoResult, Returned JNull, KeyList []],
       \<lparr>store = [], clock = 20\<rparr>)"
    by code_simp
  have p: "list_all plain_call ?cs" "list_all plain_call ?ds"
    by (simp_all add: plain_def is_expiration_key_def expiration_key_prefix_def)
  have h: "list_all store_held (fst (run (local_expired True 100) ?cs \<lparr>store = [], clock = 0\<rparr>))"
    "list_all store_held (fst (run test_expired ?ds \<lparr>store = [], clock = 0\<rparr>))"
    unfolding r t by simp_all
  have ts: "getTimestamp_impl (local_expired True 100) = default_getTimestamp"
    "getTimestamp_impl test_expired = (\<lambda>t. t)"
    by (simp_all add: local_expired_def test_expired_def)
  from run_refines [OF lawful_local_expired sim_inv_ls_empty p(1) h(1)]
    run_refines [OF lawful_test_expired sim_inv_ts_empty p(2) h(2)]
  show ?thesis unfolding r t ts by (simp del: a_run.simps)
qed

end
