(* ===== verification/Module_Export.thy ===== *)
theory Module_Export
  imports Construction
begin

text \<open>
  The wrapper of the source file and the code at its end that hands the class to the
  environment (\<^verbatim>\<open>src/dist/expired_storage.js\<close>, the first lines and the lines after the
  prototype). The file is one function applied to \<^verbatim>\<open>this\<close>; after it has defined the
  class it gives it three descriptive fields and then publishes it by the first of four
  ways that the environment offers: an AMD loader, the \<^verbatim>\<open>module\<close> object of CommonJS, the
  \<^verbatim>\<open>exports\<close> variable of CommonJS, or a property of the root object. The theory models
  the environment as far as these tests read it and the publication as far as it writes
  it.
\<close>

section \<open>Definitions\<close>

text \<open>\<^verbatim>\<open>ExpiredStorage.version\<close>, \<^verbatim>\<open>.author\<close> and \<^verbatim>\<open>.gitUrl\<close>.\<close>

record api_params =
  version :: string
  author :: string
  gitUrl :: string

definition ExpiredStorage_params :: api_params where
  "ExpiredStorage_params =
     \<lparr>version = ''1.0.2'', author = ''Ronen Ness'',
      gitUrl = ''https://github.com/RonenNess/ExpiredStorage''\<rparr>"

text \<open>
  What a variable of the environment refers to, as far as \<^verbatim>\<open>typeof\<close> and a truth test
  tell: nothing (the variable is not declared or is \<^verbatim>\<open>undefined\<close>), \<^verbatim>\<open>null\<close>, an object
  other than the class, or the class. \<^verbatim>\<open>typeof\<close> gives \<^verbatim>\<open>"object"\<close> for the middle two.
\<close>

datatype 'c ref = Undefined | Null | Object | Class 'c

fun typeof_object :: "'c ref \<Rightarrow> bool" where
  "typeof_object Null = True"
| "typeof_object Object = True"
| "typeof_object r = False"

fun truthy_ref :: "'c ref \<Rightarrow> bool" where
  "truthy_ref Undefined = False"
| "truthy_ref Null = False"
| "truthy_ref r = True"

text \<open>
  The environment: whether \<^verbatim>\<open>define\<close> is a function with a truthy \<^verbatim>\<open>amd\<close>, and what that
  loader has been given; the variable \<^verbatim>\<open>module\<close> and the property \<^verbatim>\<open>module.exports\<close>; the
  variable \<^verbatim>\<open>exports\<close>; the root object (\<^verbatim>\<open>this\<close> of the file) and its property
  \<^verbatim>\<open>ExpiredStorage\<close>.
\<close>

record 'c environment =
  define_amd :: bool
  amd_defined :: "'c option"
  module_var :: "'c ref"
  module_exports :: "'c ref"
  exports_var :: "'c ref"
  root :: "'c ref"
  root_ExpiredStorage :: "'c ref"

text \<open>Reading a property of \<^verbatim>\<open>null\<close> throws.\<close>

datatype load_error = TypeError_module_null

text \<open>
  The chain of \<^verbatim>\<open>if ... else if\<close>: the first condition that holds decides, and the
  later ones are not evaluated. The second condition reads \<^verbatim>\<open>module.exports\<close> as soon as
  \<^verbatim>\<open>typeof module\<close> is \<^verbatim>\<open>"object"\<close>, which it also is for \<^verbatim>\<open>null\<close>: that case, the
  second line of the chain below, ends in a \<^verbatim>\<open>TypeError\<close>. The third branch assigns to the
  variable \<^verbatim>\<open>exports\<close>.
\<close>

definition publish :: "'c \<Rightarrow> 'c environment \<Rightarrow> load_error + 'c environment" where
  "publish c env =
     (if define_amd env then Inr (env\<lparr>amd_defined := Some c\<rparr>)
      else if module_var env = Null then Inl TypeError_module_null
      else if typeof_object (module_var env) \<and> truthy_ref (module_exports env)
        then Inr (env\<lparr>module_exports := Class c\<rparr>)
      else if typeof_object (exports_var env) \<and> truthy_ref (exports_var env)
        then Inr (env\<lparr>exports_var := Class c\<rparr>)
      else if truthy_ref (root env) \<and> \<not> truthy_ref (root_ExpiredStorage env)
        then Inr (env\<lparr>root_ExpiredStorage := Class c\<rparr>)
      else Inr env)"

text \<open>
  Where a client finds the class afterwards: from the AMD loader, as the value of
  \<^verbatim>\<open>require\<close> (the \<^verbatim>\<open>module.exports\<close> of the module), or as a property of the root object.
  The variable \<^verbatim>\<open>exports\<close> is local to the module: what it refers to afterwards is
  seen by nobody.
\<close>

definition reachable_class :: "'c environment \<Rightarrow> 'c set" where
  "reachable_class env =
     (case amd_defined env of None \<Rightarrow> {} | Some c \<Rightarrow> {c}) \<union>
     (case module_exports env of Class c \<Rightarrow> {c} | _ \<Rightarrow> {}) \<union>
     (case root_ExpiredStorage env of Class c \<Rightarrow> {c} | _ \<Rightarrow> {})"

text \<open>The environments of the usual hosts, before the file is loaded.\<close>

definition browser_env :: "'c environment" where
  "browser_env =
     \<lparr>define_amd = False, amd_defined = None, module_var = Undefined, module_exports = Undefined,
      exports_var = Undefined, root = Object, root_ExpiredStorage = Undefined\<rparr>"

definition node_env :: "'c environment" where
  "node_env = browser_env\<lparr>module_var := Object, module_exports := Object, exports_var := Object\<rparr>"

definition exports_only_env :: "'c environment" where
  "exports_only_env = browser_env\<lparr>exports_var := Object\<rparr>"

lemmas [es_ops] = publish_def reachable_class_def browser_env_def node_env_def
  exports_only_env_def

section \<open>The branches\<close>

lemma publish_amd: "define_amd env \<Longrightarrow> publish c env = Inr (env\<lparr>amd_defined := Some c\<rparr>)"
  by (simp add: publish_def)

lemma publish_module_null:
  "\<not> define_amd env \<Longrightarrow> module_var env = Null \<Longrightarrow> publish c env = Inl TypeError_module_null"
  by (simp add: publish_def)

lemma publish_module:
  "\<not> define_amd env \<Longrightarrow> module_var env = Object \<Longrightarrow> truthy_ref (module_exports env) \<Longrightarrow>
   publish c env = Inr (env\<lparr>module_exports := Class c\<rparr>)"
  by (simp add: publish_def)

lemma publish_exports:
  "\<not> define_amd env \<Longrightarrow> \<not> typeof_object (module_var env) \<Longrightarrow> exports_var env = Object \<Longrightarrow>
   publish c env = Inr (env\<lparr>exports_var := Class c\<rparr>)"
  by (cases "module_var env") (simp_all add: publish_def)

text \<open>Each way of publishing changes one field, and reachability reads three of them.\<close>

lemma reachable_class_updates:
  "reachable_class (env\<lparr>exports_var := r\<rparr>) = reachable_class env"
  "reachable_class (env\<lparr>amd_defined := Some c\<rparr>) \<subseteq> insert c (reachable_class env)"
  "reachable_class (env\<lparr>module_exports := Class c\<rparr>) \<subseteq> insert c (reachable_class env)"
  "reachable_class (env\<lparr>root_ExpiredStorage := Class c\<rparr>) \<subseteq> insert c (reachable_class env)"
  by (auto simp: reachable_class_def split: option.splits ref.splits)

lemma publish_result:
  assumes "publish c env = Inr env'"
  shows "env' \<in> {env, env\<lparr>amd_defined := Some c\<rparr>, env\<lparr>module_exports := Class c\<rparr>,
                 env\<lparr>exports_var := Class c\<rparr>, env\<lparr>root_ExpiredStorage := Class c\<rparr>}"
    and "truthy_ref (root_ExpiredStorage env) \<Longrightarrow> root_ExpiredStorage env' = root_ExpiredStorage env"
  using assms by (simp_all add: publish_def split: if_splits) auto

text \<open>
  In a browser the class becomes a property of the window; under Node it replaces
  \<^verbatim>\<open>module.exports\<close>; under an AMD loader it is the value of the module.
\<close>

lemma publish_hosts:
  "publish c browser_env = Inr (browser_env\<lparr>root_ExpiredStorage := Class c\<rparr>)"
  "publish c node_env = Inr (node_env\<lparr>module_exports := Class c\<rparr>)"
  "publish c (browser_env\<lparr>define_amd := True\<rparr>)
     = Inr (browser_env\<lparr>define_amd := True, amd_defined := Some c\<rparr>)"
  by (simp_all add: publish_def browser_env_def node_env_def)

section \<open>Guarantees of the publication\<close>

text \<open>
  C38. The publication writes to one place at most and never over a global that is
  already there: when loading does not throw, the only class that has become reachable
  is the one just defined; a truthy property \<^verbatim>\<open>ExpiredStorage\<close> of the root object is
  left as it was; and of the AMD loader, \<^verbatim>\<open>module.exports\<close>, the variable \<^verbatim>\<open>exports\<close> and
  the root property at most one has changed.
\<close>

theorem publish_conservative:
  assumes "publish c env = Inr env'"
  shows "reachable_class env' \<subseteq> insert c (reachable_class env) \<and>
         (truthy_ref (root_ExpiredStorage env) \<longrightarrow>
            root_ExpiredStorage env' = root_ExpiredStorage env) \<and>
         env' \<in> {env, env\<lparr>amd_defined := Some c\<rparr>, env\<lparr>module_exports := Class c\<rparr>,
                 env\<lparr>exports_var := Class c\<rparr>, env\<lparr>root_ExpiredStorage := Class c\<rparr>}"
proof -
  from publish_result(1) [OF assms]
  have "reachable_class env' \<subseteq> insert c (reachable_class env)"
    by (elim insertE emptyE) (simp_all add: reachable_class_updates subset_insertI)
  with publish_result [OF assms] show ?thesis by simp
qed

theorem publish_conservative_witness:
  "publish (1::nat) (browser_env\<lparr>root_ExpiredStorage := Class 0\<rparr>)
     = Inr (browser_env\<lparr>root_ExpiredStorage := Class 0\<rparr>)"
proof -
  have "\<exists>env'. publish (1::nat) (browser_env\<lparr>root_ExpiredStorage := Class 0\<rparr>) = Inr env'"
    by (simp add: publish_def browser_env_def)
  then obtain env' where e: "publish (1::nat) (browser_env\<lparr>root_ExpiredStorage := Class 0\<rparr>) = Inr env'"
    by blast
  from publish_conservative [OF e] have "root_ExpiredStorage env' = Class 0"
    by (simp add: browser_env_def)
  with e have "env' = browser_env\<lparr>root_ExpiredStorage := Class 0\<rparr>"
    by (auto simp: publish_def browser_env_def split: if_splits)
  with e show ?thesis by simp
qed

text \<open>
  C39. The CommonJS branch without a \<^verbatim>\<open>module\<close> object publishes nothing. When there is
  no AMD loader and no \<^verbatim>\<open>module\<close> object but a variable \<^verbatim>\<open>exports\<close> that holds an object,
  the file assigns the class to that variable and stops: \<^verbatim>\<open>module.exports\<close>, the root
  object and the AMD loader are as before, so the class is reachable nowhere it was not
  reachable before, even when a root object without the class is there to take it.
\<close>

theorem publish_exports_lost:
  assumes "\<not> define_amd env" and "\<not> typeof_object (module_var env)" and "exports_var env = Object"
  shows "\<exists>env'. publish c env = Inr env' \<and> reachable_class env' = reachable_class env \<and>
           root_ExpiredStorage env' = root_ExpiredStorage env"
  using assms by (simp add: publish_exports reachable_class_def)

theorem publish_exports_lost_witness:
  "\<exists>env'. publish (1::nat) exports_only_env = Inr env' \<and> reachable_class env' = {} \<and>
     root env' = Object \<and> root_ExpiredStorage env' = Undefined"
proof -
  have "\<not> define_amd (exports_only_env :: nat environment)"
    "\<not> typeof_object (module_var (exports_only_env :: nat environment))"
    "exports_var (exports_only_env :: nat environment) = Object"
    by (simp_all add: exports_only_env_def browser_env_def)
  from publish_exports_lost [OF this, of 1] show ?thesis
    by (auto simp: exports_only_env_def browser_env_def reachable_class_def publish_def)
qed

end
