(* ===== verification/Spec2Isabelle.thy ===== *)
theory Spec2Isabelle
  imports Test_Suite Write_Failures Refinement Module_Export
begin

text \<open>
  \<^bold>\<open>ExpiredStorage: a key-value store with expiry, verified.\<close>

  The program (\<^verbatim>\<open>src/dist/expired_storage.js\<close>) wraps a backing store that has the
  \<^verbatim>\<open>localStorage\<close> API and gives its items a time to live. The value of a key \<open>k\<close> is kept
  under \<open>k\<close>; the absolute instant, in seconds, at which it expires is kept in the same
  store under \<^verbatim>\<open>"__expired_storage_ts__" + k\<close>. Nothing runs in the background: an
  expired item is removed when it is read (\<^verbatim>\<open>getItem\<close>) or when the caller sweeps
  (\<^verbatim>\<open>clearExpired\<close>). A JSON layer (\<^verbatim>\<open>setJson\<close>, \<^verbatim>\<open>getJson\<close>) stores the text of a value.
  The test suite (\<^verbatim>\<open>src/unnamed/part_000\<close>; \<^verbatim>\<open>src/tests/tests.js\<close> is its earlier version)
  runs the interface on \<^verbatim>\<open>localStorage\<close>, \<^verbatim>\<open>sessionStorage\<close> and a dictionary object of its
  own, with the clock under its control.

  \<^bold>\<open>Theories, in import order.\<close>

  \<^item> \<open>ES_Prelude\<close>: type names, the fact collections \<open>es_ops\<close>, \<open>store_ops\<close>, \<open>js_ops\<close>, and
    lemmas on prefixes, folds and association lists shared by the components.
  \<^item> \<open>JS_Values\<close>: the JavaScript primitives the source applies: \<open>jsval\<close> (undefined, null,
    booleans, integer numbers, NaN, strings), \<open>truthy\<close>, \<open>js_ToString\<close>, \<open>js_add\<close> (the
    \<^verbatim>\<open>+\<close> of \<^verbatim>\<open>getTimestamp() + expiration\<close>) and \<open>js_parseInt\<close> (whitespace, sign, hex
    prefix, longest digit prefix). Main lemmas: \<open>js_parseInt\<close> reads back the decimal text
    of every integer, and reads a number with digits appended as the shifted number.
  \<^item> \<open>JS_Objects\<close>: the order in which an object enumerates its own properties
    (\<open>own_property_keys\<close>, \<open>own_properties\<close>: array indices in numeric order, then the other
    names in creation order) and the creation of properties in sequence
    (\<open>define_properties\<close>).
  \<^item> \<open>JSON_Text\<close>: \<^verbatim>\<open>JSON.stringify\<close> and \<^verbatim>\<open>JSON.parse\<close>, which \<^verbatim>\<open>setJson\<close> and \<^verbatim>\<open>getJson\<close>
    call: the values \<open>jsdata\<close> (primitives, arrays, objects as property lists), the
    printer \<open>serialize\<close>, and the recursive-descent parser \<open>parse_value\<close>, \<open>parse_elements\<close>,
    \<open>parse_members\<close> with \<open>parse_scalar\<close>, \<open>parse_chars\<close> and \<open>parse_json_number\<close>.
  \<^item> \<open>JSON_Roundtrip\<close>: parsing a printed value gives \<open>reparsed\<close> of it, the value with
    \<^verbatim>\<open>NaN\<close> and \<^verbatim>\<open>undefined\<close> normalised and properties in enumeration order; on
    \<open>canonical\<close> values that is the value itself.
  \<^item> \<open>JSON_Fuel\<close>: the parser consumes its input, and its result does not depend on the
    fuel once the fuel exceeds what it consumed.
  \<^item> \<open>JSON_Typing\<close>: every value the parser returns is a \<open>json_value\<close>.
  \<^item> \<open>Backing_Store\<close>: the storage object as a record of optional methods (\<open>storage\<close>), the
    constructed instance (\<open>expired_storage\<close>), the \<open>world\<close> (state of the store, clock), the
    \<open>error\<close>s, and the contract a store is expected to meet (\<open>store_contract\<close> for reads
    and writes; \<open>enum_complete\<close>, \<open>enum_law\<close>, \<open>enum_exact\<close> for enumeration) with the key
    list it offers to enumeration (\<open>key_snapshot\<close>, \<open>listed\<close>).
  \<^item> \<open>Construction\<close>: the constructor \<open>ExpiredStorage\<close> (function \<^verbatim>\<open>ExpiredStorage\<close>) and the
    clock seam (\<^verbatim>\<open>getTimestamp\<close>: \<open>default_getTimestamp\<close>, \<open>getTimestamp\<close>, and the test
    suite's \<open>override_getTimestamp\<close>).
  \<^item> \<open>Module_Export\<close>: the end of the source file: the fields \<^verbatim>\<open>version\<close>, \<^verbatim>\<open>author\<close>,
    \<^verbatim>\<open>gitUrl\<close> (\<open>ExpiredStorage_params\<close>) and the chain that hands the class to an AMD
    loader, to \<^verbatim>\<open>module.exports\<close>, to the variable \<^verbatim>\<open>exports\<close> or to the root object
    (\<open>publish\<close>), over a record of what these names refer to when the file is loaded
    (\<open>environment\<close>).
  \<^item> \<open>Test_Storage\<close>: \<^verbatim>\<open>testStorage\<close> of the test suite, a dictionary object with
    \<^verbatim>\<open>getItem\<close>, \<^verbatim>\<open>setItem\<close>, \<^verbatim>\<open>removeItem\<close>, \<^verbatim>\<open>clear\<close>, \<^verbatim>\<open>keys\<close>; the instance
    \<open>test_expired\<close> built over it; the proof that it meets the contract; and
    \<open>readme_expired\<close>, the storage class of the README and of the earlier suite, whose
    \<^verbatim>\<open>getItem\<close> returns \<^verbatim>\<open>undefined\<close> for a missing key.
  \<^item> \<open>Local_Storage\<close>: the storage of the browser (\<^verbatim>\<open>localStorage\<close>, \<^verbatim>\<open>sessionStorage\<close>): a list
    of key and text pairs with a quota, \<open>ls_getItem\<close>, \<open>ls_setItem\<close> (which throws
    \<^verbatim>\<open>QuotaExceededError\<close>), \<open>ls_removeItem\<close>, \<open>ls_clear\<close>, \<open>ls_length\<close>, \<open>ls_key\<close>; the
    instance \<open>local_expired\<close> the constructor builds over it; the proof that it meets the
    contract.
  \<^item> \<open>Expired_Storage\<close>: the item operations \<open>updateExpiration\<close>, \<open>setItem\<close>, \<open>getTimeLeft\<close>,
    \<open>isExpired\<close>, \<open>removeItem\<close>, \<open>getItem\<close>, \<open>peek\<close>, \<open>setJson\<close>, \<open>getJson\<close>, \<open>clear\<close>
    (the methods of the same names), with what each leaves in the store.
  \<^item> \<open>Key_Enumeration\<close>: \<open>iterKeys\<close> (\<^verbatim>\<open>_iterKeys\<close>, four enumeration strategies, the last
    a live \<^verbatim>\<open>for ... in\<close> loop, \<open>forin_loop\<close>), \<open>keys\<close> and \<open>clearExpired\<close> with their
    callbacks; the sweep as a fold over the enumerated keys, and its effect as the
    inductive relation \<open>sweeps\<close>, whose properties are proved by rule induction.
  \<^item> \<open>JSON_Layer\<close>: \<open>setJson\<close> and \<open>getJson\<close> over a store: round trip, syntax errors, the
    type of the results.
  \<^item> \<open>Write_Failures\<close>: \<open>setItem\<close> when the store refuses the first or the second write,
    and which write an exception of \<open>setItem\<close> comes from.
  \<^item> \<open>API_Runs\<close>: the interface as a datatype of \<open>call\<close>s with their \<open>outcome\<close>s, \<open>step\<close>,
    \<open>run\<close>, the worlds \<open>reachable\<close> by calls, and the case rule \<open>step_ThrewE\<close> for calls
    that throw.
  \<^item> \<open>Abstract_Store\<close>: the contract of the wrapper as a map from keys to entries (a
    value, an optional expiry instant, whether the key is listed) with one operation per
    method; the abstraction \<open>abs_store\<close> that reads an entry off the two places of the
    store and its enumeration; the refinement of each method.
  \<^item> \<open>Refinement\<close>: the abstract step \<open>a_step\<close> and the simulation of runs.
  \<^item> \<open>Test_Suite\<close>: the five QUnit tests as lists of calls with the asserted outcomes
    (\<open>test_creation\<close>, \<open>test_basic\<close>, \<open>test_json\<close>, \<open>test_expiration\<close>,
    \<open>test_clear_expired\<close>), run by \<open>run_test\<close> on \<open>test_expired\<close> and on the browser's
    storage (\<open>web_expired\<close>; \<open>web_expired_legacy\<close> is a browser without \<^verbatim>\<open>Object.keys\<close>).
  \<^item> This theory: properties of whole runs and of every call of the interface.

  \<^bold>\<open>How the model corresponds to the code.\<close> Every method is a function of the instance \<open>E\<close>
  and the world \<open>w\<close> that returns the method's result and the world it leaves. Methods that
  can raise return \<open>error + result\<close>; the world is returned in both cases, because an
  exception after the first write of \<^verbatim>\<open>setItem\<close> leaves that write in place. The store is
  reached only through the record \<open>E\<close>, as the source reaches it only through
  \<^verbatim>\<open>this._storage\<close>; reads, removals and \<^verbatim>\<open>clear\<close> of a store do not fail, a write may. The
  general theorems are stated for any store, over the type variable of its state and the
  predicate \<open>store_contract\<close>; \<open>Test_Storage\<close> and \<open>Local_Storage\<close> discharge the contract
  for the two stores of the test suite. The clock is part of the world and does not move
  during a call; the tests' assignments to \<^verbatim>\<open>window._timestamp\<close> are updates of the \<open>clock\<close>
  field between calls. Keys are strings (byte lists); values are \<open>jsval\<close>.

  \<^bold>\<open>What is proved.\<close>
  \<^item> Expiry arithmetic: the expiry record written by \<open>setItem\<close> or \<open>updateExpiration\<close> is
    read back by \<open>getTimeLeft\<close> on every lawful store, as a number or as text; time left is
    \<open>T + t - T'\<close>; an item is expired from time left 0 on, and from then on unreadable.
  \<^item> Lazy eviction: \<open>getItem\<close> of an expired key returns \<^verbatim>\<open>null\<close> and removes value and
    record, touching nothing else; of a live key it returns the value and changes nothing.
  \<^item> Active sweep: after \<open>clearExpired\<close> no key is expired; it removes exactly what it
    returns; it returns the keys that were expired, as a set whenever no expiry record of
    an expiry record is stored, and in enumeration order on an enumeration without
    duplicates. This holds in all four branches of \<^verbatim>\<open>_iterKeys\<close>: the live \<^verbatim>\<open>for ... in\<close>
    loop skips only keys that read \<^verbatim>\<open>null\<close>, which the callback ignores anyway.
  \<^item> Enumeration: \<open>keys\<close> is a filter of the store's enumeration and evicts nothing.
  \<^item> Refinement: on a store that meets the contract, whose enumeration follows its writes
    and whose writes return nothing, every run of calls on keys without the prefix in
    which the store raises no exception is a run of the abstract map. Both stores of the
    suite are such stores.
  \<^item> The two stores of the suite meet the contract. The store invariant is kept by every
    operation and in every reachable world.
  \<^item> JSON: \<^verbatim>\<open>JSON.parse(JSON.stringify(v))\<close> is \<open>reparsed v\<close>, and \<open>v\<close> for canonical \<open>v\<close>; the
    parser never fails for lack of fuel; its results are JSON values; \<open>getJson\<close> after
    \<open>setJson\<close> returns the reparsed value on a store that keeps strings.
  \<^item> Errors: the constructor's outcome on every input; \<open>setJson\<close> of \<^verbatim>\<open>undefined\<close>; the
    syntax error of \<open>getJson\<close>; a refused first write changes nothing, a refused second
    write leaves the value with the old expiry; and no call throws anything else: an
    exception of the interface is a refused write of \<open>setItem\<close> or \<open>updateExpiration\<close>,
    \<open>setJson\<close> of \<^verbatim>\<open>undefined\<close>, or the syntax error of \<open>getJson\<close>.
  \<^item> Loading the file: at most one of the four export targets changes, only the class
    just defined becomes reachable, and a class already on the root object is kept.
  \<^item> The five tests of the suite pass on the dictionary store, and the four that use a
    storage pass on the browser's storage.
  \<^item> Behaviour the model brought out: an expiry instant of 0 counts as no expiry; \<open>setItem\<close>
    without a time to live on an expired key writes a value that the next read evicts;
    \<open>updateExpiration\<close> creates expiry records for absent keys; a key that begins with the
    prefix is another key's expiry record; a time to live given as text is concatenated
    to the timestamp; \<open>getJson\<close> throws for a missing key on a store whose \<^verbatim>\<open>getItem\<close>
    returns \<^verbatim>\<open>undefined\<close>; \<open>setItem\<close> with a time to live is not atomic; the export
    branch for CommonJS without \<^verbatim>\<open>module\<close> assigns to the local variable \<^verbatim>\<open>exports\<close> and
    so exports nothing.

  \<^bold>\<open>Bounds, fuel and assumptions.\<close> Numbers are mathematical integers: the model is exact
  where JavaScript's doubles are, that is for timestamps and sums below \<open>2\<^sup>5\<^sup>3\<close> in
  magnitude (decimal printing below \<open>10\<^sup>2\<^sup>1\<close>). Whitespace skipped by \<open>js_parseInt\<close> is the
  ASCII part of ECMAScript's. The loops of the source run over a finite key list and are
  folds or structural recursions. The JSON parser alone takes fuel, one unit per nested
  call: \<open>JSON_parse\<close> starts it with one more than the length of the text, and
  \<open>JSON_Fuel\<close> shows that a parse that succeeds with any fuel succeeds with that much, since
  every call consumes a character. JSON numbers are integers; a text with a fraction or
  an exponent is rejected by the model's parser. The quota of the browser's storage is a
  parameter; the suite runs with 5242880 characters. The world's state is that of one
  store: the suite's three storages are three instances, each with its own world.

  \<^bold>\<open>Not modelled.\<close> The module loaders themselves (what an AMD \<^verbatim>\<open>define\<close> or Node's
  \<^verbatim>\<open>require\<close> does with the class once it has it); property names inherited from \<^verbatim>\<open>Object.prototype\<close> in the
  dictionary store; numbers that are not integers; values of the store that are objects
  (the stores of the suite hold primitives); the \<^verbatim>\<open>storage\<close> events and the sharing of
  \<^verbatim>\<open>localStorage\<close> between pages, since the wrapper is used from one thread of control.
\<close>

section \<open>Properties of whole runs\<close>



text \<open>
  C23. Every item with a time to live becomes unreadable. After a successful
  \<^verbatim>\<open>setItem(k, v, t)\<close> with a numeric, non-zero \<open>t\<close> at time \<open>T\<close> (with \<open>T + t \<noteq> 0\<close>) there is
  an instant from which on, as long as nothing is written to \<open>k\<close>, \<^verbatim>\<open>getItem(k)\<close> returns
  \<^verbatim>\<open>null\<close> and leaves neither the value nor its expiry record in the store; that instant
  is \<open>T + t\<close>.
\<close>

theorem item_eventually_unreadable:
  assumes "store_contract E I repr" and "world_ok I w"
    and "fst (setItem E k v (JNum t) w) = Inr r" and "t \<noteq> 0" and "getTimestamp E w + t \<noteq> 0"
  shows "\<exists>T. \<forall>c. T \<le> getTimestamp_impl E c \<longrightarrow>
           fst (getItem E k ((snd (setItem E k v (JNum t) w))\<lparr>clock := c\<rparr>)) = JNull \<and>
           raw E (snd (getItem E k ((snd (setItem E k v (JNum t) w))\<lparr>clock := c\<rparr>))) k = JNull \<and>
           raw E (snd (getItem E k ((snd (setItem E k v (JNum t) w))\<lparr>clock := c\<rparr>)))
             (expiration_key k) = JNull"
proof (intro exI [of _ "getTimestamp E w + t"] allI impI)
  fix c assume late: "getTimestamp E w + t \<le> getTimestamp_impl E c"
  let ?w = "(snd (setItem E k v (JNum t) w))\<lparr>clock := c\<rparr>"
  have ok: "world_ok I ?w"
    using world_ok_setItem [OF assms(1,2), of k v "JNum t"] by (simp add: world_ok_def)
  have "raw E ?w (expiration_key k) = repr (JNum (getTimestamp E w + t))"
    using raw_setItem [OF assms(1-3), of "expiration_key k"] assms(4) by simp
  then have "isExpired E k ?w"
    using assms(5) late
    by (simp add: isExpired_def getTimeLeft_raw contract_parseInt_repr [OF assms(1)])
  then show "fst (getItem E k ?w) = JNull \<and> raw E (snd (getItem E k ?w)) k = JNull \<and>
      raw E (snd (getItem E k ?w)) (expiration_key k) = JNull"
    by (simp add: getItem_def raw_removeItem [OF assms(1) ok])
qed

theorem item_eventually_unreadable_witness:
  "\<exists>T. \<forall>c. T \<le> c \<longrightarrow>
     fst (getItem test_expired ''test''
       ((snd (setItem test_expired ''test'' (JStr ''foo'') (JNum 2) \<lparr>store = [], clock = 0\<rparr>))\<lparr>clock := c\<rparr>))
       = JNull"
proof -
  from item_eventually_unreadable [OF ts_contract world_ok_ts_empty [of 0] ts_setItem_ok,
      where t = 2 and k = "''test''" and v = "JStr ''foo''"]
  obtain T where "\<forall>c. T \<le> c \<longrightarrow>
     fst (getItem test_expired ''test''
       ((snd (setItem test_expired ''test'' (JStr ''foo'') (JNum 2) \<lparr>store = [], clock = 0\<rparr>))\<lparr>clock := c\<rparr>))
       = JNull"
    by auto
  then show ?thesis by blast
qed



end
